(* ===== verification/Prelude.thy ===== *)
theory Prelude
  imports Complex_Main "HOL-Library.AList" "HOL-Library.Multiset"
begin

text \<open>
  The JavaScript builtins that \<open>dashboard.js\<close> calls, as executable HOL functions, and
  the list lemmas the component theories share.
  \<^item> Strings are \<^typ>\<open>string\<close>, one \<^typ>\<open>char\<close> per UTF-16 code unit of the ASCII range;
    \<open>String.prototype.trim\<close> strips the ASCII white space and line terminators
    (\<open>js_ws\<close>), \<open>split\<close> with a one-character separator is \<open>split_on\<close>,
    \<open>Array.prototype.join\<close> is \<open>js_join\<close>, \<open>replace(/"/g, '')\<close> is \<open>strip_quotes\<close>.
  \<^item> JavaScript numbers are exact reals; a result that is \<open>NaN\<close> is \<open>None\<close> of a
    \<^typ>\<open>real option\<close>. \<open>Number(s)\<close> (the conversion \<open>isNaN\<close> applies to a string) is
    \<open>js_to_number\<close>, \<open>parseFloat\<close> is \<open>parseFloat\<close>: both read the ECMAScript decimal
    literal grammar with its sign, fraction and exponent, \<open>Number\<close> also reads the
    \<open>0x\<close>, \<open>0o\<close>, \<open>0b\<close> literals and the empty string. The spelling \<open>Infinity\<close>,
    which JavaScript reads as an infinite number, is outside the model's number domain and
    reads as \<open>NaN\<close> in both.
  \<^item> \<open>Math.round\<close> is \<open>js_round\<close> (ties towards \<open>+\<infinity>\<close>), \<open>toFixed\<close> is \<open>to_fixed\<close>
    (the nearest multiple of \<open>10\<^sup>-\<^sup>f\<close>, ties to the larger one, then printed).
\<close>

named_theorems js_simps "evaluation rules of the modelled JavaScript builtins"

type_synonym row = "(string \<times> string) list"

section \<open>Strings\<close>

definition js_ws_chars :: string where
  "js_ws_chars = [CHR 0x09, CHR 0x0A, CHR 0x0B, CHR 0x0C, CHR 0x0D, CHR 0x20]"

definition js_ws :: "char \<Rightarrow> bool" where
  "js_ws c \<longleftrightarrow> c \<in> set js_ws_chars"

definition trim_start :: "string \<Rightarrow> string" where
  "trim_start s = dropWhile js_ws s"

definition js_trim :: "string \<Rightarrow> string" where
  "js_trim s = rev (dropWhile js_ws (rev (dropWhile js_ws s)))"

fun split_on :: "char \<Rightarrow> string \<Rightarrow> string list" where
  "split_on c [] = [[]]"
| "split_on c (x # xs) =
     (let r = split_on c xs in if x = c then [] # r else (x # hd r) # tl r)"

fun js_join :: "string \<Rightarrow> string list \<Rightarrow> string" where
  "js_join sep [] = []"
| "js_join sep [x] = x"
| "js_join sep (x # xs) = x @ sep @ js_join sep xs"

definition strip_quotes :: "string \<Rightarrow> string" where
  "strip_quotes s = filter (\<lambda>c. c \<noteq> CHR 0x22) s"

definition js_lower_char :: "char \<Rightarrow> char" where
  "js_lower_char c =
     (case map_of (zip ''ABCDEFGHIJKLMNOPQRSTUVWXYZ'' ''abcdefghijklmnopqrstuvwxyz'') c of
        Some l \<Rightarrow> l
      | None \<Rightarrow> c)"

definition js_lower :: "string \<Rightarrow> string" where
  "js_lower s = map js_lower_char s"

definition js_upper_char :: "char \<Rightarrow> char" where
  "js_upper_char c =
     (case map_of (zip ''abcdefghijklmnopqrstuvwxyz'' ''ABCDEFGHIJKLMNOPQRSTUVWXYZ'') c of
        Some u \<Rightarrow> u
      | None \<Rightarrow> c)"

definition js_upper :: "string \<Rightarrow> string" where
  "js_upper s = map js_upper_char s"

text \<open>\<open>s.includes(t)\<close>: \<open>t\<close> occurs in \<open>s\<close> at some position.\<close>

primrec js_includes :: "string \<Rightarrow> string \<Rightarrow> bool" where
  "js_includes [] t = (t = [])"
| "js_includes (x # xs) t = (take (length t) (x # xs) = t \<or> js_includes xs t)"

section \<open>Numbers\<close>

definition is_digit :: "char \<Rightarrow> bool" where
  "is_digit c \<longleftrightarrow> 48 \<le> (of_char c :: nat) \<and> (of_char c :: nat) \<le> 57"

definition digits_nat :: "string \<Rightarrow> nat" where
  "digits_nat ds = foldl (\<lambda>n d. 10 * n + (of_char d - 48)) 0 ds"

definition scale10 :: "real \<Rightarrow> int \<Rightarrow> real" where
  "scale10 m e = (if 0 \<le> e then m * 10 ^ nat e else m / 10 ^ nat (- e))"

text \<open>\<open>ExponentPart\<close>: an \<open>e\<close> or \<open>E\<close>, a sign, digits; consumed only when digits follow.\<close>

definition scan_exponent :: "string \<Rightarrow> int \<times> string" where
  "scan_exponent s =
     (case s of
        c # r \<Rightarrow>
          if c = CHR ''e'' \<or> c = CHR ''E'' then
            (let (sg, r') = (case r of
                               d # r'' \<Rightarrow>
                                 if d = CHR ''+'' then (1::int, r'')
                                 else if d = CHR ''-'' then (-1, r'') else (1, r)
                             | [] \<Rightarrow> (1, r));
                 ds = takeWhile is_digit r'
             in if ds = [] then (0, s) else (sg * int (digits_nat ds), dropWhile is_digit r'))
          else (0, s)
      | [] \<Rightarrow> (0, []))"

text \<open>\<open>StrUnsignedDecimalLiteral\<close>, longest prefix: digits, an optional point and
  digits (at least one digit in all), an optional exponent.\<close>

definition scan_unsigned :: "string \<Rightarrow> (real \<times> string) option" where
  "scan_unsigned s =
     (let ip = takeWhile is_digit s; r1 = dropWhile is_digit s;
          (fp, r2) = (case r1 of
                        c # r \<Rightarrow> if c = CHR ''.'' then (takeWhile is_digit r, dropWhile is_digit r)
                                 else ([], r1)
                      | [] \<Rightarrow> ([], []))
      in if ip = [] \<and> fp = [] then None
         else (let (e, r3) = scan_exponent r2
               in Some (scale10 (real (digits_nat (ip @ fp)) / 10 ^ length fp) e, r3)))"

definition scan_decimal :: "string \<Rightarrow> (real \<times> string) option" where
  "scan_decimal s =
     (case s of
        c # r \<Rightarrow>
          if c = CHR ''+'' then scan_unsigned r
          else if c = CHR ''-'' then map_option (\<lambda>(v, r'). (- v, r')) (scan_unsigned r)
          else scan_unsigned s
      | [] \<Rightarrow> None)"

definition radix_digit :: "nat \<Rightarrow> char \<Rightarrow> nat option" where
  "radix_digit b c =
     (let k = (of_char c :: nat);
          d = (if 48 \<le> k \<and> k \<le> 57 then Some (k - 48)
               else if 97 \<le> k \<and> k \<le> 102 then Some (k - 87)
               else if 65 \<le> k \<and> k \<le> 70 then Some (k - 55) else None)
      in case d of Some v \<Rightarrow> if v < b then Some v else None | None \<Rightarrow> None)"

fun radix_value :: "nat \<Rightarrow> nat \<Rightarrow> string \<Rightarrow> nat option" where
  "radix_value b acc [] = Some acc"
| "radix_value b acc (c # cs) =
     (case radix_digit b c of None \<Rightarrow> None | Some d \<Rightarrow> radix_value b (b * acc + d) cs)"

definition non_decimal_literal :: "string \<Rightarrow> real option" where
  "non_decimal_literal t =
     (case t of
        z # p # ds \<Rightarrow>
          if z = CHR ''0'' \<and> ds \<noteq> [] then
            (if p = CHR ''x'' \<or> p = CHR ''X'' then map_option real (radix_value 16 0 ds)
             else if p = CHR ''o'' \<or> p = CHR ''O'' then map_option real (radix_value 8 0 ds)
             else if p = CHR ''b'' \<or> p = CHR ''B'' then map_option real (radix_value 2 0 ds)
             else None)
          else None
      | _ \<Rightarrow> None)"

text \<open>\<open>Number(s)\<close> for a string \<open>s\<close> (ECMAScript StringToNumber).\<close>

definition js_to_number :: "string \<Rightarrow> real option" where
  "js_to_number s =
     (let t = js_trim s
      in if t = [] then Some 0
         else (case scan_decimal t of
                 Some (v, []) \<Rightarrow> Some v
               | _ \<Rightarrow> non_decimal_literal t))"

definition js_isNaN :: "string \<Rightarrow> bool" where
  "js_isNaN s \<longleftrightarrow> js_to_number s = None"

definition parseFloat :: "string \<Rightarrow> real option" where
  "parseFloat s = map_option fst (scan_decimal (trim_start s))"

definition js_round :: "real \<Rightarrow> int" where
  "js_round x = \<lfloor>x + 1 / 2\<rfloor>"

fun nat_digits :: "nat \<Rightarrow> string" where
  "nat_digits n =
     (if n < 10 then [''0123456789'' ! n]
      else nat_digits (n div 10) @ [''0123456789'' ! (n mod 10)])"

definition fixed_nonneg :: "nat \<Rightarrow> real \<Rightarrow> string" where
  "fixed_nonneg f x =
     (let n = nat \<lfloor>x * 10 ^ f + 1 / 2\<rfloor>; m = nat_digits n
      in if f = 0 then m
         else (let m' = (if length m \<le> f then replicate (f + 1 - length m) (CHR ''0'') @ m else m);
                   k = length m'
               in take (k - f) m' @ ''.'' @ drop (k - f) m'))"

definition to_fixed :: "nat \<Rightarrow> real \<Rightarrow> string" where
  "to_fixed f x = (if x < 0 then ''-'' @ fixed_nonneg f (- x) else fixed_nonneg f x)"

text \<open>A number or \<open>NaN\<close> printed by \<open>toFixed\<close>.\<close>

definition fixed_or_nan :: "nat \<Rightarrow> real option \<Rightarrow> string" where
  "fixed_or_nan f v = (case v of None \<Rightarrow> ''NaN'' | Some x \<Rightarrow> to_fixed f x)"

text \<open>\<open>parseInt(s, 10)\<close>: leading white space, an optional sign, then the longest run of
  decimal digits; \<open>NaN\<close> when there is no digit.\<close>

definition js_parseInt10 :: "string \<Rightarrow> int option" where
  "js_parseInt10 s =
     (let t = trim_start s;
          (sign, rest) = (case t of
                            c # r \<Rightarrow> if c = CHR ''-'' then (-1, r) else if c = CHR ''+'' then (1, r) else (1, t)
                          | [] \<Rightarrow> (1, []));
          ds = takeWhile is_digit rest
      in if ds = [] then None else Some (sign * int (digits_nat ds)))"

text \<open>\<open>String(parseFloat(s))\<close> of a \<open>toFixed\<close> string \<open>s\<close>: the number prints without
  the trailing zeros of its fraction, and without the point when the fraction is zero.\<close>

definition fixed_number_string :: "string \<Rightarrow> string" where
  "fixed_number_string s =
     (if CHR ''.'' \<in> set s
      then (let t = rev (dropWhile (\<lambda>c. c = CHR ''0'') (rev s))
            in if last t = CHR ''.'' then butlast t else t)
      else s)"

text \<open>\<open>String(n)\<close> of an integral number: its decimal numeral, with a minus sign when
  negative.\<close>

definition int_string :: "int \<Rightarrow> string" where
  "int_string i = (if i < 0 then ''-'' @ nat_digits (nat (- i)) else nat_digits (nat i))"

section \<open>JSON\<close>

text \<open>\<open>JSON.stringify\<close> of strings, of objects with string values and of arrays of them
  (ECMAScript \<open>QuoteJSONString\<close>): a quote and a backslash are escaped, the control
  characters below \<open>0x20\<close> are written as \<open>\b\<close>, \<open>\t\<close>, \<open>\n\<close>, \<open>\f\<close>, \<open>\r\<close> or
  \<open>\u00XX\<close>. The engine lists integer-like keys of an object first; the model keeps the
  insertion order, which changes the order of the members but not the length of the
  text, the only thing the dashboard reads.\<close>

definition hex_digit :: "nat \<Rightarrow> char" where
  "hex_digit n = ''0123456789abcdef'' ! n"

definition json_char :: "char \<Rightarrow> string" where
  "json_char c =
     (if c = CHR 0x22 then [CHR 0x5C, CHR 0x22]
      else if c = CHR 0x5C then [CHR 0x5C, CHR 0x5C]
      else if c = CHR 0x08 then [CHR 0x5C, CHR ''b'']
      else if c = CHR 0x09 then [CHR 0x5C, CHR ''t'']
      else if c = CHR 0x0A then [CHR 0x5C, CHR ''n'']
      else if c = CHR 0x0C then [CHR 0x5C, CHR ''f'']
      else if c = CHR 0x0D then [CHR 0x5C, CHR ''r'']
      else if of_char c < (32::nat)
      then [CHR 0x5C, CHR ''u'', CHR ''0'', CHR ''0'', hex_digit (of_char c div 16), hex_digit (of_char c mod 16)]
      else [c])"

definition json_string :: "string \<Rightarrow> string" where
  "json_string s = [CHR 0x22] @ concat (map json_char s) @ [CHR 0x22]"

definition json_object :: "(string \<times> string) list \<Rightarrow> string" where
  "json_object r = ''{'' @ js_join '','' (map (\<lambda>(k, v). json_string k @ '':'' @ json_string v) r) @ ''}''"

definition json_array :: "(string \<times> string) list list \<Rightarrow> string" where
  "json_array rs = ''['' @ js_join '','' (map json_object rs) @ '']''"

section \<open>JSON values\<close>

text \<open>A value the backend's JSON answers hold, with \<open>undefined\<close> for a missing field:
  \<open>JsObj\<close> is an object, whose members the code here never reads.
  \<open>String(v)\<close> is \<open>js_string\<close> (an array joins its elements with commas,
  \<open>null\<close> and \<open>undefined\<close> elements as empty strings); the printing of a number is the
  parameter \<open>numStr\<close>. \<open>Number(v)\<close> is \<open>js_number\<close>: an array converts through its
  string, which holds a comma as soon as it has two elements.\<close>

datatype js_val = JsUndefined | JsNull | JsBool bool | JsNum real | JsStr string | JsArr "js_val list" | JsObj

fun js_string :: "(real \<Rightarrow> string) \<Rightarrow> js_val \<Rightarrow> string" where
  "js_string numStr JsUndefined = ''undefined''"
| "js_string numStr JsNull = ''null''"
| "js_string numStr (JsBool b) = (if b then ''true'' else ''false'')"
| "js_string numStr (JsNum x) = numStr x"
| "js_string numStr (JsStr s) = s"
| "js_string numStr (JsArr vs) =
     js_join '','' (map (\<lambda>v. if v = JsUndefined \<or> v = JsNull then [] else js_string numStr v) vs)"
| "js_string numStr JsObj = ''[object Object]''"

fun js_number :: "js_val \<Rightarrow> real option" where
  "js_number JsUndefined = None"
| "js_number JsNull = Some 0"
| "js_number (JsBool b) = Some (if b then 1 else 0)"
| "js_number (JsNum x) = Some x"
| "js_number (JsStr s) = js_to_number s"
| "js_number (JsArr []) = Some 0"
| "js_number (JsArr [v]) =
     (if v = JsUndefined \<or> v = JsNull then Some 0 else if \<exists>b. v = JsBool b then None else js_number v)"
| "js_number (JsArr (v # w # vs)) = None"
| "js_number JsObj = None"

definition js_truthy :: "js_val \<Rightarrow> bool" where
  "js_truthy v =
     (case v of
        JsUndefined \<Rightarrow> False
      | JsNull \<Rightarrow> False
      | JsBool b \<Rightarrow> b
      | JsNum x \<Rightarrow> x \<noteq> 0
      | JsStr s \<Rightarrow> s \<noteq> []
      | _ \<Rightarrow> True)"

declare js_ws_chars_def [js_simps] js_ws_def [js_simps] js_trim_def [js_simps]
  trim_start_def [js_simps] strip_quotes_def [js_simps] is_digit_def [js_simps]
  digits_nat_def [js_simps] scale10_def [js_simps] scan_exponent_def [js_simps]
  scan_unsigned_def [js_simps] scan_decimal_def [js_simps] radix_digit_def [js_simps]
  non_decimal_literal_def [js_simps] js_to_number_def [js_simps] js_isNaN_def [js_simps]
  parseFloat_def [js_simps] js_round_def [js_simps] fixed_nonneg_def [js_simps]
  to_fixed_def [js_simps] fixed_or_nan_def [js_simps] js_lower_char_def [js_simps]
  js_lower_def [js_simps] js_upper_char_def [js_simps] js_upper_def [js_simps] fixed_number_string_def [js_simps] hex_digit_def [js_simps]
  json_char_def [js_simps] json_string_def [js_simps] json_object_def [js_simps]
  json_array_def [js_simps] js_parseInt10_def [js_simps] int_string_def [js_simps]


declare nat_digits.simps [simp del]

lemma nat_digits_less [js_simps]: "n < 10 \<Longrightarrow> nat_digits n = [''0123456789'' ! n]"
  by (simp add: nat_digits.simps)

lemma nat_digits_ge [js_simps]:
  "\<not> n < 10 \<Longrightarrow> nat_digits n = nat_digits (n div 10) @ [''0123456789'' ! (n mod 10)]"
  by (subst nat_digits.simps) simp

section \<open>Shared lemmas\<close>

lemma split_on_not_Nil [simp]: "split_on c s \<noteq> []"
  by (induction s) (simp_all add: Let_def)

lemma split_on_sep_free: "w \<in> set (split_on c s) \<Longrightarrow> c \<notin> set w"
proof (induction s arbitrary: w)
  case Nil
  then show ?case by simp
next
  case (Cons x xs)
  have "hd (split_on c xs) \<in> set (split_on c xs)" by simp
  moreover have "set (tl (split_on c xs)) \<subseteq> set (split_on c xs)"
    by (simp add: list.set_sel(2) subsetI)
  ultimately show ?case
    using Cons by (auto simp: Let_def split: if_splits)
qed

lemma set_js_trim: "set (js_trim s) \<subseteq> set s"
proof
  fix x
  assume "x \<in> set (js_trim s)"
  then have "x \<in> set (dropWhile js_ws (rev (dropWhile js_ws s)))" by (simp add: js_trim_def)
  then have "x \<in> set (rev (dropWhile js_ws s))" by (rule set_dropWhileD)
  then show "x \<in> set s" by (auto dest: set_dropWhileD)
qed

lemma concat_split_on: "concat (split_on c s) = filter (\<lambda>x. x \<noteq> c) s"
proof (induction s)
  case Nil
  then show ?case by simp
next
  case (Cons x xs)
  have "hd (split_on c xs) @ concat (tl (split_on c xs)) = concat (split_on c xs)"
    by (cases "split_on c xs") auto
  with Cons show ?case by (simp add: Let_def)
qed

lemma set_strip_quotes [simp]: "set (strip_quotes s) = set s - {CHR 0x22}"
  by (auto simp: strip_quotes_def)

lemma set_update_subset: "set (AList.update k v al) \<subseteq> insert (k, v) (set al)"
  by (induction al) auto

lemma foldl_add_sum_list: "foldl (\<lambda>c x. c + f x) a xs = a + sum_list (map f xs)"
  by (induction xs arbitrary: a) (simp_all add: add.assoc)

lemma foldl_count_filter:
  "foldl (\<lambda>c x. if P x then Suc c else c) a xs = a + length (filter P xs)"
  by (induction xs arbitrary: a) simp_all

lemma js_trim_Nil [simp]: "js_trim [] = []"
  by (simp add: js_trim_def)

lemma sum_list_indicator: "(\<Sum>x\<leftarrow>xs. if P x then 1 else 0) = length (filter P xs)"
  by (induction xs) simp_all

subsection \<open>\<open>Number\<close> against \<open>parseFloat\<close>\<close>

lemma scan_unsigned_digit: "is_digit c \<Longrightarrow> scan_unsigned (c # r) \<noteq> None"
  by (simp add: scan_unsigned_def Let_def split: prod.split list.split)

lemma scan_unsigned_dot: "is_digit d \<Longrightarrow> scan_unsigned (CHR ''.'' # d # r) \<noteq> None"
  by (simp add: scan_unsigned_def Let_def is_digit_def split: prod.split list.split)

lemma scan_unsigned_not_digit:
  assumes "scan_unsigned (c # r) \<noteq> None" and "\<not> is_digit c"
  shows "c = CHR ''.'' \<and> (\<exists>d r'. r = d # r' \<and> is_digit d)"
proof -
  have "takeWhile is_digit r \<noteq> [] \<and> c = CHR ''.''"
    using assms by (auto simp: scan_unsigned_def Let_def split: prod.splits list.splits if_splits)
  then show ?thesis by (cases r) (auto split: if_splits)
qed

lemma scan_unsigned_append: "scan_unsigned s \<noteq> None \<Longrightarrow> scan_unsigned (s @ w) \<noteq> None"
proof (cases s)
  case Nil
  assume "scan_unsigned s \<noteq> None"
  with Nil show ?thesis by (simp add: scan_unsigned_def)
next
  case (Cons c r)
  assume sc: "scan_unsigned s \<noteq> None"
  show ?thesis
  proof (cases "is_digit c")
    case True
    with Cons show ?thesis by (simp add: scan_unsigned_digit)
  next
    case False
    with sc Cons obtain d r' where "c = CHR ''.''" and "r = d # r'" and "is_digit d"
      using scan_unsigned_not_digit by blast
    with Cons show ?thesis by (simp add: scan_unsigned_dot)
  qed
qed

lemma scan_decimal_append: "scan_decimal s \<noteq> None \<Longrightarrow> scan_decimal (s @ w) \<noteq> None"
proof -
  assume a: "scan_decimal s \<noteq> None"
  show ?thesis
  proof (cases s)
    case Nil
    with a show ?thesis by (simp add: scan_decimal_def)
  next
    case (Cons c r)
    consider "c = CHR ''+''" | "c = CHR ''-''" | "c \<noteq> CHR ''+'' \<and> c \<noteq> CHR ''-''" by blast
    then show ?thesis
    proof cases
      case 1
      with a Cons have "scan_unsigned r \<noteq> None" by (simp add: scan_decimal_def)
      then have "scan_unsigned (r @ w) \<noteq> None" by (rule scan_unsigned_append)
      with 1 Cons show ?thesis by (simp add: scan_decimal_def)
    next
      case 2
      with a Cons have "scan_unsigned r \<noteq> None" by (simp add: scan_decimal_def)
      then have "scan_unsigned (r @ w) \<noteq> None" by (rule scan_unsigned_append)
      with 2 Cons show ?thesis by (simp add: scan_decimal_def)
    next
      case 3
      with a Cons have "scan_unsigned (c # r) \<noteq> None" by (simp add: scan_decimal_def)
      then have "scan_unsigned ((c # r) @ w) \<noteq> None" by (rule scan_unsigned_append)
      with 3 Cons show ?thesis by (simp add: scan_decimal_def)
    qed
  qed
qed

lemma non_decimal_literal_Some: "non_decimal_literal t \<noteq> None \<Longrightarrow> \<exists>p ds. t = CHR ''0'' # p # ds"
  by (auto simp: non_decimal_literal_def split: list.splits if_splits)

lemma js_to_number_scan:
  assumes "js_trim s \<noteq> []" and "js_to_number s \<noteq> None"
  shows "scan_decimal (js_trim s) \<noteq> None"
proof (rule ccontr)
  assume none: "\<not> scan_decimal (js_trim s) \<noteq> None"
  then have "scan_decimal (js_trim s) = None" by (rule notnotD)
  with assms(1) have "js_to_number s = non_decimal_literal (js_trim s)"
    by (simp add: js_to_number_def Let_def)
  with assms(2) have "non_decimal_literal (js_trim s) \<noteq> None" by simp
  then obtain p ds where t: "js_trim s = CHR ''0'' # p # ds"
    using non_decimal_literal_Some by blast
  have "scan_unsigned (CHR ''0'' # p # ds) \<noteq> None"
    by (rule scan_unsigned_digit) (simp add: is_digit_def)
  with none t show False by (simp add: scan_decimal_def)
qed

lemma trim_start_js_trim: "\<exists>w. trim_start s = js_trim s @ w"
proof -
  let ?d = "dropWhile js_ws s"
  have "?d = rev (rev ?d)" by simp
  also have "rev ?d = takeWhile js_ws (rev ?d) @ dropWhile js_ws (rev ?d)" by simp
  finally have "?d = rev (dropWhile js_ws (rev ?d)) @ rev (takeWhile js_ws (rev ?d))"
    by (metis rev_append)
  then show ?thesis by (auto simp: trim_start_def js_trim_def)
qed

lemma parseFloat_of_number:
  assumes "js_trim s \<noteq> []" and "\<not> js_isNaN s"
  shows "parseFloat s \<noteq> None"
proof -
  obtain w where w: "trim_start s = js_trim s @ w" using trim_start_js_trim by blast
  from assms have "scan_decimal (js_trim s) \<noteq> None"
    by (simp add: js_to_number_scan js_isNaN_def)
  then have "scan_decimal (js_trim s @ w) \<noteq> None" by (rule scan_decimal_append)
  with w show ?thesis by (simp add: parseFloat_def)
qed

subsection \<open>Counting and extremes\<close>

lemma length_filter_mono_pred:
  "(\<And>x. P x \<Longrightarrow> Q x) \<Longrightarrow> length (filter P xs) \<le> length (filter Q xs)"
  by (induction xs) auto

lemma fold_min_le: "x \<in> set (v # vs) \<Longrightarrow> fold min vs (v::real) \<le> x"
proof (induction vs arbitrary: v x)
  case Nil
  then show ?case by simp
next
  case (Cons a vs)
  have "fold min vs (min a v) \<le> min a v" by (rule Cons.IH) simp
  moreover have "x \<in> set vs \<Longrightarrow> fold min vs (min a v) \<le> x" by (rule Cons.IH) simp
  ultimately show ?case using Cons.prems by auto
qed

lemma fold_min_in: "fold min vs (v::real) \<in> set (v # vs)"
  by (induction vs arbitrary: v) (auto simp: min_def)

lemma fold_max_ge: "x \<in> set (v # vs) \<Longrightarrow> x \<le> fold max vs (v::real)"
proof (induction vs arbitrary: v x)
  case Nil
  then show ?case by simp
next
  case (Cons a vs)
  have "max a v \<le> fold max vs (max a v)" by (rule Cons.IH) simp
  moreover have "x \<in> set vs \<Longrightarrow> x \<le> fold max vs (max a v)" by (rule Cons.IH) simp
  ultimately show ?case using Cons.prems by auto
qed

lemma fold_max_in: "fold max vs (v::real) \<in> set (v # vs)"
  by (induction vs arbitrary: v) (auto simp: max_def)

lemma mean_between:
  assumes "\<And>x. x \<in> set xs \<Longrightarrow> lo \<le> x \<and> x \<le> (hi::real)" and "xs \<noteq> []"
  shows "lo \<le> sum_list xs / real (length xs) \<and> sum_list xs / real (length xs) \<le> hi"
proof -
  have "(\<Sum>x\<leftarrow>xs. lo) \<le> (\<Sum>x\<leftarrow>xs. x)"
    using sum_list_mono [of xs "\<lambda>_. lo" "\<lambda>x. x"] assms(1) by simp
  moreover have "(\<Sum>x\<leftarrow>xs. x) \<le> (\<Sum>x\<leftarrow>xs. hi)"
    using sum_list_mono [of xs "\<lambda>x. x" "\<lambda>_. hi"] assms(1) by simp
  moreover have "0 < real (length xs)" using assms(2) by simp
  ultimately show ?thesis
    by (simp add: sum_list_triv pos_le_divide_eq pos_divide_le_eq mult.commute)
qed

text \<open>Sums of reals: Cauchy--Schwarz through the Lagrange identity.\<close>

lemma lagrange_sum:
  fixes f g :: "'a \<Rightarrow> real"
  shows "(\<Sum>i\<in>S. \<Sum>j\<in>S. (f i * g j - f j * g i)\<^sup>2) =
         2 * ((\<Sum>i\<in>S. (f i)\<^sup>2) * (\<Sum>i\<in>S. (g i)\<^sup>2)) - 2 * (\<Sum>i\<in>S. f i * g i)\<^sup>2"
proof -
  have e: "(f i * g j - f j * g i)\<^sup>2 =
           (f i)\<^sup>2 * (g j)\<^sup>2 + (g i)\<^sup>2 * (f j)\<^sup>2 - 2 * ((f i * g i) * (f j * g j))" for i j
    by (simp add: power2_eq_square algebra_simps)
  have "(\<Sum>i\<in>S. \<Sum>j\<in>S. (g i)\<^sup>2 * (f j)\<^sup>2) = (\<Sum>i\<in>S. (f i)\<^sup>2) * (\<Sum>i\<in>S. (g i)\<^sup>2)"
    by (subst sum.swap) (simp add: sum_product mult.commute)
  then show ?thesis
    by (simp add: e sum.distrib sum_subtractf sum_product power2_eq_square[of "sum _ _"]
                  sum_distrib_left[symmetric])
qed

lemma cauchy_schwarz_sum:
  fixes f g :: "'a \<Rightarrow> real"
  shows "(\<Sum>i\<in>S. f i * g i)\<^sup>2 \<le> (\<Sum>i\<in>S. (f i)\<^sup>2) * (\<Sum>i\<in>S. (g i)\<^sup>2)"
proof -
  have "0 \<le> (\<Sum>i\<in>S. \<Sum>j\<in>S. (f i * g j - f j * g i)\<^sup>2)"
    by (intro sum_nonneg) simp
  then show ?thesis by (simp add: lagrange_sum)
qed

lemma sum_list_map_nth: "(\<Sum>x\<leftarrow>xs. f x) = (\<Sum>i<length xs. f (xs ! i) :: real)"
  using sum_list_sum_nth [of "map f xs"] by (simp add: atLeast0LessThan)

lemma split_on_no_sep: "c \<notin> set xs \<Longrightarrow> split_on c xs = [xs]"
  by (induction xs) (auto simp: Let_def)

lemma split_on_append_sep: "c \<notin> set xs \<Longrightarrow> split_on c (xs @ c # ys) = xs # split_on c ys"
  by (induction xs) (auto simp: Let_def)

text \<open>\<open>split\<close> undoes \<open>join\<close> when no part holds the separator, and splitting the
  text of terminated lines gives the lines and the empty rest.\<close>

lemma split_on_join:
  "xs \<noteq> [] \<Longrightarrow> \<forall>x\<in>set xs. c \<notin> set x \<Longrightarrow> split_on c (js_join [c] xs) = xs"
proof (induction xs)
  case (Cons x xs)
  then show ?case
    by (cases xs) (simp_all add: split_on_no_sep split_on_append_sep)
qed simp

lemma split_on_lines:
  "\<forall>l\<in>set ls. c \<notin> set l \<Longrightarrow> split_on c (concat (map (\<lambda>l. l @ [c]) ls)) = ls @ [[]]"
  by (induction ls) (simp_all add: split_on_append_sep)

lemma js_trim_id:
  assumes "\<not> js_ws (hd s)" and "\<not> js_ws (last s)" and "s \<noteq> []"
  shows "js_trim s = s"
proof -
  have "dropWhile js_ws s = s" using assms(1,3) by (cases s) simp_all
  moreover have "dropWhile js_ws (rev s) = rev s"
    using assms(2,3) by (cases "rev s") (simp_all add: last_rev [symmetric])
  ultimately show ?thesis by (simp add: js_trim_def)
qed

lemma strip_quotes_id: "CHR 0x22 \<notin> set s \<Longrightarrow> strip_quotes s = s"
  by (induction s) (auto simp: strip_quotes_def)

lemma js_join_Cons: "xs \<noteq> [] \<Longrightarrow> js_join sep (x # xs) = x @ sep @ js_join sep xs"
  by (cases xs) simp_all

lemma dropWhile_all: "(\<forall>x\<in>set (dropWhile P s). P x) \<longleftrightarrow> (\<forall>x\<in>set s. P x)"
  by (induction s) auto

lemma js_trim_Nil_iff: "js_trim s = [] \<longleftrightarrow> (\<forall>c\<in>set s. js_ws c)"
  by (simp add: js_trim_def dropWhile_eq_Nil_conv dropWhile_all)

lemma set_js_join: "set (js_join sep xs) \<subseteq> set sep \<union> \<Union> (set ` set xs)"
  by (induction sep xs rule: js_join.induct) auto

lemma js_join_merge:
  "js_join [c] (ys @ (a @ [c] @ b) # zs) = js_join [c] (ys @ a # b # zs)"
proof (induction ys)
  case Nil
  then show ?case by (cases zs) simp_all
next
  case (Cons y ys)
  then show ?case by (simp add: js_join_Cons)
qed

lemma js_trim_snoc: "\<not> js_ws c \<Longrightarrow> js_trim (t @ [c]) = trim_start t @ [c]"
  by (simp add: js_trim_def trim_start_def dropWhile_append)

lemma set_trim_start: "set (trim_start t) \<subseteq> set t"
  by (simp add: trim_start_def set_dropWhileD subsetI)

lemma quote_ws: "\<not> js_ws (CHR 0x22)"
  by (simp add: js_ws_def js_ws_chars_def)

text \<open>\<open>nat_digits\<close> prints a decimal numeral that \<open>digits_nat\<close> reads back.\<close>

lemma of_char_digit: "k < 10 \<Longrightarrow> of_char (''0123456789'' ! k) = (48 + k :: nat)"
  by (auto simp: less_Suc_eq eval_nat_numeral)
lemma digits_nat_snoc: "digits_nat (xs @ [d]) = 10 * digits_nat xs + (of_char d - 48)"
  by (simp add: digits_nat_def)
lemma nat_digits_inv: "digits_nat (nat_digits n) = n \<and> list_all is_digit (nat_digits n)"
proof (induction n rule: nat_digits.induct)
  case (1 n)
  show ?case
  proof (cases "n < 10")
    case True
    then show ?thesis using of_char_digit [of n] by (simp add: nat_digits_less digits_nat_def is_digit_def)
  next
    case False
    then show ?thesis using 1 of_char_digit [of "n mod 10"]
      by (simp add: nat_digits_ge digits_nat_snoc is_digit_def)
  qed
qed
lemma length_nat_digits: "10 ^ k \<le> n \<Longrightarrow> n < 10 ^ Suc k \<Longrightarrow> length (nat_digits n) = Suc k"
proof (induction k arbitrary: n)
  case 0
  then show ?case by (simp add: nat_digits_less)
next
  case (Suc k)
  have "10 ^ k \<le> n div 10" using Suc.prems(1) by (simp add: less_eq_div_iff_mult_less_eq mult.commute)
  moreover have "n div 10 < 10 ^ Suc k" using Suc.prems(2) by (simp add: div_less_iff_less_mult mult.commute)
  ultimately have "length (nat_digits (n div 10)) = Suc k" by (rule Suc.IH)
  moreover have "\<not> n < 10" using Suc.prems(1) by (simp add: not_less order_trans [OF _ Suc.prems(1)])
  ultimately show ?case by (simp add: nat_digits_ge)
qed

lemma length_filter_update_less:
  "i < length xs \<Longrightarrow> P (xs ! i) \<Longrightarrow> \<not> P t \<Longrightarrow> length (filter P (xs[i := t])) < length (filter P xs)"
proof (induction xs arbitrary: i)
  case Nil
  then show ?case by simp
next
  case (Cons x xs)
  then show ?case by (cases i) auto
qed

end
