(* ===== verification/CsvParse.thy ===== *)
theory CsvParse
  imports Prelude
begin

text \<open>
  CSV ingestion: \<open>parseCSV\<close> of \<open>dashboard.js\<close> (lines 279--294). The text is split at
  line feeds, blank lines are dropped, the first remaining line gives the headers, every
  further line one row. A row is the JavaScript object built by
  \<open>headers.forEach((header, index) => row[header] = values[index] || '')\<close>: an
  association list in property order, where setting a property that exists keeps its
  place (\<^const>\<open>AList.update\<close>). Reading \<open>lines[0].split\<close> of an empty array throws a
  \<open>TypeError\<close>, the \<open>Inl\<close> result.
\<close>

datatype parse_error = TypeError

record dataset =
  headers :: "string list"
  data :: "row list"
  rawText :: string

definition split_fields :: "string \<Rightarrow> string list" where
  "split_fields line = map (\<lambda>v. strip_quotes (js_trim v)) (split_on (CHR '','') line)"

text \<open>\<open>values[index] || ''\<close>: an index past the end reads \<open>undefined\<close>, which is falsy.\<close>

definition field_at :: "string list \<Rightarrow> nat \<Rightarrow> string" where
  "field_at vs i = (if i < length vs then vs ! i else [])"

definition mk_row :: "string list \<Rightarrow> string list \<Rightarrow> row" where
  "mk_row hs vs = fold (\<lambda>(i, h) r. AList.update h (field_at vs i) r) (enumerate 0 hs) []"

definition nonblank_lines :: "string \<Rightarrow> string list" where
  "nonblank_lines text = filter (\<lambda>l. js_trim l \<noteq> []) (split_on (CHR 0x0A) text)"

definition parseCSV :: "string \<Rightarrow> parse_error + dataset" where
  "parseCSV text =
     (case nonblank_lines text of
        [] \<Rightarrow> Inl TypeError
      | l # ls \<Rightarrow>
          (let hs = split_fields l
           in Inr \<lparr>headers = hs, data = map (\<lambda>line. mk_row hs (split_fields line)) ls,
                   rawText = text\<rparr>))"

text \<open>\<open>row[header]\<close>. Every row of a parsed table has every header as a key
  (\<open>mk_row_keys\<close>); a missing key would read \<open>undefined\<close>, which every use in the code
  treats as the empty string does.\<close>

definition cell :: "row \<Rightarrow> string \<Rightarrow> string" where
  "cell r h = (case map_of r h of Some v \<Rightarrow> v | None \<Rightarrow> [])"

definition wf_dataset :: "dataset \<Rightarrow> bool" where
  "wf_dataset ds \<longleftrightarrow>
     (\<forall>r \<in> set (data ds). distinct (map fst r) \<and> set (map fst r) = set (headers ds))"

section \<open>Rows\<close>

lemma map_of_fold_update:
  "map_of (fold (\<lambda>(i, h) r. AList.update h (f i) r) xs r) =
   fold (\<lambda>(i, h) m. m(h \<mapsto> f i)) xs (map_of r)"
  by (induction xs arbitrary: r) (auto simp: update_conv')

lemma fold_map_upd_other:
  "h \<notin> snd ` set xs \<Longrightarrow> fold (\<lambda>(i, h) m. m(h \<mapsto> f i)) xs m h = m h"
  by (induction xs arbitrary: m) auto

lemma fold_map_upd_distinct:
  "distinct (map snd xs) \<Longrightarrow> (i, h) \<in> set xs \<Longrightarrow>
   fold (\<lambda>(i, h) m. m(h \<mapsto> f i)) xs m h = Some (f i)"
proof (induction xs arbitrary: m)
  case Nil
  then show ?case by simp
next
  case (Cons p xs)
  obtain j k where p: "p = (j, k)" by fastforce
  show ?case
  proof (cases "(i, h) = p")
    case True
    with Cons.prems p have "h \<notin> snd ` set xs" by force
    then have "fold (\<lambda>(i, h) m. m(h \<mapsto> f i)) xs (m(h \<mapsto> f i)) h = (m(h \<mapsto> f i)) h"
      by (rule fold_map_upd_other)
    with True p show ?thesis by (simp del: fun_upd_apply) simp
  next
    case False
    with Cons.prems have d: "distinct (map snd xs)" and mem: "(i, h) \<in> set xs" by auto
    have "fold (\<lambda>(i, h) m. m(h \<mapsto> f i)) xs (m(k \<mapsto> f j)) h = Some (f i)"
      by (rule Cons.IH [OF d mem])
    then show ?thesis by (simp add: p del: fun_upd_apply)
  qed
qed

lemma fold_update_keys:
  "distinct (map fst r) \<Longrightarrow>
   distinct (map fst (fold (\<lambda>(i, h) r. AList.update h (f i) r) xs r)) \<and>
   set (map fst (fold (\<lambda>(i, h) r. AList.update h (f i) r) xs r)) = set (map fst r) \<union> snd ` set xs"
proof (induction xs arbitrary: r)
  case Nil
  then show ?case by simp
next
  case (Cons p xs)
  obtain i h where p: "p = (i, h)" by fastforce
  have "distinct (map fst (AList.update h (f i) r))"
    using Cons.prems by (rule distinct_update)
  moreover have "set (map fst (AList.update h (f i) r)) = insert h (set (map fst r))"
    using dom_update [of h "f i" r] by simp
  ultimately show ?case
    using Cons.IH [of "AList.update h (f i) r"] by (auto simp: p)
qed

lemma mk_row_keys:
  "distinct (map fst (mk_row hs vs)) \<and> set (map fst (mk_row hs vs)) = set hs"
proof -
  have "snd ` set (enumerate 0 hs) = set hs"
    by (metis list.set_map map_snd_enumerate)
  then show ?thesis
    using fold_update_keys [of "[]" "field_at vs" "enumerate 0 hs"]
    by (simp add: mk_row_def)
qed

lemma mk_row_dom: "fst ` set (mk_row hs vs) = set hs"
  by (metis list.set_map mk_row_keys)

lemma cell_mk_row_nth:
  assumes "distinct hs" and "i < length hs"
  shows "cell (mk_row hs vs) (hs ! i) = field_at vs i"
proof -
  have "distinct (map snd (enumerate 0 hs))" using assms(1) by simp
  moreover have "(i, hs ! i) \<in> set (enumerate 0 hs)"
    using assms(2) by (simp add: in_set_enumerate_eq)
  ultimately have "fold (\<lambda>(i, h) m. m(h \<mapsto> field_at vs i)) (enumerate 0 hs) Map.empty (hs ! i) =
      Some (field_at vs i)"
    by (rule fold_map_upd_distinct)
  then show ?thesis by (simp add: cell_def mk_row_def map_of_fold_update)
qed

lemma map_field_at_upt:
  "map (field_at vs) [0..<n] = take n (vs @ replicate n [])"
  by (rule nth_equalityI) (auto simp: field_at_def nth_append)

lemma map_cell_mk_row:
  "distinct hs \<Longrightarrow> map (cell (mk_row hs vs)) hs = take (length hs) (vs @ replicate (length hs) [])"
proof -
  assume d: "distinct hs"
  have "map (cell (mk_row hs vs)) hs = map (field_at vs) [0..<length hs]"
    by (rule nth_equalityI) (simp_all add: cell_mk_row_nth [OF d])
  then show ?thesis by (simp add: map_field_at_upt)
qed

lemma fold_update_values:
  "snd ` set (fold (\<lambda>(i, h) r. AList.update h (f i) r) xs r) \<subseteq> snd ` set r \<union> f ` fst ` set xs"
proof (induction xs arbitrary: r)
  case Nil
  then show ?case by simp
next
  case (Cons p xs)
  obtain i h where p: "p = (i, h)" by fastforce
  have "snd ` set (AList.update h (f i) r) \<subseteq> insert (f i) (snd ` set r)"
    using set_update_subset [of h "f i" r] by auto
  with Cons.IH [of "AList.update h (f i) r"] show ?case by (auto simp: p)
qed

lemma mk_row_values: "(k, v) \<in> set (mk_row hs vs) \<Longrightarrow> v = [] \<or> v \<in> set vs"
proof -
  assume kv: "(k, v) \<in> set (mk_row hs vs)"
  have "snd ` set (mk_row hs vs) \<subseteq> field_at vs ` fst ` set (enumerate 0 hs)"
    using fold_update_values [of "field_at vs" "enumerate 0 hs" "[]"] by (simp add: mk_row_def)
  with kv have "v \<in> field_at vs ` UNIV" by force
  then show ?thesis by (auto simp: field_at_def)
qed

lemma split_fields_clean:
  "w \<in> set (split_fields l) \<Longrightarrow> CHR 0x22 \<notin> set w \<and> CHR '','' \<notin> set w \<and> set w \<subseteq> set l"
proof -
  assume "w \<in> set (split_fields l)"
  then obtain v where v: "v \<in> set (split_on (CHR '','') l)" and w: "w = strip_quotes (js_trim v)"
    by (auto simp: split_fields_def)
  have "set v \<subseteq> set l"
  proof -
    have "concat (split_on (CHR '','') l) = filter (\<lambda>x. x \<noteq> CHR '','') l"
      by (rule concat_split_on)
    moreover have "set v \<subseteq> set (concat (split_on (CHR '','') l))"
      using v by auto
    ultimately show ?thesis by auto
  qed
  moreover have "CHR '','' \<notin> set v" using v by (rule split_on_sep_free)
  ultimately show ?thesis using set_js_trim [of v] w by auto
qed

section \<open>Properties of the parser\<close>

lemma nonblank_lines_lf_free: "l \<in> set (nonblank_lines text) \<Longrightarrow> CHR 0x0A \<notin> set l"
  by (auto simp: nonblank_lines_def dest: split_on_sep_free)

text \<open>C1: \<open>parseCSV\<close> fails, with the \<open>TypeError\<close> of reading \<open>lines[0]\<close>,
  exactly when the text has no line that is non-blank after trimming.\<close>

theorem parseCSV_error_iff:
  "parseCSV text = Inl TypeError \<longleftrightarrow> (\<forall>l \<in> set (split_on (CHR 0x0A) text). js_trim l = [])"
proof -
  have "parseCSV text = Inl TypeError \<longleftrightarrow> nonblank_lines text = []"
    by (simp add: parseCSV_def Let_def split: list.split)
  also have "\<dots> \<longleftrightarrow> (\<forall>l \<in> set (split_on (CHR 0x0A) text). js_trim l = [])"
    by (simp add: nonblank_lines_def filter_empty_conv)
  finally show ?thesis .
qed

theorem parseCSV_error_iff_witness:
  "parseCSV '' \<newline>  \<newline>'' = Inl TypeError \<and> parseCSV ''a\<newline>'' \<noteq> Inl TypeError"
proof -
  have blank: "\<forall>l \<in> set (split_on (CHR 0x0A) '' \<newline>  \<newline>''). js_trim l = []"
    by (simp add: js_simps)
  have nonblank: "\<not> (\<forall>l \<in> set (split_on (CHR 0x0A) ''a\<newline>''). js_trim l = [])"
    by (simp add: js_simps)
  show ?thesis
    using parseCSV_error_iff [of "'' \<newline>  \<newline>''"] parseCSV_error_iff [of "''a\<newline>''"]
      blank nonblank by blast
qed

text \<open>C2: Every row of a parsed table has exactly the header names as its keys, each once.\<close>

theorem parseCSV_wf: "parseCSV text = Inr ds \<Longrightarrow> wf_dataset ds"
proof -
  assume "parseCSV text = Inr ds"
  then obtain l ls where
    "ds = \<lparr>headers = split_fields l,
           data = map (\<lambda>line. mk_row (split_fields l) (split_fields line)) ls, rawText = text\<rparr>"
    by (auto simp: parseCSV_def Let_def split: list.splits)
  then show ?thesis using mk_row_keys by (simp add: wf_dataset_def)
qed

theorem parseCSV_wf_witness: "wf_dataset (projr (parseCSV ''a,b\<newline>1''))"
proof -
  have "parseCSV ''a,b\<newline>1'' = Inr (projr (parseCSV ''a,b\<newline>1''))"
    by (simp add: parseCSV_def nonblank_lines_def Let_def js_simps)
  then show ?thesis by (rule parseCSV_wf)
qed

text \<open>C3: With distinct headers, the table has one row per non-blank line after the header
  line, and row \<open>i\<close> holds the first \<open>n\<close> fields of line \<open>i + 1\<close>, padded with
  empty strings when the line is short (\<open>n\<close> the number of headers): extra fields are
  dropped, missing ones are empty.\<close>

theorem parseCSV_fields:
  assumes "parseCSV text = Inr ds" and "distinct (headers ds)" and "i < length (data ds)"
  shows "length (data ds) = length (nonblank_lines text) - 1 \<and>
         map (cell (data ds ! i)) (headers ds) =
           take (length (headers ds))
             (split_fields (nonblank_lines text ! Suc i) @ replicate (length (headers ds)) [])"
proof -
  from assms(1) obtain l ls where nb: "nonblank_lines text = l # ls"
    and ds: "ds = \<lparr>headers = split_fields l,
                  data = map (\<lambda>line. mk_row (split_fields l) (split_fields line)) ls, rawText = text\<rparr>"
    by (auto simp: parseCSV_def Let_def split: list.splits)
  with assms(2,3) show ?thesis by (simp add: map_cell_mk_row)
qed

theorem parseCSV_fields_witness:
  "map (cell (data (projr (parseCSV ''a,b,c\<newline>1,2,3,4,5\<newline>7,8'')) ! 0)) [''a'', ''b'', ''c''] =
     [''1'', ''2'', ''3''] \<and>
   map (cell (data (projr (parseCSV ''a,b,c\<newline>1,2,3,4,5\<newline>7,8'')) ! 1)) [''a'', ''b'', ''c''] =
     [''7'', ''8'', []]"
proof -
  let ?t = "''a,b,c\<newline>1,2,3,4,5\<newline>7,8''"
  let ?ds = "projr (parseCSV ?t)"
  have p: "parseCSV ?t = Inr ?ds"
    and h: "headers ?ds = [''a'', ''b'', ''c'']" and n: "length (data ?ds) = 2"
    and l: "nonblank_lines ?t = [''a,b,c'', ''1,2,3,4,5'', ''7,8'']"
    by (simp_all add: parseCSV_def nonblank_lines_def split_fields_def Let_def js_simps)
  have "distinct (headers ?ds)" by (simp add: h)
  from parseCSV_fields [OF p this] n h l show ?thesis
    by (simp add: split_fields_def js_simps)
qed

text \<open>C4: No cell of a parsed table contains a double quote, a comma or a line feed: the
  parser strips every quote character and splits at every comma and line feed, so quoted
  CSV fields are not supported.\<close>

theorem parseCSV_cells_clean:
  assumes "parseCSV text = Inr ds" and "r \<in> set (data ds)" and "(k, v) \<in> set r"
  shows "CHR 0x22 \<notin> set v \<and> CHR '','' \<notin> set v \<and> CHR 0x0A \<notin> set v"
proof -
  from assms(1) obtain l ls where nb: "nonblank_lines text = l # ls"
    and ds: "data ds = map (\<lambda>line. mk_row (split_fields l) (split_fields line)) ls"
    by (auto simp: parseCSV_def Let_def split: list.splits)
  with assms(2) obtain line where line: "line \<in> set ls"
    and r: "r = mk_row (split_fields l) (split_fields line)" by auto
  from line nb have lf: "CHR 0x0A \<notin> set line"
    by (metis list.set_intros(2) nonblank_lines_lf_free)
  from assms(3) r have "v = [] \<or> v \<in> set (split_fields line)" by (simp add: mk_row_values)
  then show ?thesis
  proof
    assume "v \<in> set (split_fields line)"
    with lf show ?thesis by (auto dest: split_fields_clean)
  qed simp
qed

theorem parseCSV_cells_clean_witness:
  "data (projr (parseCSV (''a,b\<newline>1,'' @ [CHR 0x22] @ ''x,y'' @ [CHR 0x22]))) =
     [[(''a'', ''1''), (''b'', ''x'')]] \<and>
   CHR 0x22 \<notin> set ''x'' \<and> CHR '','' \<notin> set ''x''"
proof -
  let ?t = "''a,b\<newline>1,'' @ [CHR 0x22] @ ''x,y'' @ [CHR 0x22]"
  let ?ds = "projr (parseCSV ?t)"
  have p: "parseCSV ?t = Inr ?ds" and d: "data ?ds = [[(''a'', ''1''), (''b'', ''x'')]]"
    by (simp_all add: parseCSV_def nonblank_lines_def split_fields_def mk_row_def field_at_def
        Let_def js_simps)
  have "[(''a'', ''1''), (''b'', ''x'')] \<in> set (data ?ds)" unfolding d by simp
  from parseCSV_cells_clean [OF p this, of "''b''" "''x''"] d show ?thesis by simp
qed

end
