(* ===== verification/Quality.thy ===== *)
theory Quality
  imports CsvParse
begin

text \<open>
  The table-wide analyses of \<open>performDatasetAnalysis\<close>: \<open>displayDataQuality\<close> (lines
  381--407) with \<open>calculateDataConsistency\<close> and \<open>calculateDataUniqueness\<close> (594--614),
  \<open>displayColumnAnalysis\<close> (410--433) with \<open>inferDataType\<close> (617--627),
  \<open>displayMissingValues\<close> (512--535) and \<open>displayBasicStatistics\<close> (361--378) with
  \<open>formatFileSize\<close> (795--801) of the text length and of the \<open>JSON.stringify\<close> length of
  the rows. Each display function is modelled by the values
  it renders; a value the code computes as \<open>NaN\<close> is \<open>None\<close>.
  \<open>Date.parse\<close> is the parameter \<open>date_ok\<close> of \<open>inferDataType\<close> (true when the
  engine's date parser accepts the string).
\<close>

text \<open>\<open>!row[header] || row[header].trim() === ''\<close> and its negation
  \<open>v && v.trim() !== ''\<close>, as the code writes them.\<close>

definition is_missing :: "string \<Rightarrow> bool" where
  "is_missing v \<longleftrightarrow> v = [] \<or> js_trim v = []"

definition present :: "string \<Rightarrow> bool" where
  "present v \<longleftrightarrow> v \<noteq> [] \<and> js_trim v \<noteq> []"

section \<open>Data quality\<close>

definition emptyCells :: "dataset \<Rightarrow> nat" where
  "emptyCells ds =
     foldl (\<lambda>count r. count + length (filter (\<lambda>h. is_missing (cell r h)) (headers ds))) 0 (data ds)"

definition totalCells :: "dataset \<Rightarrow> nat" where
  "totalCells ds = length (headers ds) * length (data ds)"

text \<open>\<open>((totalCells - emptyCells) / totalCells * 100)\<close>, a subtraction of numbers:
  \<open>0 / 0\<close> is \<open>NaN\<close> when the table has no cell.\<close>

definition completeness :: "dataset \<Rightarrow> real option" where
  "completeness ds =
     (if totalCells ds = 0 then None
      else Some ((real (totalCells ds) - real (emptyCells ds)) / real (totalCells ds) * 100))"

definition consistentRows :: "dataset \<Rightarrow> nat" where
  "consistentRows ds =
     foldl (\<lambda>c r. if list_all (\<lambda>h. present (cell r h)) (headers ds) then Suc c else c) 0 (data ds)"

definition calculateDataConsistency :: "dataset \<Rightarrow> int option" where
  "calculateDataConsistency ds =
     (if data ds = [] then None
      else Some (js_round (real (consistentRows ds) / real (length (data ds)) * 100)))"

text \<open>The properties of a JavaScript \<open>Set\<close> the code reads: \<open>size\<close>, its number of
  elements, and \<open>length\<close>, which a \<open>Set\<close> does not have, so that reading it gives
  \<open>undefined\<close> (\<open>None\<close>).\<close>

definition set_size :: "'a list \<Rightarrow> nat" where
  "set_size xs = card (set xs)"

definition set_length :: "'a list \<Rightarrow> nat option" where
  "set_length xs = None"

text \<open>\<open>new Set(data.map(row => JSON.stringify(row))).length\<close>: rows with the same keys
  in the same order have equal \<open>JSON.stringify\<close> strings exactly when they are equal
  association lists, so the set is taken of the rows; \<open>undefined / n\<close> and
  \<open>Math.round(NaN)\<close> are \<open>NaN\<close>.\<close>

definition calculateDataUniqueness :: "dataset \<Rightarrow> int option" where
  "calculateDataUniqueness ds =
     (case set_length (data ds) of
        None \<Rightarrow> None
      | Some uniqueRows \<Rightarrow>
          if data ds = [] then None
          else Some (js_round (real uniqueRows / real (length (data ds)) * 100)))"

text \<open>The uniqueness the spec describes: \<open>size\<close> in place of \<open>length\<close>.\<close>

definition uniqueness_by_size :: "dataset \<Rightarrow> int option" where
  "uniqueness_by_size ds =
     (if data ds = [] then None
      else Some (js_round (real (set_size (data ds)) / real (length (data ds)) * 100)))"

record quality =
  q_completeness :: string
  q_consistency :: "int option"
  q_uniqueness :: "int option"
  q_emptyCells :: nat

definition displayDataQuality :: "dataset \<Rightarrow> quality" where
  "displayDataQuality ds =
     \<lparr>q_completeness = fixed_or_nan 2 (completeness ds),
      q_consistency = calculateDataConsistency ds,
      q_uniqueness = calculateDataUniqueness ds,
      q_emptyCells = emptyCells ds\<rparr>"

section \<open>Column analysis and type inference\<close>

datatype col_type = Numeric | Date | Text | Unknown

definition column_values :: "dataset \<Rightarrow> string \<Rightarrow> string list" where
  "column_values ds h = filter present (map (\<lambda>r. cell r h) (data ds))"

definition inferDataType :: "(string \<Rightarrow> bool) \<Rightarrow> string list \<Rightarrow> col_type" where
  "inferDataType date_ok values =
     (if values = [] then Unknown
      else (let sample = take 100 values;
                numericCount = length (filter (\<lambda>v. \<not> js_isNaN v \<and> js_trim v \<noteq> []) sample);
                dateCount = length (filter (\<lambda>v. date_ok v \<and> js_trim v \<noteq> []) sample)
            in if real numericCount / real (length sample) > 0.8 then Numeric
               else if real dateCount / real (length sample) > 0.8 then Date
               else Text))"

record column_info =
  ci_header :: string
  ci_uniqueValues :: nat
  ci_dataType :: col_type
  ci_totalValues :: nat
  ci_missing :: nat

definition displayColumnAnalysis :: "(string \<Rightarrow> bool) \<Rightarrow> dataset \<Rightarrow> column_info list" where
  "displayColumnAnalysis date_ok ds =
     map (\<lambda>h. let values = column_values ds h
              in \<lparr>ci_header = h, ci_uniqueValues = set_size values,
                  ci_dataType = inferDataType date_ok values, ci_totalValues = length values,
                  ci_missing = length (data ds) - length values\<rparr>)
         (headers ds)"

section \<open>Missing values\<close>

definition missingCount :: "dataset \<Rightarrow> string \<Rightarrow> nat" where
  "missingCount ds h = length (filter (\<lambda>r. is_missing (cell r h)) (data ds))"

definition displayMissingValues :: "dataset \<Rightarrow> (string \<times> nat \<times> string) list" where
  "displayMissingValues ds =
     filter (\<lambda>(h, c, p). 0 < c)
       (map (\<lambda>h. (h, missingCount ds h,
                   fixed_or_nan 2 (if data ds = [] then None
                                   else Some (real (missingCount ds h) / real (length (data ds)) * 100))))
            (headers ds))"

section \<open>Basic statistics\<close>

text \<open>\<open>formatFileSize\<close> (lines 795--801). \<open>Math.floor(Math.log(bytes) / Math.log(k))\<close>
  is the exponent of the largest power of 1024 not above \<open>bytes\<close> (\<open>size_exponent\<close>;
  the floating-point quotient is exact at the powers of 1024). \<open>sizes[i]\<close> past the
  end of the four units is \<open>undefined\<close>, printed as such.\<close>

fun size_exponent :: "nat \<Rightarrow> nat" where
  "size_exponent n = (if n < 1024 then 0 else Suc (size_exponent (n div 1024)))"

definition size_unit :: "nat \<Rightarrow> string" where
  "size_unit i = (if i < 4 then [''Bytes'', ''KB'', ''MB'', ''GB''] ! i else ''undefined'')"

definition formatFileSize :: "nat \<Rightarrow> string" where
  "formatFileSize bytes =
     (if bytes = 0 then ''0 Bytes''
      else (let i = size_exponent bytes
            in fixed_number_string (to_fixed 2 (real bytes / 1024 ^ i)) @ '' '' @ size_unit i))"

record basic_stats =
  totalRows :: nat
  totalColumns :: nat
  fileSize :: string
  memoryUsage :: string

definition displayBasicStatistics :: "dataset \<Rightarrow> basic_stats" where
  "displayBasicStatistics ds =
     \<lparr>totalRows = length (data ds), totalColumns = length (headers ds),
      fileSize = formatFileSize (length (rawText ds)),
      memoryUsage = formatFileSize (length (json_array (data ds)))\<rparr>"

declare size_exponent.simps [simp del]

section \<open>Lemmas\<close>

lemma is_missing_iff: "is_missing v \<longleftrightarrow> \<not> present v"
  by (auto simp: is_missing_def present_def)

lemma emptyCells_sum:
  "emptyCells ds = (\<Sum>r\<leftarrow>data ds. length (filter (\<lambda>h. is_missing (cell r h)) (headers ds)))"
  by (simp add: emptyCells_def foldl_add_sum_list)

lemma consistentRows_filter:
  "consistentRows ds = length (filter (\<lambda>r. list_all (\<lambda>h. present (cell r h)) (headers ds)) (data ds))"
  by (simp add: consistentRows_def foldl_count_filter)

lemma sum_list_length_filter_le:
  "(\<Sum>r\<leftarrow>rs. length (filter (P r) hs)) \<le> length hs * length rs"
proof (induction rs)
  case Nil
  then show ?case by simp
next
  case (Cons r rs)
  have "length (filter (P r) hs) \<le> length hs" by simp
  from add_mono [OF this Cons.IH] show ?case by simp
qed

lemma emptyCells_le_totalCells: "emptyCells ds \<le> totalCells ds"
  unfolding emptyCells_sum totalCells_def by (rule sum_list_length_filter_le)

lemma sum_list_filter_swap:
  "(\<Sum>r\<leftarrow>rs. length (filter (\<lambda>h. P r h) hs)) = (\<Sum>h\<leftarrow>hs. length (filter (\<lambda>r. P r h) rs))"
proof (induction rs)
  case Nil
  then show ?case by (simp add: sum_list_triv)
next
  case (Cons r rs)
  have "(\<Sum>h\<leftarrow>hs. length (filter (\<lambda>r'. P r' h) (r # rs))) =
        (\<Sum>h\<leftarrow>hs. (if P r h then 1 else 0) + length (filter (\<lambda>r'. P r' h) rs))"
    by (rule arg_cong [where f = sum_list]) simp
  also have "\<dots> = length (filter (P r) hs) + (\<Sum>h\<leftarrow>hs. length (filter (\<lambda>r'. P r' h) rs))"
    by (simp add: sum_list_addf sum_list_indicator)
  finally show ?case using Cons by simp
qed

lemma emptyCells_missingCount: "emptyCells ds = (\<Sum>h\<leftarrow>headers ds. missingCount ds h)"
  unfolding emptyCells_sum missingCount_def by (rule sum_list_filter_swap)

lemma length_column_values:
  "length (column_values ds h) + missingCount ds h = length (data ds)"
proof -
  have "length (column_values ds h) = length (filter (\<lambda>r. present (cell r h)) (data ds))"
    by (simp add: column_values_def filter_map comp_def)
  moreover have "missingCount ds h = length (filter (\<lambda>r. \<not> present (cell r h)) (data ds))"
    by (simp add: missingCount_def is_missing_iff)
  ultimately show ?thesis
    using sum_length_filter_compl [of "\<lambda>r. present (cell r h)" "data ds"] by simp
qed

lemma real_ratio_percent_bounds:
  "(k::nat) \<le> n \<Longrightarrow> 0 < n \<Longrightarrow> 0 \<le> real k / real n * 100 \<and> real k / real n * 100 \<le> 100"
  by (simp add: divide_le_eq)

lemma js_round_percent_bounds:
  "0 \<le> x \<Longrightarrow> x \<le> 100 \<Longrightarrow> 0 \<le> js_round x \<and> js_round x \<le> 100"
  by (simp add: js_round_def floor_le_iff)

lemma consistentRows_le: "consistentRows ds \<le> length (data ds)"
  by (simp add: consistentRows_filter)

lemma sum_list_filter_positive:
  "(\<Sum>(h, c, p) \<leftarrow> filter (\<lambda>(h, c, p). 0 < c) (map (\<lambda>h. (h, f h, g h)) hs). c) =
   (\<Sum>h \<leftarrow> hs. (f h :: nat))"
  by (induction hs) auto

section \<open>Properties\<close>

text \<open>C5: Data completeness is \<open>NaN\<close> exactly when the table has no cell, and otherwise the
  share of filled cells: a percentage between 0 and 100 which, applied to the number of
  cells, gives the number of (row, column) cells that are not missing.\<close>

theorem completeness_bounds:
  assumes "completeness ds = Some c"
  shows "0 \<le> c \<and> c \<le> 100 \<and> 0 < totalCells ds \<and>
         c / 100 * real (totalCells ds) =
           real (\<Sum>r\<leftarrow>data ds. length (filter (\<lambda>h. \<not> is_missing (cell r h)) (headers ds)))"
proof -
  let ?F = "\<Sum>r\<leftarrow>data ds. length (filter (\<lambda>h. \<not> is_missing (cell r h)) (headers ds))"
  from assms have t: "0 < totalCells ds"
    and c: "c = (real (totalCells ds) - real (emptyCells ds)) / real (totalCells ds) * 100"
    by (auto simp: completeness_def split: if_splits)
  have "emptyCells ds + ?F = totalCells ds"
    unfolding emptyCells_sum totalCells_def sum_list_addf [symmetric]
    by (simp add: sum_length_filter_compl sum_list_triv)
  then have f: "real (totalCells ds) - real (emptyCells ds) = real ?F" by linarith
  have "?F \<le> totalCells ds" using \<open>emptyCells ds + ?F = totalCells ds\<close> by linarith
  from real_ratio_percent_bounds [OF this t] have "0 \<le> c \<and> c \<le> 100" unfolding c f .
  moreover have "c / 100 * real (totalCells ds) = real ?F" using t unfolding c f by simp
  ultimately show ?thesis using t by simp
qed

theorem completeness_bounds_witness:
  "completeness (projr (parseCSV ''a,b\<newline>1,2\<newline>3,\<newline>,\<newline>5,6\<newline>7,8'')) = Some 70 \<and>
   0 \<le> (70::real) \<and> (70::real) \<le> 100 \<and>
   q_completeness (displayDataQuality (projr (parseCSV ''a,b\<newline>1,2\<newline>3,\<newline>,\<newline>5,6\<newline>7,8''))) =
     ''70.00''"
proof -
  let ?ds = "projr (parseCSV ''a,b\<newline>1,2\<newline>3,\<newline>,\<newline>5,6\<newline>7,8'')"
  have c: "completeness ?ds = Some 70"
    by (simp add: completeness_def totalCells_def emptyCells_def is_missing_def parseCSV_def
        nonblank_lines_def split_fields_def mk_row_def field_at_def cell_def Let_def js_simps)
  from completeness_bounds [OF c] c show ?thesis
    by (simp add: displayDataQuality_def js_simps)
qed

text \<open>C6: The Data Uniqueness figure is \<open>NaN\<close> for every table: the code reads
  \<open>length\<close> of a \<open>Set\<close>, which is \<open>undefined\<close>. Counting the distinct rows with
  \<open>size\<close>, as the spec describes, gives a percentage for every table with rows.\<close>

theorem uniqueness_always_nan:
  "q_uniqueness (displayDataQuality ds) = None \<and>
   (data ds \<noteq> [] \<longrightarrow> (\<exists>u. uniqueness_by_size ds = Some u \<and> 0 \<le> u \<and> u \<le> 100))"
proof -
  have b: "0 \<le> real (set_size (data ds)) / real (length (data ds)) * 100 \<and>
      real (set_size (data ds)) / real (length (data ds)) * 100 \<le> 100" if ne: "data ds \<noteq> []"
  proof (rule real_ratio_percent_bounds)
    show "set_size (data ds) \<le> length (data ds)" by (simp add: set_size_def card_length)
    show "0 < length (data ds)" using ne by simp
  qed
  then show ?thesis
    by (auto simp: displayDataQuality_def calculateDataUniqueness_def set_length_def
        uniqueness_by_size_def js_round_percent_bounds)
qed

theorem uniqueness_always_nan_witness:
  "q_uniqueness (displayDataQuality (projr (parseCSV ''a\<newline>1\<newline>1\<newline>2''))) = None \<and>
   uniqueness_by_size (projr (parseCSV ''a\<newline>1\<newline>1\<newline>2'')) = Some 67"
proof -
  let ?ds = "projr (parseCSV ''a\<newline>1\<newline>1\<newline>2'')"
  have d: "data ?ds = [[(''a'', ''1'')], [(''a'', ''1'')], [(''a'', ''2'')]]"
    by (simp add: parseCSV_def nonblank_lines_def split_fields_def mk_row_def field_at_def
        Let_def js_simps)
  have u: "uniqueness_by_size ?ds = Some 67"
    unfolding uniqueness_by_size_def set_size_def d by (simp add: js_round_def)
  from uniqueness_always_nan [of ?ds] u show ?thesis by simp
qed

text \<open>Data consistency counts the rows with every column non-blank; it is \<open>NaN\<close>
  for a table without rows and otherwise a rounded percentage between 0 and 100.\<close>

theorem consistency_bounds:
  assumes "calculateDataConsistency ds = Some c"
  shows "0 \<le> c \<and> c \<le> 100 \<and> data ds \<noteq> [] \<and>
         consistentRows ds = length (filter (\<lambda>r. \<forall>h \<in> set (headers ds). present (cell r h)) (data ds))"
proof -
  from assms have ne: "data ds \<noteq> []"
    and c: "c = js_round (real (consistentRows ds) / real (length (data ds)) * 100)"
    by (auto simp: calculateDataConsistency_def split: if_splits)
  have "0 < length (data ds)" using ne by simp
  from real_ratio_percent_bounds [OF consistentRows_le this] c
  have "0 \<le> c \<and> c \<le> 100" by (simp add: js_round_percent_bounds)
  with ne show ?thesis by (simp add: consistentRows_filter list_all_iff)
qed

theorem consistency_bounds_witness:
  "calculateDataConsistency (projr (parseCSV ''a,b\<newline>1,2\<newline>3,\<newline>5,6'')) = Some 67 \<and>
   consistentRows (projr (parseCSV ''a,b\<newline>1,2\<newline>3,\<newline>5,6'')) = 2"
proof -
  have ds: "projr (parseCSV ''a,b\<newline>1,2\<newline>3,\<newline>5,6'') =
      \<lparr>headers = [''a'', ''b''],
       data = [[(''a'', ''1''), (''b'', ''2'')], [(''a'', ''3''), (''b'', [])], [(''a'', ''5''), (''b'', ''6'')]],
       rawText = ''a,b\<newline>1,2\<newline>3,\<newline>5,6''\<rparr>"
    by (simp add: parseCSV_def nonblank_lines_def split_fields_def mk_row_def field_at_def
        Let_def js_simps)
  have r: "consistentRows (projr (parseCSV ''a,b\<newline>1,2\<newline>3,\<newline>5,6'')) = 2"
    unfolding ds by (simp add: consistentRows_def present_def cell_def js_simps)
  have c: "calculateDataConsistency (projr (parseCSV ''a,b\<newline>1,2\<newline>3,\<newline>5,6'')) = Some 67"
    using r unfolding calculateDataConsistency_def ds by (simp add: js_round_def)
  from consistency_bounds [OF c] r show ?thesis by (simp add: c)
qed

text \<open>The Empty Cells figure of the quality panel equals the sum of the counts the
  missing-values panel lists, column by column.\<close>

theorem emptyCells_eq_missing_total:
  "q_emptyCells (displayDataQuality ds) = (\<Sum>(h, c, p) \<leftarrow> displayMissingValues ds. c)"
proof -
  have "(\<Sum>(h, c, p) \<leftarrow> displayMissingValues ds. c) = (\<Sum>h \<leftarrow> headers ds. missingCount ds h)"
    unfolding displayMissingValues_def by (rule sum_list_filter_positive)
  then show ?thesis by (simp add: displayDataQuality_def emptyCells_missingCount)
qed

text \<open>For every column the column analysis reports, the missing count it shows is the
  count of the missing-values panel, the distinct values are at most the non-blank values,
  and non-blank plus missing values make up all rows.\<close>

theorem column_analysis_counts:
  assumes "ci \<in> set (displayColumnAnalysis date_ok ds)"
  shows "ci_missing ci = missingCount ds (ci_header ci) \<and> ci_uniqueValues ci \<le> ci_totalValues ci \<and>
         ci_totalValues ci + ci_missing ci = length (data ds)"
proof -
  from assms obtain h where ci: "ci = (let values = column_values ds h
      in \<lparr>ci_header = h, ci_uniqueValues = set_size values,
          ci_dataType = inferDataType date_ok values, ci_totalValues = length values,
          ci_missing = length (data ds) - length values\<rparr>)"
    by (auto simp: displayColumnAnalysis_def)
  have l: "length (column_values ds h) + missingCount ds h = length (data ds)"
    by (rule length_column_values)
  have "set_size (column_values ds h) \<le> length (column_values ds h)"
    by (simp add: set_size_def card_length)
  with l show ?thesis by (simp add: ci Let_def)
qed

theorem column_analysis_counts_witness:
  "displayColumnAnalysis (\<lambda>_. False) (projr (parseCSV ''a\<newline>1\<newline> \<newline>1\<newline>x\<newline>'')) =
     [\<lparr>ci_header = ''a'', ci_uniqueValues = 2, ci_dataType = Text, ci_totalValues = 3,
       ci_missing = 0\<rparr>] \<and>
   missingCount (projr (parseCSV ''a\<newline>1\<newline> \<newline>1\<newline>x\<newline>'')) ''a'' = 0"
proof -
  have ds: "projr (parseCSV ''a\<newline>1\<newline> \<newline>1\<newline>x\<newline>'') =
      \<lparr>headers = [''a''], data = [[(''a'', ''1'')], [(''a'', ''1'')], [(''a'', ''x'')]],
       rawText = ''a\<newline>1\<newline> \<newline>1\<newline>x\<newline>''\<rparr>"
    by (simp add: parseCSV_def nonblank_lines_def split_fields_def mk_row_def field_at_def
        Let_def js_simps)
  have v: "column_values (projr (parseCSV ''a\<newline>1\<newline> \<newline>1\<newline>x\<newline>'')) ''a'' =
      [''1'', ''1'', ''x'']"
    unfolding ds by (simp add: column_values_def present_def cell_def js_simps)
  have t: "inferDataType (\<lambda>_. False) [''1'', ''1'', ''x''] = Text"
    by (simp add: inferDataType_def js_simps)
  have e: "displayColumnAnalysis (\<lambda>_. False) (projr (parseCSV ''a\<newline>1\<newline> \<newline>1\<newline>x\<newline>'')) =
     [\<lparr>ci_header = ''a'', ci_uniqueValues = 2, ci_dataType = Text, ci_totalValues = 3,
       ci_missing = 0\<rparr>]"
    using v t unfolding displayColumnAnalysis_def by (simp add: ds set_size_def)
  have "\<lparr>ci_header = ''a'', ci_uniqueValues = 2, ci_dataType = Text, ci_totalValues = 3,
       ci_missing = 0\<rparr> \<in> set (displayColumnAnalysis (\<lambda>_. False)
         (projr (parseCSV ''a\<newline>1\<newline> \<newline>1\<newline>x\<newline>'')))"
    unfolding e by simp
  from column_analysis_counts [OF this] e show ?thesis by simp
qed

text \<open>A column whose first hundred non-blank values are more than 80\% numeric is
  classified \<open>Numeric\<close> whatever the date parser accepts: the numeric test is made
  first, so a column that also passes as dates stays \<open>Numeric\<close>.\<close>

theorem inferDataType_numeric_priority:
  assumes "values \<noteq> []"
    and "4 * length (take 100 values) <
         5 * length (filter (\<lambda>v. \<not> js_isNaN v \<and> js_trim v \<noteq> []) (take 100 values))"
  shows "inferDataType date_ok values = Numeric"
proof -
  let ?n = "length (take 100 values)"
  let ?k = "length (filter (\<lambda>v. \<not> js_isNaN v \<and> js_trim v \<noteq> []) (take 100 values))"
  have pos: "0 < ?n" using assms(1) by simp
  from assms(2) have "real (4 * ?n) < real (5 * ?k)" by linarith
  then have "0.8 * real ?n < real ?k" by simp
  with pos have "real ?k / real ?n > 0.8" by (simp add: less_divide_eq)
  with assms(1) show ?thesis by (simp add: inferDataType_def Let_def)
qed

theorem inferDataType_numeric_priority_witness:
  "inferDataType (\<lambda>_. True) (replicate 85 ''2024'' @ replicate 15 ''n/a'') = Numeric \<and>
   inferDataType (\<lambda>_. True) (replicate 100 ''2024-01-05'') = Date"
proof -
  have nan: "js_isNaN ''n/a''" and num: "\<not> js_isNaN ''2024''" and d: "js_isNaN ''2024-01-05''"
    by (simp_all add: js_simps)
  have "inferDataType (\<lambda>_. True) (replicate 85 ''2024'' @ replicate 15 ''n/a'') = Numeric"
  proof (rule inferDataType_numeric_priority)
    show "replicate 85 ''2024'' @ replicate 15 ''n/a'' \<noteq> []" by simp
    show "4 * length (take 100 (replicate 85 ''2024'' @ replicate 15 ''n/a'')) <
      5 * length (filter (\<lambda>v. \<not> js_isNaN v \<and> js_trim v \<noteq> [])
                   (take 100 (replicate 85 ''2024'' @ replicate 15 ''n/a'')))"
      using nan num by (simp add: js_simps)
  qed
  moreover have "inferDataType (\<lambda>_. True) (replicate 100 ''2024-01-05'') = Date"
    using d by (simp add: inferDataType_def js_simps)
  ultimately show ?thesis by simp
qed

text \<open>Type inference reads only the first hundred values of a column.\<close>

theorem inferDataType_sample:
  "inferDataType date_ok values = inferDataType date_ok (take 100 values)"
  by (simp add: inferDataType_def Let_def)

text \<open>C14: the unit exponent formatFileSize chooses for a positive size is the largest power of
  1024 not above it, so the printed number is in [1, 1024) before rounding.\<close>

theorem formatFileSize_exponent:
  "0 < n \<Longrightarrow> 1024 ^ size_exponent n \<le> n \<and> n < 1024 ^ Suc (size_exponent n)"
proof (induction n rule: size_exponent.induct)
  case (1 n)
  show ?case
  proof (cases "n < 1024")
    case True
    then show ?thesis using "1.prems" by (simp add: size_exponent.simps)
  next
    case False
    then have "0 < n div 1024" by simp
    with "1.IH" False
    have ih: "1024 ^ size_exponent (n div 1024) \<le> n div 1024 \<and>
              n div 1024 < 1024 ^ Suc (size_exponent (n div 1024))" by simp
    then show ?thesis
      using False by (auto simp: size_exponent.simps div_less_iff_less_mult less_eq_div_iff_mult_less_eq mult.commute)
  qed
qed

theorem formatFileSize_exponent_witness:
  "0 < (1536::nat) \<and> 1024 ^ size_exponent 1536 \<le> (1536::nat) \<and> size_exponent 1536 = 1"
  using formatFileSize_exponent [of 1536] by (simp add: size_exponent.simps)

text \<open>FormatFileSize prints a size just below 1 MB as 1024 KB (the rounding by toFixed
  happens after the unit is chosen), and a size of 1 TB or more with the unit undefined.\<close>

theorem formatFileSize_rounding:
  "formatFileSize 1536 = ''1.5 KB'' \<and> formatFileSize 1048575 = ''1024 KB'' \<and>
   formatFileSize (1024 ^ 4) = ''1 undefined''"
  by (simp add: formatFileSize_def size_exponent.simps size_unit_def js_simps)


text \<open>The specification's second type-inference example (79 of 100 values numeric and
  the same 79 date-parseable) is classified Text, not Numeric: both shares are at most the
  strict threshold 80\%, so the priority of the numeric test never applies.\<close>

theorem inferDataType_spec_example:
  "inferDataType (\<lambda>v. v = ''2024'') (replicate 79 ''2024'' @ replicate 21 ''n/a'') = Text"
proof -
  have nan: "js_isNaN ''n/a''" and num: "\<not> js_isNaN ''2024''"
    by (simp_all add: js_simps)
  show ?thesis
    using nan num by (simp add: inferDataType_def js_simps)
qed

end
