(* ===== verification/Stats.thy ===== *)
theory Stats
  imports Quality
begin

text \<open>
  The numeric analyses: \<open>calculateMedian\<close> (lines 630--635), \<open>displayDataDistribution\<close>
  (436--468) with its choice of numeric columns, and \<open>displayTransactionSummary\<close>
  (676--719). \<open>values.sort((a, b) => a - b)\<close> is \<^const>\<open>sort\<close> (the comparator is
  consistent on the numbers left after the \<open>NaN\<close> filter, so the stable sort returns
  the sorted permutation); \<open>Math.min(...values)\<close> is a fold of \<open>min\<close>. On an empty
  list \<open>Math.min\<close> returns \<open>Infinity\<close> and the mean and median are \<open>NaN\<close>: the
  distribution is then \<open>None\<close>, and \<open>distribution_defined\<close> shows that this never
  happens for a column the code selects.
\<close>

text \<open>\<open>values.length > 0 && !isNaN(values[0])\<close> over the non-blank values.\<close>

definition numeric_column :: "dataset \<Rightarrow> string \<Rightarrow> bool" where
  "numeric_column ds h \<longleftrightarrow>
     (let values = column_values ds h in 0 < length values \<and> \<not> js_isNaN (hd values))"

definition numericColumns :: "dataset \<Rightarrow> string list" where
  "numericColumns ds = filter (numeric_column ds) (headers ds)"

text \<open>\<open>data.map(row => parseFloat(row[col])).filter(v => !isNaN(v))\<close>.\<close>

definition parsed_values :: "dataset \<Rightarrow> string \<Rightarrow> real list" where
  "parsed_values ds h = map the (filter (\<lambda>v. v \<noteq> None) (map (\<lambda>r. parseFloat (cell r h)) (data ds)))"

text \<open>\<open>sorted[mid - 1]\<close> of an empty array is \<open>undefined\<close> and the sum \<open>NaN\<close>.\<close>

definition calculateMedian :: "real list \<Rightarrow> real option" where
  "calculateMedian values =
     (let sorted = sort values; mid = length sorted div 2
      in if length sorted mod 2 = 0
         then (if mid = 0 then None else Some ((sorted ! (mid - 1) + sorted ! mid) / 2))
         else Some (sorted ! mid))"

record distribution =
  d_min :: real
  d_max :: real
  d_mean :: real
  d_median :: real
  d_range :: real

definition column_distribution :: "real list \<Rightarrow> distribution option" where
  "column_distribution values =
     (case values of
        [] \<Rightarrow> None
      | v # vs \<Rightarrow>
          (let mn = fold min vs v; mx = fold max vs v;
               mean = sum_list values / real (length values)
           in case calculateMedian values of
                None \<Rightarrow> None
              | Some md \<Rightarrow> Some \<lparr>d_min = mn, d_max = mx, d_mean = mean, d_median = md,
                                 d_range = mx - mn\<rparr>))"

definition displayDataDistribution :: "dataset \<Rightarrow> (string \<times> distribution option) list" where
  "displayDataDistribution ds =
     map (\<lambda>c. (c, column_distribution (parsed_values ds c))) (take 4 (numericColumns ds))"

text \<open>\<open>header.toLowerCase().includes(...)\<close> for the amount-like names.\<close>

definition amount_like :: "string \<Rightarrow> bool" where
  "amount_like h \<longleftrightarrow>
     (let l = js_lower h
      in js_includes l ''amount'' \<or> js_includes l ''value'' \<or> js_includes l ''price'' \<or>
         js_includes l ''cost'')"

record tx_summary =
  totalTransactions :: nat
  totalAmount :: real
  averageAmount :: real

definition displayTransactionSummary :: "dataset \<Rightarrow> tx_summary" where
  "displayTransactionSummary ds =
     (case filter amount_like (headers ds) of
        [] \<Rightarrow> \<lparr>totalTransactions = length (data ds), totalAmount = 0, averageAmount = 0\<rparr>
      | amountColumn # _ \<Rightarrow>
          (let amounts = parsed_values ds amountColumn
           in if amounts = [] then \<lparr>totalTransactions = length (data ds), totalAmount = 0, averageAmount = 0\<rparr>
              else \<lparr>totalTransactions = length (data ds), totalAmount = sum_list amounts,
                    averageAmount = sum_list amounts / real (length amounts)\<rparr>))"

section \<open>Lemmas\<close>

lemma length_filter_sort: "length (filter P (sort xs)) = length (filter P xs)"
  by (simp add: filter_sort)

lemma sorted_filter_less:
  assumes "sorted s" and "k < length s"
  shows "length (filter (\<lambda>x. x < s ! k) s) \<le> k"
proof -
  have "\<forall>x \<in> set (drop k s). s ! k \<le> x"
    using assms by (auto simp: in_set_conv_nth sorted_iff_nth_mono)
  then have "filter (\<lambda>x. x < s ! k) (drop k s) = []"
    by (auto simp: filter_empty_conv not_less)
  then have "length (filter (\<lambda>x. x < s ! k) s) = length (filter (\<lambda>x. x < s ! k) (take k s))"
    by (metis append_Nil2 append_take_drop_id filter_append)
  also have "\<dots> \<le> length (take k s)" by (rule length_filter_le)
  finally show ?thesis using assms(2) by simp
qed

lemma sorted_filter_greater:
  assumes "sorted s" and "k < length s"
  shows "length (filter (\<lambda>x. s ! k < x) s) \<le> length s - Suc k"
proof -
  have "\<forall>x \<in> set (take (Suc k) s). x \<le> s ! k"
    using assms by (auto simp: in_set_conv_nth sorted_iff_nth_mono)
  then have "filter (\<lambda>x. s ! k < x) (take (Suc k) s) = []"
    by (auto simp: filter_empty_conv not_less)
  then have "length (filter (\<lambda>x. s ! k < x) s) = length (filter (\<lambda>x. s ! k < x) (drop (Suc k) s))"
    by (metis append_take_drop_id filter_append self_append_conv2)
  also have "\<dots> \<le> length (drop (Suc k) s)" by (rule length_filter_le)
  finally show ?thesis by simp
qed

lemma calculateMedian_nonempty: "xs \<noteq> [] \<Longrightarrow> calculateMedian xs \<noteq> None"
  by (simp add: calculateMedian_def Let_def del: not_None_eq)

lemma calculateMedian_between:
  assumes "calculateMedian xs = Some m"
  shows "\<exists>a \<in> set xs. \<exists>b \<in> set xs. min a b \<le> m \<and> m \<le> max a b"
proof -
  let ?s = "sort xs" and ?k = "length xs div 2"
  have inset: "i < length xs \<Longrightarrow> ?s ! i \<in> set xs" for i
    by (metis length_sort nth_mem set_sort)
  show ?thesis
  proof (cases "length xs mod 2 = 0")
    case True
    with assms have k: "?k \<noteq> 0" and m: "m = (?s ! (?k - 1) + ?s ! ?k) / 2"
      by (auto simp: calculateMedian_def Let_def split: if_splits)
    from k have "?k - 1 < length xs" and "?k < length xs" by auto
    then have "?s ! (?k - 1) \<in> set xs" and "?s ! ?k \<in> set xs" by (simp_all add: inset)
    moreover have "min (?s ! (?k - 1)) (?s ! ?k) \<le> m \<and> m \<le> max (?s ! (?k - 1)) (?s ! ?k)"
      by (simp add: m min_def max_def)
    ultimately show ?thesis by blast
  next
    case False
    with assms have m: "m = ?s ! ?k" by (auto simp: calculateMedian_def Let_def split: if_splits)
    from False have "?k < length xs" by (cases "length xs") auto
    then have "?s ! ?k \<in> set xs" by (rule inset)
    with m show ?thesis by force
  qed
qed

lemma parsed_values_numeric:
  assumes "numeric_column ds h"
  shows "parsed_values ds h \<noteq> []"
proof -
  let ?vs = "column_values ds h"
  from assms have ne: "?vs \<noteq> []" and nn: "\<not> js_isNaN (hd ?vs)"
    by (auto simp: numeric_column_def Let_def)
  from ne have "hd ?vs \<in> set ?vs" by simp
  then obtain r where r: "r \<in> set (data ds)" and v: "hd ?vs = cell r h" and p: "present (cell r h)"
    by (auto simp: column_values_def)
  from p have "js_trim (cell r h) \<noteq> []" by (simp add: present_def)
  with nn v have "parseFloat (cell r h) \<noteq> None" by (simp add: parseFloat_of_number)
  with r show ?thesis by (auto simp: parsed_values_def filter_empty_conv)
qed

text \<open>The two branches of \<open>calculateMedian\<close>: at most half the values lie strictly below, and
  at most half strictly above, the middle element or the mean of the two middle ones.\<close>

lemma median_bounds_even:
  assumes k: "length (xs :: real list) div 2 \<noteq> 0" and ev: "length xs mod 2 = 0"
    and m: "m = (sort xs ! (length xs div 2 - 1) + sort xs ! (length xs div 2)) / 2"
  shows "2 * length (filter (\<lambda>x. x < m) xs) \<le> length xs \<and> 2 * length (filter (\<lambda>x. m < x) xs) \<le> length xs"
proof -
  let ?s = "sort xs" and ?n = "length xs"
  let ?k = "?n div 2"
  have s: "sorted ?s" and ls: "length ?s = ?n" by simp_all
  have dm: "?n = 2 * ?k + ?n mod 2" by simp
  from ev dm have n2: "?n = 2 * ?k" by simp
  with k have kl: "?k < ?n" by linarith
  have le: "?s ! (?k - 1) \<le> ?s ! ?k"
    by (rule sorted_nth_mono [OF s]) (use kl ls in simp_all)
  have lt: "x < m \<Longrightarrow> x < ?s ! ?k" for x using le m by simp
  have gt: "m < x \<Longrightarrow> ?s ! (?k - 1) < x" for x using le m by simp
  have "length (filter (\<lambda>x. x < m) xs) \<le> length (filter (\<lambda>x. x < ?s ! ?k) xs)"
    by (rule length_filter_mono_pred) (rule lt)
  also have "\<dots> = length (filter (\<lambda>x. x < ?s ! ?k) ?s)" by (simp only: length_filter_sort)
  also have "\<dots> \<le> ?k" using sorted_filter_less [OF s] kl ls by simp
  finally have below: "length (filter (\<lambda>x. x < m) xs) \<le> ?k" .
  have "length (filter (\<lambda>x. m < x) xs) \<le> length (filter (\<lambda>x. ?s ! (?k - 1) < x) xs)"
    by (rule length_filter_mono_pred) (rule gt)
  also have "\<dots> = length (filter (\<lambda>x. ?s ! (?k - 1) < x) ?s)" by (simp only: length_filter_sort)
  also have "\<dots> \<le> ?n - Suc (?k - 1)" using sorted_filter_greater [OF s, of "?k - 1"] kl ls by simp
  also have "\<dots> = ?k" using n2 k by simp
  finally have above: "length (filter (\<lambda>x. m < x) xs) \<le> ?k" .
  with below above n2 show ?thesis by linarith
qed

lemma median_bounds_odd:
  assumes od: "length (xs :: real list) mod 2 \<noteq> 0" and m: "m = sort xs ! (length xs div 2)"
  shows "2 * length (filter (\<lambda>x. x < m) xs) \<le> length xs \<and> 2 * length (filter (\<lambda>x. m < x) xs) \<le> length xs"
proof -
  let ?s = "sort xs" and ?n = "length xs"
  let ?k = "?n div 2"
  have s: "sorted ?s" and ls: "length ?s = ?n" by simp_all
  have dm: "?n = 2 * ?k + ?n mod 2" by simp
  from od dm have n2: "?n = 2 * ?k + 1" by simp
  then have kl: "?k < ?n" by linarith
  have "length (filter (\<lambda>x. x < m) xs) = length (filter (\<lambda>x. x < ?s ! ?k) ?s)"
    by (simp only: m length_filter_sort)
  also have "\<dots> \<le> ?k" using sorted_filter_less [OF s] kl ls by simp
  finally have below: "length (filter (\<lambda>x. x < m) xs) \<le> ?k" .
  have "length (filter (\<lambda>x. m < x) xs) = length (filter (\<lambda>x. ?s ! ?k < x) ?s)"
    by (simp only: m length_filter_sort)
  also have "\<dots> \<le> ?n - Suc ?k" using sorted_filter_greater [OF s] kl ls by simp
  finally have above: "length (filter (\<lambda>x. m < x) xs) \<le> ?n - Suc ?k" .
  with below above n2 show ?thesis by linarith
qed

section \<open>Properties\<close>

text \<open>C7: \<open>calculateMedian\<close> returns a value exactly for a non-empty list, and the value
  is a median: at most half of the values lie strictly below it and at most half strictly
  above it.\<close>

theorem calculateMedian_spec:
  assumes "calculateMedian xs = Some m"
  shows "xs \<noteq> [] \<and> 2 * length (filter (\<lambda>x. x < m) xs) \<le> length xs \<and>
         2 * length (filter (\<lambda>x. m < x) xs) \<le> length xs"
proof (cases "length xs mod 2 = 0")
  case True
  with assms have k: "length xs div 2 \<noteq> 0"
    and m: "m = (sort xs ! (length xs div 2 - 1) + sort xs ! (length xs div 2)) / 2"
    by (auto simp: calculateMedian_def Let_def split: if_splits)
  then have "xs \<noteq> []" by auto
  then show ?thesis using median_bounds_even [OF k True m] by simp
next
  case False
  with assms have m: "m = sort xs ! (length xs div 2)"
    by (auto simp: calculateMedian_def Let_def split: if_splits)
  from False have "xs \<noteq> []" by auto
  then show ?thesis using median_bounds_odd [OF False m] by simp
qed

theorem calculateMedian_spec_witness:
  "calculateMedian [1, 2, 3, 4] = Some 2.5 \<and> calculateMedian [3, 1, 2] = Some 2 \<and>
   calculateMedian [] = None \<and>
   2 * length (filter (\<lambda>x. x < 2.5) [1, 2, 3, 4 :: real]) \<le> 4"
proof -
  have a: "calculateMedian [1, 2, 3, 4] = Some 2.5" by (simp add: calculateMedian_def)
  have "calculateMedian [3, 1, 2] = Some 2" and "calculateMedian [] = None"
    by (simp_all add: calculateMedian_def)
  with calculateMedian_spec [OF a] a show ?thesis by simp
qed

text \<open>C8: Every column the distribution panel shows gets its statistics: the list of
  parsed numbers is never empty (the first non-blank value passed \<open>isNaN\<close>, and a
  string \<open>Number\<close> accepts is one \<open>parseFloat\<close> accepts), so the \<open>Infinity\<close> and
  \<open>NaN\<close> that \<open>Math.min\<close> and \<open>Math.max\<close> give for an empty list never appear; the
  minimum and maximum shown are values of the column and bound all of them.\<close>

theorem distribution_defined:
  assumes "(c, r) \<in> set (displayDataDistribution ds)"
  shows "\<exists>d. r = Some d \<and> d_min d \<in> set (parsed_values ds c) \<and> d_max d \<in> set (parsed_values ds c) \<and>
             (\<forall>x \<in> set (parsed_values ds c). d_min d \<le> x \<and> x \<le> d_max d)"
proof -
  from assms have c: "c \<in> set (take 4 (numericColumns ds))"
    and r: "r = column_distribution (parsed_values ds c)"
    by (auto simp: displayDataDistribution_def)
  from c have "numeric_column ds c"
    by (auto simp: numericColumns_def dest: in_set_takeD)
  then have ne: "parsed_values ds c \<noteq> []" by (rule parsed_values_numeric)
  then obtain v vs where vv: "parsed_values ds c = v # vs" by (cases "parsed_values ds c") auto
  obtain md where md: "calculateMedian (v # vs) = Some md"
    using calculateMedian_nonempty [of "v # vs"] by blast
  have "fold min vs v \<in> set (v # vs)" "fold max vs v \<in> set (v # vs)"
    by (rule fold_min_in, rule fold_max_in)
  moreover have "\<forall>x \<in> set (v # vs). fold min vs v \<le> x \<and> x \<le> fold max vs v"
    using fold_min_le fold_max_ge by auto
  ultimately show ?thesis using r vv md by (simp add: column_distribution_def Let_def)
qed

theorem distribution_defined_witness:
  "displayDataDistribution (projr (parseCSV ''x,y\<newline>1,a\<newline>3,b\<newline>2,c'')) =
     [(''x'', Some \<lparr>d_min = 1, d_max = 3, d_mean = 2, d_median = 2, d_range = 2\<rparr>)] \<and>
   (1::real) \<in> set [1, 3, 2] \<and> (3::real) \<in> set [1, 3, 2]"
proof -
  have ds: "projr (parseCSV ''x,y\<newline>1,a\<newline>3,b\<newline>2,c'') =
      \<lparr>headers = [''x'', ''y''],
       data = [[(''x'', ''1''), (''y'', ''a'')], [(''x'', ''3''), (''y'', ''b'')], [(''x'', ''2''), (''y'', ''c'')]],
       rawText = ''x,y\<newline>1,a\<newline>3,b\<newline>2,c''\<rparr>"
    by (simp add: parseCSV_def nonblank_lines_def split_fields_def mk_row_def field_at_def
        Let_def js_simps)
  have n: "numericColumns (projr (parseCSV ''x,y\<newline>1,a\<newline>3,b\<newline>2,c'')) = [''x'']"
    unfolding ds by (simp add: numericColumns_def numeric_column_def column_values_def present_def
        cell_def js_simps)
  have p: "parsed_values (projr (parseCSV ''x,y\<newline>1,a\<newline>3,b\<newline>2,c'')) ''x'' = [1, 3, 2]"
    unfolding ds by (simp add: parsed_values_def cell_def js_simps)
  have e: "displayDataDistribution (projr (parseCSV ''x,y\<newline>1,a\<newline>3,b\<newline>2,c'')) =
     [(''x'', Some \<lparr>d_min = 1, d_max = 3, d_mean = 2, d_median = 2, d_range = 2\<rparr>)]"
    by (simp add: displayDataDistribution_def n p column_distribution_def calculateMedian_def)
  have "(''x'', Some \<lparr>d_min = 1, d_max = 3, d_mean = 2, d_median = 2, d_range = 2\<rparr>)
      \<in> set (displayDataDistribution (projr (parseCSV ''x,y\<newline>1,a\<newline>3,b\<newline>2,c'')))"
    unfolding e by simp
  from distribution_defined [OF this] e p show ?thesis by simp
qed

text \<open>The transaction summary counts every row, and when the first amount-like column
  has numbers, its total is their sum and its average lies between their least and
  greatest value.\<close>

theorem transaction_summary:
  assumes "filter amount_like (headers ds) = c # cs" and "parsed_values ds c \<noteq> []"
  shows "totalTransactions (displayTransactionSummary ds) = length (data ds) \<and>
         totalAmount (displayTransactionSummary ds) = sum_list (parsed_values ds c) \<and>
         Min (set (parsed_values ds c)) \<le> averageAmount (displayTransactionSummary ds) \<and>
         averageAmount (displayTransactionSummary ds) \<le> Max (set (parsed_values ds c))"
proof -
  let ?a = "parsed_values ds c"
  have "Min (set ?a) \<le> sum_list ?a / real (length ?a) \<and> sum_list ?a / real (length ?a) \<le> Max (set ?a)"
    by (rule mean_between) (simp_all add: assms(2))
  with assms show ?thesis by (simp add: displayTransactionSummary_def Let_def)
qed

theorem transaction_summary_witness:
  "displayTransactionSummary (projr (parseCSV ''id,Amount\<newline>1,10\<newline>2,20\<newline>3,x'')) =
     \<lparr>totalTransactions = 3, totalAmount = 30, averageAmount = 15\<rparr> \<and>
   Min (set [10, 20 :: real]) \<le> 15"
proof -
  have ds: "projr (parseCSV ''id,Amount\<newline>1,10\<newline>2,20\<newline>3,x'') =
      \<lparr>headers = [''id'', ''Amount''],
       data = [[(''id'', ''1''), (''Amount'', ''10'')], [(''id'', ''2''), (''Amount'', ''20'')],
               [(''id'', ''3''), (''Amount'', ''x'')]],
       rawText = ''id,Amount\<newline>1,10\<newline>2,20\<newline>3,x''\<rparr>"
    by (simp add: parseCSV_def nonblank_lines_def split_fields_def mk_row_def field_at_def
        Let_def js_simps)
  have f: "filter amount_like (headers (projr (parseCSV ''id,Amount\<newline>1,10\<newline>2,20\<newline>3,x''))) =
      [''Amount'']"
    unfolding ds by (simp add: amount_like_def js_simps)
  have p: "parsed_values (projr (parseCSV ''id,Amount\<newline>1,10\<newline>2,20\<newline>3,x'')) ''Amount'' = [10, 20]"
    unfolding ds by (simp add: parsed_values_def cell_def js_simps)
  from transaction_summary [OF f] p
  have "Min (set [10, 20 :: real]) \<le> averageAmount
      (displayTransactionSummary (projr (parseCSV ''id,Amount\<newline>1,10\<newline>2,20\<newline>3,x'')))" by simp
  moreover have "displayTransactionSummary (projr (parseCSV ''id,Amount\<newline>1,10\<newline>2,20\<newline>3,x'')) =
     \<lparr>totalTransactions = 3, totalAmount = 30, averageAmount = 15\<rparr>"
  proof -
    have "length (data (projr (parseCSV ''id,Amount\<newline>1,10\<newline>2,20\<newline>3,x''))) = 3"
      by (simp add: ds)
    then show ?thesis by (simp add: displayTransactionSummary_def f p)
  qed
  ultimately show ?thesis by simp
qed

end
