(* ===== verification/Correlation.thy ===== *)
theory Correlation
  imports Stats
begin

text \<open>
  The correlation analysis: \<open>calculateCorrelation\<close> (lines 659--673), the Pearson
  coefficient over two number lists with its fallback \<open>0\<close> for lists of different or zero
  length and for a zero denominator; \<open>calculateCorrelationMatrix\<close> (638--656), which puts
  \<open>1.0\<close> on the diagonal and correlates the independently filtered number lists of two
  columns elsewhere; and \<open>displayCorrelationAnalysis\<close> (471--509), which selects the numeric
  columns by their first non-blank value, needs two of them, and prints each entry with
  \<open>toFixed(3)\<close> in a colour chosen by its magnitude. Numbers are exact reals and
  \<open>Math.sqrt\<close> is \<^const>\<open>sqrt\<close>: there its argument is a product of two non-negative
  numbers (Cauchy--Schwarz, \<open>centred_cauchy_schwarz\<close>) and the coefficient lies in [-1, 1].
  In floating point neither holds: rounding can make a factor of a constant column slightly
  negative (\<open>Math.sqrt\<close> then returns \<open>NaN\<close>, which the \<open>denominator === 0\<close> guard
  does not catch) or the quotient slightly larger than 1; the bound is a fact of the exact
  model only. Symmetry and the fallback branches hold in floating point too.
\<close>

definition calculateCorrelation :: "real list \<Rightarrow> real list \<Rightarrow> real" where
  "calculateCorrelation x y =
     (if length x \<noteq> length y \<or> length x = 0 then 0
      else
        (let n = real (length x);
             sumX = foldl (\<lambda>a b. a + b) 0 x;
             sumY = foldl (\<lambda>a b. a + b) 0 y;
             sumXY = foldl (\<lambda>a (i, b). a + b * y ! i) 0 (enumerate 0 x);
             sumX2 = foldl (\<lambda>a b. a + b * b) 0 x;
             sumY2 = foldl (\<lambda>a b. a + b * b) 0 y;
             numerator = n * sumXY - sumX * sumY;
             denominator = sqrt ((n * sumX2 - sumX * sumX) * (n * sumY2 - sumY * sumY))
         in if denominator = 0 then 0 else numerator / denominator))"

text \<open>\<open>data.map(row => parseFloat(row[col])).filter(v => !isNaN(v))\<close>, lines 643 and 649.\<close>

definition column_floats :: "row list \<Rightarrow> string \<Rightarrow> real list" where
  "column_floats rows col = map the (filter (\<lambda>v. v \<noteq> None) (map (\<lambda>r. parseFloat (cell r col)) rows))"

definition calculateCorrelationMatrix :: "string list \<Rightarrow> row list \<Rightarrow> real list list" where
  "calculateCorrelationMatrix columns rows =
     map (\<lambda>(i, col1).
            let values1 = column_floats rows col1
            in map (\<lambda>(j, col2).
                      if i = j then 1
                      else calculateCorrelation values1 (column_floats rows col2))
                   (enumerate 0 columns))
         (enumerate 0 columns)"

datatype cell_colour = Green | Yellow | White

definition colour_of :: "real \<Rightarrow> cell_colour" where
  "colour_of c = (if 0.7 < \<bar>c\<bar> then Green else if 0.5 < \<bar>c\<bar> then Yellow else White)"

datatype correlation_view =
    NeedTwoColumns
  | CorrelationTable "string list" "(string \<times> cell_colour) list list"

definition displayCorrelationAnalysis :: "dataset \<Rightarrow> correlation_view" where
  "displayCorrelationAnalysis ds =
     (let numericColumns = filter (numeric_column ds) (headers ds)
      in if length numericColumns < 2 then NeedTwoColumns
         else
           (let correlationMatrix = calculateCorrelationMatrix numericColumns (data ds);
                n = length numericColumns
            in CorrelationTable numericColumns
                 (map (\<lambda>i. map (\<lambda>j. let correlation = correlationMatrix ! i ! j
                                    in (to_fixed 3 correlation, colour_of correlation))
                                [0..<n])
                      [0..<n])))"

lemma foldl_plus_sum: "foldl (\<lambda>a b. a + b) c xs = c + sum_list (xs :: real list)"
  by (induction xs arbitrary: c) (simp_all add: algebra_simps)

lemma foldl_square_sum: "foldl (\<lambda>a b. a + b * b) c xs = c + (\<Sum>b\<leftarrow>xs. b * b :: real)"
  by (induction xs arbitrary: c) (simp_all add: algebra_simps)

lemma foldl_dot_sum:
  "foldl (\<lambda>a (i, b). a + b * y ! i) c (enumerate k xs) =
   c + (\<Sum>(i, b)\<leftarrow>enumerate k xs. b * y ! i :: real)"
  by (induction xs arbitrary: c k) (simp_all add: algebra_simps)

lemma sum_list_enumerate:
  "(\<Sum>(i, b)\<leftarrow>enumerate 0 xs. f i b) = (\<Sum>i<length xs. f i (xs ! i) :: real)"
  by (simp add: sum_list_map_nth nth_enumerate_eq)

lemma centred_product:
  fixes a b :: "nat \<Rightarrow> real"
  assumes "0 < n"
  shows "real n * (\<Sum>i<n. a i * b i) - (\<Sum>i<n. a i) * (\<Sum>i<n. b i) =
         real n * (\<Sum>i<n. (a i - (\<Sum>j<n. a j) / n) * (b i - (\<Sum>j<n. b j) / n))"
proof -
  define A B where "A = (\<Sum>j<n. a j)" and "B = (\<Sum>j<n. b j)"
  have "(\<Sum>i<n. (a i - A / n) * (b i - B / n)) =
        (\<Sum>i<n. a i * b i) - A * (B / n) - (A / n) * B + n * (A / n * (B / n))"
    by (simp add: A_def B_def algebra_simps sum_subtractf sum.distrib sum_distrib_left
                  sum_distrib_right sum_divide_distrib)
  also have "\<dots> = (\<Sum>i<n. a i * b i) - A * B / n"
    using assms by (simp add: field_simps)
  finally show ?thesis
    using assms by (simp add: A_def [symmetric] B_def [symmetric] field_simps)
qed

lemma pearson_bound:
  fixes N D :: real
  assumes "N\<^sup>2 \<le> D"
  shows "\<bar>if sqrt D = 0 then 0 else N / sqrt D\<bar> \<le> 1"
proof (cases "sqrt D = 0")
  case False
  have "\<bar>N\<bar> \<le> sqrt D" using real_sqrt_le_mono [OF assms] by simp
  with False show ?thesis by (simp add: abs_div)
qed simp

lemma centred_cauchy_schwarz:
  fixes a b :: "nat \<Rightarrow> real"
  assumes "0 < n"
  shows "(real n * (\<Sum>i<n. a i * b i) - (\<Sum>i<n. a i) * (\<Sum>i<n. b i))\<^sup>2 \<le>
         (real n * (\<Sum>i<n. a i * a i) - (\<Sum>i<n. a i) * (\<Sum>i<n. a i)) *
         (real n * (\<Sum>i<n. b i * b i) - (\<Sum>i<n. b i) * (\<Sum>i<n. b i))"
proof -
  define f g where "f i = a i - (\<Sum>j<n. a j) / n" and "g i = b i - (\<Sum>j<n. b j) / n" for i
  have "(\<Sum>i<n. f i * g i)\<^sup>2 \<le> (\<Sum>i<n. (f i)\<^sup>2) * (\<Sum>i<n. (g i)\<^sup>2)"
    by (rule cauchy_schwarz_sum)
  then have "(real n * (\<Sum>i<n. f i * g i))\<^sup>2 \<le>
             (real n * (\<Sum>i<n. f i * f i)) * (real n * (\<Sum>i<n. g i * g i))"
    by (simp add: power2_eq_square algebra_simps mult_left_mono)
  then show ?thesis
    using centred_product [OF assms, of a b] centred_product [OF assms, of a a]
          centred_product [OF assms, of b b]
    by (simp add: f_def g_def)
qed

lemma centred_square_nonneg:
  fixes a :: "nat \<Rightarrow> real"
  assumes "0 < n"
  shows "0 \<le> real n * (\<Sum>i<n. a i * a i) - (\<Sum>i<n. a i) * (\<Sum>i<n. a i)"
  using centred_product [OF assms, of a a] by (simp add: sum_nonneg)

lemma calculateCorrelation_sums:
  assumes len: "length y = length x" and n: "0 < length x"
  shows "calculateCorrelation x y =
    (let n = real (length x);
         N = n * (\<Sum>i<length x. x ! i * y ! i) - (\<Sum>i<length x. x ! i) * (\<Sum>i<length x. y ! i);
         D = (n * (\<Sum>i<length x. x ! i * x ! i) - (\<Sum>i<length x. x ! i) * (\<Sum>i<length x. x ! i)) *
             (n * (\<Sum>i<length x. y ! i * y ! i) - (\<Sum>i<length x. y ! i) * (\<Sum>i<length x. y ! i))
     in if sqrt D = 0 then 0 else N / sqrt D)"
proof -
  have dot: "(\<Sum>(i, b)\<leftarrow>enumerate 0 x. b * y ! i) = (\<Sum>i<length x. x ! i * y ! i)"
    by (simp add: sum_list_enumerate)
  have sx: "sum_list x = (\<Sum>i<length x. x ! i)" "sum_list y = (\<Sum>i<length y. y ! i)"
    using sum_list_map_nth [of "\<lambda>x. x"] by simp_all
  have sq: "(\<Sum>b\<leftarrow>xs. b * b) = (\<Sum>i<length xs. xs ! i * xs ! i)" for xs :: "real list"
    by (rule sum_list_map_nth)
  show ?thesis
    using n by (simp add: calculateCorrelation_def Let_def foldl_plus_sum foldl_square_sum
                          foldl_dot_sum dot sx sq len)
qed

lemma calculateCorrelation_sym: "calculateCorrelation x y = calculateCorrelation y x"
proof (cases "length x \<noteq> length y \<or> length x = 0")
  case False
  then have len: "length y = length x" and n: "0 < length x" and n': "0 < length y" by auto
  show ?thesis
    unfolding calculateCorrelation_sums [OF len n] calculateCorrelation_sums [OF len [symmetric] n']
      Let_def len
    by (simp add: mult.commute)
qed (auto simp: calculateCorrelation_def)

lemma calculateCorrelation_abs_le: "\<bar>calculateCorrelation x y\<bar> \<le> 1"
proof (cases "length x \<noteq> length y \<or> length x = 0")
  case False
  then have n: "0 < length x" and len: "length y = length x" by auto
  show ?thesis
    unfolding calculateCorrelation_sums [OF len n] Let_def
    by (rule pearson_bound, rule centred_cauchy_schwarz [OF n])
qed (auto simp: calculateCorrelation_def)

lemma calculateCorrelationMatrix_length [simp]:
  "length (calculateCorrelationMatrix cs rows) = length cs"
  by (simp add: calculateCorrelationMatrix_def)

lemma calculateCorrelationMatrix_nth:
  assumes "i < length cs" and "j < length cs"
  shows "calculateCorrelationMatrix cs rows ! i ! j =
           (if i = j then 1 else calculateCorrelation (column_floats rows (cs ! i)) (column_floats rows (cs ! j)))"
  using assms by (simp add: calculateCorrelationMatrix_def nth_enumerate_eq Let_def)

lemma calculateCorrelationMatrix_row_length:
  "i < length cs \<Longrightarrow> length (calculateCorrelationMatrix cs rows ! i) = length cs"
  by (simp add: calculateCorrelationMatrix_def nth_enumerate_eq Let_def)

lemma calculateCorrelationMatrix_bound:
  assumes "i < length cs" and "j < length cs"
  shows "\<bar>calculateCorrelationMatrix cs rows ! i ! j\<bar> \<le> 1"
proof -
  have "\<bar>calculateCorrelation (column_floats rows (cs ! i)) (column_floats rows (cs ! j))\<bar> \<le> 1"
    by (rule calculateCorrelation_abs_le)
  then show ?thesis using assms by (simp add: calculateCorrelationMatrix_nth)
qed

lemma to_fixed_one: "to_fixed 3 1 = ''1.000''"
  by (simp add: js_simps)

lemma colour_of_one: "colour_of 1 = Green"
  by (simp add: colour_of_def)

lemma displayCorrelationAnalysis_table:
  assumes "\<not> length (numericColumns ds) < 2"
  shows "displayCorrelationAnalysis ds =
           CorrelationTable (numericColumns ds)
             (map (\<lambda>i. map (\<lambda>j. (to_fixed 3 (calculateCorrelationMatrix (numericColumns ds) (data ds) ! i ! j),
                                  colour_of (calculateCorrelationMatrix (numericColumns ds) (data ds) ! i ! j)))
                          [0..<length (numericColumns ds)])
                  [0..<length (numericColumns ds)])"
  using assms by (simp add: displayCorrelationAnalysis_def numericColumns_def Let_def)

lemma sqrt_144: "sqrt 144 = (12::real)"
  by (rule real_sqrt_unique) simp_all

lemma sqrt_36: "sqrt 36 = (6::real)"
  by (rule real_sqrt_unique) simp_all

lemma parseFloat_empty [simp]: "parseFloat [] = None"
  by (simp add: parseFloat_def js_simps)

lemma column_floats_append:
  "column_floats (rs1 @ rs2) col = column_floats rs1 col @ column_floats rs2 col"
  by (simp add: column_floats_def)

text \<open>The matrix reads the table only through the number lists of its columns.\<close>

lemma calculateCorrelationMatrix_cong:
  assumes "\<And>c. column_floats r1 c = column_floats r2 c"
  shows "calculateCorrelationMatrix cs r1 = calculateCorrelationMatrix cs r2"
  unfolding calculateCorrelationMatrix_def assms ..

section \<open>Properties\<close>

text \<open>The examples of the specification: perfect positive and negative correlation,
  and the fallback 0 for empty lists and for a constant series (zero denominator).\<close>

theorem correlation_examples:
  "calculateCorrelation [1, 2, 3] [1, 2, 3] = 1 \<and> calculateCorrelation [1, 2, 3] [3, 2, 1] = -1 \<and>
   calculateCorrelation [] [] = 0 \<and> calculateCorrelation [1, 1, 1] [2, 2, 2] = 0"
  by (simp add: calculateCorrelation_def Let_def sqrt_36)

text \<open>C9: the correlation matrix is symmetric: every entry off the diagonal is computed
  from the two columns' own number lists, and the Pearson formula of
  \<open>calculateCorrelation\<close> is symmetric in its two lists (its products and its sums over the
  indices are the same in either order, in floating point as well), so the table shows the
  same coefficient for (A, B) and (B, A).\<close>

theorem correlation_matrix_symmetric:
  assumes "i < length cs" and "j < length cs"
  shows "calculateCorrelationMatrix cs rows ! i ! j = calculateCorrelationMatrix cs rows ! j ! i"
  using assms by (simp add: calculateCorrelationMatrix_nth calculateCorrelation_sym)

theorem correlation_matrix_symmetric_witness:
  "0 < length [''x'', ''y''] \<and> 1 < length [''x'', ''y''] \<and>
   calculateCorrelationMatrix [''x'', ''y''] [[(''x'', ''1''), (''y'', ''2'')], [(''x'', ''2''), (''y'', ''4'')],
                                             [(''x'', ''3''), (''y'', ''6'')]] ! 1 ! 0 = 1 \<and>
   calculateCorrelationMatrix [''x'', ''y''] [[(''x'', ''1''), (''y'', ''2'')], [(''x'', ''2''), (''y'', ''4'')],
                                             [(''x'', ''3''), (''y'', ''6'')]] ! 0 ! 1 = 1"
proof -
  let ?rows = "[[(''x'', ''1''), (''y'', ''2'')], [(''x'', ''2''), (''y'', ''4'')], [(''x'', ''3''), (''y'', ''6'')]]"
  have c: "column_floats ?rows ''x'' = [1, 2, 3]" "column_floats ?rows ''y'' = [2, 4, 6]"
    by (simp_all add: column_floats_def cell_def js_simps)
  have "calculateCorrelationMatrix [''x'', ''y''] ?rows ! 0 ! 1 = 1"
    by (simp add: calculateCorrelationMatrix_nth c calculateCorrelation_def Let_def sqrt_144)
  then show ?thesis
    using correlation_matrix_symmetric [of 0 "[''x'', ''y'']" 1 ?rows] by simp
qed

text \<open>The correlation panel asks for two numeric columns exactly when fewer than two
  are selected; otherwise it is a square table over the selected columns whose diagonal
  reads 1.000 in green and whose every cell prints a coefficient in [-1, 1].\<close>

theorem displayCorrelation_shape:
  "(displayCorrelationAnalysis ds = NeedTwoColumns \<longleftrightarrow> length (numericColumns ds) < 2) \<and>
   (2 \<le> length (numericColumns ds) \<longrightarrow>
      (\<exists>cells. displayCorrelationAnalysis ds = CorrelationTable (numericColumns ds) cells \<and>
         length cells = length (numericColumns ds) \<and>
         (\<forall>i < length cells. length (cells ! i) = length cells \<and> cells ! i ! i = (''1.000'', Green) \<and>
            (\<forall>j < length cells. \<exists>c. \<bar>c\<bar> \<le> 1 \<and> cells ! i ! j = (to_fixed 3 c, colour_of c)))))"
    (is "?iff \<and> (_ \<longrightarrow> ?table)")
proof
  show ?iff
    using displayCorrelationAnalysis_table [of ds]
    by (auto simp: displayCorrelationAnalysis_def numericColumns_def Let_def)
  show "2 \<le> length (numericColumns ds) \<longrightarrow> ?table"
  proof
    let ?M = "calculateCorrelationMatrix (numericColumns ds) (data ds)"
    assume "2 \<le> length (numericColumns ds)"
    then have lt: "\<not> length (numericColumns ds) < 2" by simp
    define cells where "cells =
      map (\<lambda>i. map (\<lambda>j. (to_fixed 3 (?M ! i ! j), colour_of (?M ! i ! j)))
                   [0..<length (numericColumns ds)])
          [0..<length (numericColumns ds)]"
    show ?table
    proof (intro exI [of _ cells] conjI allI impI)
      show "displayCorrelationAnalysis ds = CorrelationTable (numericColumns ds) cells"
        unfolding cells_def by (rule displayCorrelationAnalysis_table [OF lt])
      show "length cells = length (numericColumns ds)" by (simp add: cells_def)
      fix i assume i: "i < length cells"
      show "length (cells ! i) = length cells" using i by (simp add: cells_def)
      show "cells ! i ! i = (''1.000'', Green)"
        using i by (simp add: cells_def calculateCorrelationMatrix_nth to_fixed_one colour_of_one)
      fix j assume j: "j < length cells"
      show "\<exists>c. \<bar>c\<bar> \<le> 1 \<and> cells ! i ! j = (to_fixed 3 c, colour_of c)"
        using i j calculateCorrelationMatrix_bound [of i "numericColumns ds" j "data ds"]
        by (auto simp: cells_def)
    qed
  qed
qed

theorem displayCorrelation_shape_witness:
  "numericColumns (projr (parseCSV ''x,y\<newline>1,2\<newline>2,4\<newline>3,6'')) = [''x'', ''y''] \<and>
   (\<exists>cells. displayCorrelationAnalysis (projr (parseCSV ''x,y\<newline>1,2\<newline>2,4\<newline>3,6'')) =
              CorrelationTable [''x'', ''y''] cells \<and> length cells = 2 \<and>
              cells ! 0 ! 0 = (''1.000'', Green))"
proof -
  have ds: "projr (parseCSV ''x,y\<newline>1,2\<newline>2,4\<newline>3,6'') =
            \<lparr>headers = [''x'', ''y''],
             data = [[(''x'', ''1''), (''y'', ''2'')], [(''x'', ''2''), (''y'', ''4'')], [(''x'', ''3''), (''y'', ''6'')]],
             rawText = ''x,y\<newline>1,2\<newline>2,4\<newline>3,6''\<rparr>"
    by (simp add: parseCSV_def nonblank_lines_def split_fields_def mk_row_def field_at_def Let_def js_simps)
  have nc: "numericColumns (projr (parseCSV ''x,y\<newline>1,2\<newline>2,4\<newline>3,6'')) = [''x'', ''y'']"
    unfolding ds by (simp add: numericColumns_def numeric_column_def column_values_def present_def cell_def js_simps)
  show ?thesis
    using displayCorrelation_shape [of "projr (parseCSV ''x,y\<newline>1,2\<newline>2,4\<newline>3,6'')"]
    unfolding nc by auto
qed

text \<open>C10: the correlation panel does not use the type inference: a column whose first
  hundred non-blank values are more than 80% numeric is classified Numeric by the column
  analysis, yet when its first non-blank value is not a number the correlation panel never
  shows it, whatever the rest of the table.\<close>

theorem numeric_selection_divergence:
  assumes "column_values ds h = v # vs" and "js_isNaN v"
    and "0.8 < real (length (filter (\<lambda>v. \<not> js_isNaN v \<and> js_trim v \<noteq> []) (take 100 (v # vs)))) /
               real (length (take 100 (v # vs)))"
  shows "inferDataType date_ok (column_values ds h) = Numeric \<and>
         (\<forall>cols m. displayCorrelationAnalysis ds = CorrelationTable cols m \<longrightarrow> h \<notin> set cols)"
proof
  show "inferDataType date_ok (column_values ds h) = Numeric"
    using assms(1,3) by (simp add: inferDataType_def Let_def)
  have "\<not> numeric_column ds h" using assms(1,2) by (simp add: numeric_column_def)
  then show "\<forall>cols m. displayCorrelationAnalysis ds = CorrelationTable cols m \<longrightarrow> h \<notin> set cols"
    by (auto simp: displayCorrelationAnalysis_def Let_def split: if_splits)
qed

theorem numeric_selection_divergence_witness:
  "inferDataType (\<lambda>_. True) (column_values (projr (parseCSV ''x,y\<newline>n/a,2\<newline>4,7\<newline>8,1\<newline>15,8\<newline>16,2\<newline>23,8\<newline>42,1\<newline>7,8\<newline>3,2\<newline>5,8'')) ''x'') = Numeric \<and>
   inferDataType (\<lambda>_. True) (column_values (projr (parseCSV ''x,y\<newline>n/a,2\<newline>4,7\<newline>8,1\<newline>15,8\<newline>16,2\<newline>23,8\<newline>42,1\<newline>7,8\<newline>3,2\<newline>5,8'')) ''y'') = Numeric \<and>
   displayCorrelationAnalysis (projr (parseCSV ''x,y\<newline>n/a,2\<newline>4,7\<newline>8,1\<newline>15,8\<newline>16,2\<newline>23,8\<newline>42,1\<newline>7,8\<newline>3,2\<newline>5,8'')) = NeedTwoColumns"
proof -
  have ds: "projr (parseCSV ''x,y\<newline>n/a,2\<newline>4,7\<newline>8,1\<newline>15,8\<newline>16,2\<newline>23,8\<newline>42,1\<newline>7,8\<newline>3,2\<newline>5,8'') =
            \<lparr>headers = [''x'', ''y''],
             data = [[(''x'', ''n/a''), (''y'', ''2'')], [(''x'', ''4''), (''y'', ''7'')], [(''x'', ''8''), (''y'', ''1'')], [(''x'', ''15''), (''y'', ''8'')], [(''x'', ''16''), (''y'', ''2'')], [(''x'', ''23''), (''y'', ''8'')], [(''x'', ''42''), (''y'', ''1'')], [(''x'', ''7''), (''y'', ''8'')], [(''x'', ''3''), (''y'', ''2'')], [(''x'', ''5''), (''y'', ''8'')]],
             rawText = ''x,y\<newline>n/a,2\<newline>4,7\<newline>8,1\<newline>15,8\<newline>16,2\<newline>23,8\<newline>42,1\<newline>7,8\<newline>3,2\<newline>5,8''\<rparr>"
    by (simp add: parseCSV_def nonblank_lines_def split_fields_def mk_row_def field_at_def Let_def js_simps)
  have cx: "column_values (projr (parseCSV ''x,y\<newline>n/a,2\<newline>4,7\<newline>8,1\<newline>15,8\<newline>16,2\<newline>23,8\<newline>42,1\<newline>7,8\<newline>3,2\<newline>5,8'')) ''x'' =
            [''n/a'', ''4'', ''8'', ''15'', ''16'', ''23'', ''42'', ''7'', ''3'', ''5'']"
    unfolding ds by (simp add: column_values_def cell_def present_def js_simps)
  have cy: "column_values (projr (parseCSV ''x,y\<newline>n/a,2\<newline>4,7\<newline>8,1\<newline>15,8\<newline>16,2\<newline>23,8\<newline>42,1\<newline>7,8\<newline>3,2\<newline>5,8'')) ''y'' =
            [''2'', ''7'', ''1'', ''8'', ''2'', ''8'', ''1'', ''8'', ''2'', ''8'']"
    unfolding ds by (simp add: column_values_def cell_def present_def js_simps)
  have "displayCorrelationAnalysis (projr (parseCSV ''x,y\<newline>n/a,2\<newline>4,7\<newline>8,1\<newline>15,8\<newline>16,2\<newline>23,8\<newline>42,1\<newline>7,8\<newline>3,2\<newline>5,8'')) = NeedTwoColumns"
    unfolding displayCorrelationAnalysis_def Let_def ds
    by (simp add: numeric_column_def column_values_def cell_def present_def js_simps)
  moreover have "inferDataType (\<lambda>_. True) (column_values (projr (parseCSV ''x,y\<newline>n/a,2\<newline>4,7\<newline>8,1\<newline>15,8\<newline>16,2\<newline>23,8\<newline>42,1\<newline>7,8\<newline>3,2\<newline>5,8'')) ''x'') = Numeric"
    using numeric_selection_divergence [OF cx, of "\<lambda>_. True"] by (simp add: js_simps)
  moreover have "inferDataType (\<lambda>_. True) (column_values (projr (parseCSV ''x,y\<newline>n/a,2\<newline>4,7\<newline>8,1\<newline>15,8\<newline>16,2\<newline>23,8\<newline>42,1\<newline>7,8\<newline>3,2\<newline>5,8'')) ''y'') = Numeric"
    unfolding cy by (simp add: inferDataType_def Let_def js_simps)
  ultimately show ?thesis by simp
qed

text \<open>C38: the matrix pairs the k-th number of one column with the k-th number of the other,
  not the two values of one row, since each column's list is filtered on its own (lines 643
  and 649): a row holding only a value of x followed by a row holding only a value of y gives
  the same matrix, for any columns and any rows around them, as one row holding both values.
  Values observed in different rows are correlated as if they were one observation.\<close>

theorem correlation_half_rows:
  assumes "x \<noteq> y"
  shows "calculateCorrelationMatrix cs (pre @ [[(x, a), (y, '''')], [(x, ''''), (y, b)]] @ post) =
         calculateCorrelationMatrix cs (pre @ [[(x, a), (y, b)]] @ post)"
proof (rule calculateCorrelationMatrix_cong)
  fix c
  have "column_floats [[(x, a), (y, '''')], [(x, ''''), (y, b)]] c = column_floats [[(x, a), (y, b)]] c"
    using assms by (simp add: column_floats_def cell_def)
  then show "column_floats (pre @ [[(x, a), (y, '''')], [(x, ''''), (y, b)]] @ post) c =
             column_floats (pre @ [[(x, a), (y, b)]] @ post) c"
    by (simp only: column_floats_append)
qed

theorem correlation_half_rows_witness:
  "''x'' \<noteq> ''y'' \<and>
   calculateCorrelationMatrix [''x'', ''y'']
     ([[(''x'', ''1''), (''y'', ''2'')]] @ [[(''x'', ''2''), (''y'', '''')], [(''x'', ''''), (''y'', ''4'')]] @
      [[(''x'', ''3''), (''y'', ''6'')]]) ! 0 ! 1 = 1"
proof -
  let ?rows = "[[(''x'', ''1''), (''y'', ''2'')], [(''x'', ''2''), (''y'', ''4'')], [(''x'', ''3''), (''y'', ''6'')]]"
  have c: "column_floats ?rows ''x'' = [1, 2, 3]" "column_floats ?rows ''y'' = [2, 4, 6]"
    by (simp_all add: column_floats_def cell_def js_simps)
  have one: "calculateCorrelationMatrix [''x'', ''y''] ?rows ! 0 ! 1 = 1"
    by (simp add: calculateCorrelationMatrix_nth c calculateCorrelation_def Let_def sqrt_144)
  have "calculateCorrelationMatrix [''x'', ''y'']
     ([[(''x'', ''1''), (''y'', ''2'')]] @ [[(''x'', ''2''), (''y'', '''')], [(''x'', ''''), (''y'', ''4'')]] @
      [[(''x'', ''3''), (''y'', ''6'')]]) = calculateCorrelationMatrix [''x'', ''y''] ?rows"
    using correlation_half_rows [of "''x''" "''y''" "[''x'', ''y'']" "[[(''x'', ''1''), (''y'', ''2'')]]"
                                    "''2''" "''4''" "[[(''x'', ''3''), (''y'', ''6'')]]"]
    by simp
  with one show ?thesis by simp
qed

end
