(* ===== verification/Categories.thy ===== *)
theory Categories
  imports Stats
begin

text \<open>
  The two categorical analyses. \<open>displayFraudAnalysis\<close> (lines 538--590) takes the first
  column whose lower-cased name mentions \<open>fraud\<close>, \<open>is_fraud\<close>, \<open>class\<close> or \<open>target\<close>,
  counts its non-blank values whose lower-cased text is \<open>1\<close>, \<open>true\<close>, \<open>fraud\<close> or
  \<open>yes\<close> as fraudulent and the others as legitimate. \<open>displaySpendingCategories\<close>
  (722--792) groups the rows by the first category-like column (a blank cell is the
  group \<open>Unknown\<close>) in a JavaScript \<open>Map\<close>, summing the first amount-like column
  (\<open>parseFloat(...) || 0\<close>) or counting rows when there is none, sorts the groups by
  descending total and keeps six, with percentages relative to the six shown.

  A \<open>Map\<close> is an association list: \<open>set\<close> on a present key keeps its position and
  \<open>set\<close> on a new key appends, which is exactly \<^const>\<open>AList.update\<close>.
  \<open>Array.prototype.sort\<close> is stable (ECMAScript 2019) and the comparator
  \<open>(a, b) => b[1] - a[1]\<close> is consistent on the finite totals, so the sorted array is the
  stable sort by the key \<open>- total\<close>, which is \<^const>\<open>sort_key\<close>.
\<close>

section \<open>Fraud analysis\<close>

definition fraud_like :: "string \<Rightarrow> bool" where
  "fraud_like h \<longleftrightarrow>
     js_includes (js_lower h) ''fraud'' \<or> js_includes (js_lower h) ''is_fraud'' \<or>
     js_includes (js_lower h) ''class'' \<or> js_includes (js_lower h) ''target''"

definition fraud_label :: "string \<Rightarrow> bool" where
  "fraud_label v \<longleftrightarrow>
     js_lower v = ''1'' \<or> js_lower v = ''true'' \<or> js_lower v = ''fraud'' \<or> js_lower v = ''yes''"

text \<open>\<open>totalCount > 0 ? ((count / totalCount) * 100).toFixed(2) : 0\<close>; the number \<open>0\<close>
  prints as \<open>0\<close>.\<close>

definition fraud_percentage :: "nat \<Rightarrow> nat \<Rightarrow> string" where
  "fraud_percentage part totalCount =
     (if 0 < totalCount then to_fixed 2 (real part / real totalCount * 100) else ''0'')"

datatype fraud_view =
    FraudCards nat string nat string
  | TransactionCount nat

definition displayFraudAnalysis :: "dataset \<Rightarrow> fraud_view" where
  "displayFraudAnalysis ds =
     (case filter fraud_like (headers ds) of
        [] \<Rightarrow> TransactionCount (length (data ds))
      | fraudColumn # _ \<Rightarrow>
          (let fraudValues = column_values ds fraudColumn;
               fraudCount = length (filter fraud_label fraudValues);
               legitimateCount = length fraudValues - fraudCount;
               totalCount = length fraudValues
           in FraudCards fraudCount (fraud_percentage fraudCount totalCount)
                         legitimateCount (fraud_percentage legitimateCount totalCount)))"

section \<open>Spending categories\<close>

definition category_like :: "string \<Rightarrow> bool" where
  "category_like h \<longleftrightarrow>
     js_includes (js_lower h) ''category'' \<or> js_includes (js_lower h) ''type'' \<or>
     js_includes (js_lower h) ''merchant'' \<or> js_includes (js_lower h) ''description''"

definition amount_or_value :: "string \<Rightarrow> bool" where
  "amount_or_value h \<longleftrightarrow> js_includes (js_lower h) ''amount'' \<or> js_includes (js_lower h) ''value''"

text \<open>\<open>row[categoryColumn] || 'Unknown'\<close>.\<close>

definition row_category :: "string \<Rightarrow> row \<Rightarrow> string" where
  "row_category categoryColumn r =
     (if cell r categoryColumn = [] then ''Unknown'' else cell r categoryColumn)"

text \<open>\<open>amountColumn ? parseFloat(row[amountColumn]) || 0 : 1\<close>.\<close>

definition row_amount :: "string option \<Rightarrow> row \<Rightarrow> real" where
  "row_amount amountColumn r =
     (case amountColumn of
        None \<Rightarrow> 1
      | Some a \<Rightarrow> (case parseFloat (cell r a) of None \<Rightarrow> 0 | Some v \<Rightarrow> v))"

text \<open>One step of \<open>data.forEach\<close>: \<open>has\<close>, \<open>get\<close> and \<open>set\<close> on the \<open>Map\<close>.\<close>

definition add_amount :: "(string \<times> real) list \<Rightarrow> string \<Rightarrow> real \<Rightarrow> (string \<times> real) list" where
  "add_amount categoryMap category amount =
     (case map_of categoryMap category of
        Some current \<Rightarrow> AList.update category (current + amount) categoryMap
      | None \<Rightarrow> AList.update category amount categoryMap)"

definition categoryMap :: "string \<Rightarrow> string option \<Rightarrow> row list \<Rightarrow> (string \<times> real) list" where
  "categoryMap categoryColumn amountColumn rows =
     foldl (\<lambda>m r. add_amount m (row_category categoryColumn r) (row_amount amountColumn r)) [] rows"

definition sortedCategories :: "(string \<times> real) list \<Rightarrow> (string \<times> real) list" where
  "sortedCategories m = take 6 (sort_key (\<lambda>(_, amount). - amount) m)"

definition category_percentage :: "real \<Rightarrow> real \<Rightarrow> string" where
  "category_percentage totalAmt amount =
     (if 0 < totalAmt then to_fixed 1 (amount / totalAmt * 100) else ''0'')"

datatype categories_view =
    CategoryCards "(string \<times> real \<times> string) list"
  | DataOverview nat nat

definition displaySpendingCategories :: "dataset \<Rightarrow> categories_view" where
  "displaySpendingCategories ds =
     (case filter category_like (headers ds) of
        [] \<Rightarrow> DataOverview (length (data ds)) (length (headers ds))
      | categoryColumn # _ \<Rightarrow>
          (let amountColumn = find amount_or_value (headers ds);
               sorted = sortedCategories (categoryMap categoryColumn amountColumn (data ds));
               totalAmt = foldl (\<lambda>s (_, amount). s + amount) 0 sorted
           in CategoryCards
                (map (\<lambda>(category, amount). (category, amount, category_percentage totalAmt amount))
                     sorted)))"

section \<open>Lemmas\<close>

lemma update_keys:
  "map fst (AList.update k v m) = (if k \<in> set (map fst m) then map fst m else map fst m @ [k])"
  by (induction m) auto

lemma sum_snd_update:
  "distinct (map fst m) \<Longrightarrow>
   sum_list (map snd (AList.update k v m)) =
     sum_list (map snd m) - (case map_of m k of Some t \<Rightarrow> t | None \<Rightarrow> 0) + (v :: real)"
  by (induction m) (auto split: option.splits)

lemma add_amount_keys:
  "map fst (add_amount m k a) = (if k \<in> set (map fst m) then map fst m else map fst m @ [k])"
  by (simp add: add_amount_def update_keys split: option.splits)

lemma map_of_add_amount:
  "map_of (add_amount m k a) = (map_of m)(k \<mapsto> (case map_of m k of Some t \<Rightarrow> t + a | None \<Rightarrow> a))"
  by (simp add: add_amount_def update_conv' split: option.splits)

lemma sum_add_amount:
  "distinct (map fst m) \<Longrightarrow> sum_list (map snd (add_amount m k a)) = sum_list (map snd m) + a"
  by (simp add: add_amount_def sum_snd_update split: option.splits)

lemma categoryMap_snoc:
  "categoryMap c a (rows @ [r]) = add_amount (categoryMap c a rows) (row_category c r) (row_amount a r)"
  by (simp add: categoryMap_def)

lemma categoryMap_keys:
  "map fst (categoryMap c a rows) = rev (remdups (rev (map (row_category c) rows)))"
  by (induction rows rule: rev_induct)
     (auto simp: categoryMap_snoc add_amount_keys, simp_all add: categoryMap_def)

lemma categoryMap_distinct: "distinct (map fst (categoryMap c a rows))"
  by (simp add: categoryMap_keys)

lemma filter_category_Nil:
  "k \<notin> row_category c ` set rows \<Longrightarrow> filter (\<lambda>r. row_category c r = k) rows = []"
  by (auto simp: filter_empty_conv)

lemma categoryMap_lookup:
  "map_of (categoryMap c a rows) k =
     (if k \<in> row_category c ` set rows
      then Some (\<Sum>r\<leftarrow>filter (\<lambda>r. row_category c r = k) rows. row_amount a r) else None)"
proof (induction rows rule: rev_induct)
  case Nil
  then show ?case by (simp add: categoryMap_def)
next
  case (snoc r rows)
  then show ?case
    by (auto simp: categoryMap_snoc map_of_add_amount filter_category_Nil
             split: option.splits if_splits)
qed

lemma categoryMap_sum:
  "sum_list (map snd (categoryMap c a rows)) = (\<Sum>r\<leftarrow>rows. row_amount a r)"
  by (induction rows rule: rev_induct)
     (simp_all add: categoryMap_snoc sum_add_amount categoryMap_distinct, simp add: categoryMap_def)

lemma sortedCategories_length: "length (sortedCategories m) \<le> 6"
  by (simp add: sortedCategories_def)

lemma sortedCategories_subset: "set (sortedCategories m) \<subseteq> set m"
  using set_take_subset [of 6 "sort_key (\<lambda>(_, amount). - amount) m"]
  by (simp add: sortedCategories_def)

lemma sortedCategories_distinct:
  "distinct (map fst m) \<Longrightarrow> distinct (map fst (sortedCategories m))"
proof -
  assume d: "distinct (map fst m)"
  have "mset (map fst (sort_key (\<lambda>(_, amount). - amount) m)) = mset (map fst m)"
    by simp
  then have "distinct (map fst (sort_key (\<lambda>(_, amount). - amount) m))"
    using d by (metis distinct_count_atmost_1 set_mset_mset count_mset)
  then show ?thesis
    by (simp add: sortedCategories_def take_map [symmetric])
qed

lemma sort_key_desc:
  "sorted_wrt (\<lambda>p q. snd q \<le> snd p) (sort_key (\<lambda>(_, amount). - amount) (m :: ('k \<times> real) list))"
proof -
  have "sorted (map (\<lambda>(_, amount). - amount) (sort_key (\<lambda>(_, amount). - amount) m))"
    by (rule sorted_sort_key)
  then show ?thesis
    by (simp add: sorted_map case_prod_beta)
qed

lemma sort_key_desc_split:
  "sorted_wrt (\<lambda>p q. snd q \<le> snd p) (take 6 (sort_key (\<lambda>(_, amount). - amount) m)) \<and>
   (\<forall>x\<in>set (take 6 (sort_key (\<lambda>(_, amount). - amount) m)).
      \<forall>y\<in>set (drop 6 (sort_key (\<lambda>(_, amount). - amount) (m :: ('k \<times> real) list))). snd y \<le> snd x)"
proof -
  let ?L = "sort_key (\<lambda>(_, amount). - amount) m"
  have "sorted_wrt (\<lambda>p q. snd q \<le> snd p) (take 6 ?L @ drop 6 ?L)"
    using sort_key_desc [of m] by (simp only: append_take_drop_id)
  from this [unfolded sorted_wrt_append] show ?thesis by blast
qed

lemma sortedCategories_sorted:
  "sorted_wrt (\<lambda>p q. snd q \<le> snd p) (sortedCategories m)"
  using sort_key_desc_split [of m] by (simp add: sortedCategories_def)

lemma sortedCategories_top:
  assumes "p \<in> set m" and "p \<notin> set (sortedCategories m)" and "q \<in> set (sortedCategories m)"
  shows "snd p \<le> snd q"
proof -
  let ?L = "sort_key (\<lambda>(_, amount). - amount) m"
  have "p \<in> set (drop 6 ?L)"
    using assms(1,2) set_append [of "take 6 ?L" "drop 6 ?L"]
    by (auto simp: sortedCategories_def)
  then show ?thesis
    using assms(3) sort_key_desc_split [of m] by (auto simp: sortedCategories_def)
qed

lemma filter_take_prefix: "\<exists>n. filter P (take k xs) = take n (filter P xs)"
proof
  have "filter P xs = filter P (take k xs) @ filter P (drop k xs)"
    by (metis append_take_drop_id filter_append)
  then show "filter P (take k xs) = take (length (filter P (take k xs))) (filter P xs)"
    by (metis append_eq_conv_conj)
qed

lemma sortedCategories_stable:
  "\<exists>n. filter (\<lambda>p. snd p = t) (sortedCategories m) = take n (filter (\<lambda>p. snd p = t) m)"
proof -
  have "filter (\<lambda>p. (\<lambda>(_, amount). - amount) p = - t) (sort_key (\<lambda>(_, amount). - amount) m) =
        filter (\<lambda>p. (\<lambda>(_, amount). - amount) p = - t) m"
    by (rule sort_key_stable)
  then have "filter (\<lambda>p. snd p = t) (sort_key (\<lambda>(_, amount). - amount) m) = filter (\<lambda>p. snd p = t) m"
    by (simp add: case_prod_beta)
  then show ?thesis
    using filter_take_prefix [of "\<lambda>p. snd p = t" 6 "sort_key (\<lambda>(_, amount). - amount) m"]
    by (simp add: sortedCategories_def)
qed

lemma foldl_snd_sum: "foldl (\<lambda>s (_, amount). s + amount) c xs = c + sum_list (map snd xs :: real list)"
  by (induction xs arbitrary: c) (auto simp: algebra_simps)

lemma displaySpendingCategories_cards:
  assumes "filter category_like (headers ds) = c # cs"
  shows "displaySpendingCategories ds =
           CategoryCards
             (map (\<lambda>(k, v). (k, v, category_percentage
                       (sum_list (map snd (sortedCategories (categoryMap c (find amount_or_value (headers ds)) (data ds))))) v))
                  (sortedCategories (categoryMap c (find amount_or_value (headers ds)) (data ds))))"
  using assms by (simp add: displaySpendingCategories_def foldl_snd_sum Let_def)

lemma displaySpendingCategories_CategoryCards:
  "displaySpendingCategories ds = CategoryCards cards \<Longrightarrow> \<exists>c cs. filter category_like (headers ds) = c # cs"
  by (cases "filter category_like (headers ds)") (simp_all add: displaySpendingCategories_def)

lemma sum_cards:
  "(\<Sum>(_, v, _)\<leftarrow>map (\<lambda>(k, v). (k, v, f v)) xs. g v) = (\<Sum>p\<leftarrow>xs. g (snd p) :: real)"
  by (induction xs) auto

lemma sum_percent: "(\<Sum>p\<leftarrow>xs. snd p / T * 100) = (\<Sum>p\<leftarrow>xs. snd p) / T * (100 :: real)"
  by (induction xs) (auto simp: add_divide_distrib distrib_right)

lemma map_fst_snd_cards:
  "map (\<lambda>(k, v, _). (k, v)) (map (\<lambda>(k, v). (k, v, f v)) xs) = xs"
  by (induction xs) auto

lemma spending_example_ds:
  "projr (parseCSV ''category,amount\<newline>A,10\<newline>B,30\<newline>C,5\<newline>D,30'') =
   \<lparr>headers = [''category'', ''amount''],
    data = [[(''category'', ''A''), (''amount'', ''10'')], [(''category'', ''B''), (''amount'', ''30'')],
            [(''category'', ''C''), (''amount'', ''5'')], [(''category'', ''D''), (''amount'', ''30'')]],
    rawText = ''category,amount\<newline>A,10\<newline>B,30\<newline>C,5\<newline>D,30''\<rparr>"
  by (simp add: parseCSV_def nonblank_lines_def split_fields_def mk_row_def field_at_def Let_def js_simps)

lemma length_column_values_le: "length (column_values ds h) \<le> length (data ds)"
  by (simp add: column_values_def)

section \<open>Properties\<close>

text \<open>C11: the spending-categories panel shows at most six groups of the category map, with
  distinct names, in order of descending total; every group left out has a total at most
  that of every group shown; and groups of equal total keep the map's order, which is the
  order in which the rows first mention them.\<close>

theorem spending_top6:
  assumes "filter category_like (headers ds) = c # cs"
  shows "let M = categoryMap c (find amount_or_value (headers ds)) (data ds) in
         \<exists>cards. displaySpendingCategories ds = CategoryCards cards \<and>
           (let top = map (\<lambda>(k, v, _). (k, v)) cards in
              length top \<le> 6 \<and> distinct (map fst top) \<and> set top \<subseteq> set M \<and>
              sorted_wrt (\<lambda>p q. snd q \<le> snd p) top \<and>
              (\<forall>p\<in>set M. p \<notin> set top \<longrightarrow> (\<forall>q\<in>set top. snd p \<le> snd q)) \<and>
              (\<forall>t. \<exists>n. filter (\<lambda>p. snd p = t) top = take n (filter (\<lambda>p. snd p = t) M)))"
proof -
  let ?M = "categoryMap c (find amount_or_value (headers ds)) (data ds)"
  let ?cards = "map (\<lambda>(k, v). (k, v, category_percentage (sum_list (map snd (sortedCategories ?M))) v))
                    (sortedCategories ?M)"
  have top: "map (\<lambda>(k, v, _). (k, v)) ?cards = sortedCategories ?M"
    by (rule map_fst_snd_cards)
  show ?thesis
    unfolding Let_def displaySpendingCategories_cards [OF assms]
  proof (intro exI [of _ ?cards] conjI refl)
  qed (unfold top, simp_all add: sortedCategories_length sortedCategories_distinct categoryMap_distinct
                       sortedCategories_subset sortedCategories_sorted sortedCategories_top
                       sortedCategories_stable)
qed

theorem spending_top6_witness:
  "filter category_like (headers (projr (parseCSV ''category,amount\<newline>A,10\<newline>B,30\<newline>C,5\<newline>D,30''))) = [''category''] \<and>
   (let M = categoryMap ''category'' (find amount_or_value (headers (projr (parseCSV ''category,amount\<newline>A,10\<newline>B,30\<newline>C,5\<newline>D,30'')))) (data (projr (parseCSV ''category,amount\<newline>A,10\<newline>B,30\<newline>C,5\<newline>D,30''))) in
         \<exists>cards. displaySpendingCategories (projr (parseCSV ''category,amount\<newline>A,10\<newline>B,30\<newline>C,5\<newline>D,30'')) = CategoryCards cards \<and>
           (let top = map (\<lambda>(k, v, _). (k, v)) cards in
              length top \<le> 6 \<and> distinct (map fst top) \<and> set top \<subseteq> set M \<and>
              sorted_wrt (\<lambda>p q. snd q \<le> snd p) top \<and>
              (\<forall>p\<in>set M. p \<notin> set top \<longrightarrow> (\<forall>q\<in>set top. snd p \<le> snd q)) \<and>
              (\<forall>t. \<exists>n. filter (\<lambda>p. snd p = t) top = take n (filter (\<lambda>p. snd p = t) M))))"
proof -
  have h: "filter category_like (headers (projr (parseCSV ''category,amount\<newline>A,10\<newline>B,30\<newline>C,5\<newline>D,30''))) = [''category'']"
    unfolding spending_example_ds by (simp add: category_like_def js_simps)
  show ?thesis
    by (rule conjI [OF h spending_top6 [OF h]])
qed

text \<open>C12: the category map built by the row loop lists each category once, in the order of
  its first row; the total of a category is the sum of the amounts of its rows (rows
  without a category are the group Unknown); and the totals add up to the sum of all row
  amounts, so no row is lost or counted twice.\<close>

theorem categoryMap_groups:
  "map fst (categoryMap c a rows) = rev (remdups (rev (map (row_category c) rows))) \<and>
   map_of (categoryMap c a rows) k =
     (if k \<in> row_category c ` set rows
      then Some (\<Sum>r\<leftarrow>filter (\<lambda>r. row_category c r = k) rows. row_amount a r) else None) \<and>
   sum_list (map snd (categoryMap c a rows)) = (\<Sum>r\<leftarrow>rows. row_amount a r)"
  by (simp add: categoryMap_keys categoryMap_lookup categoryMap_sum)

text \<open>When the six shown totals have a positive sum, each card's percentage is its total
  over that sum, printed with one decimal, and the exact percentages add up to 100.\<close>

theorem category_percentages:
  assumes "displaySpendingCategories ds = CategoryCards cards"
    and "0 < (\<Sum>(_, v, _)\<leftarrow>cards. v)"
  shows "(\<Sum>(_, v, _)\<leftarrow>cards. v / (\<Sum>(_, v, _)\<leftarrow>cards. v) * 100) = 100 \<and>
         (\<forall>(k, v, p)\<in>set cards. p = to_fixed 1 (v / (\<Sum>(_, v, _)\<leftarrow>cards. v) * 100))"
proof -
  obtain c cs where h: "filter category_like (headers ds) = c # cs"
    using displaySpendingCategories_CategoryCards [OF assms(1)] by blast
  define S where "S = sortedCategories (categoryMap c (find amount_or_value (headers ds)) (data ds))"
  have cards: "cards = map (\<lambda>(k, v). (k, v, category_percentage (sum_list (map snd S)) v)) S"
    using assms(1) displaySpendingCategories_cards [OF h] by (simp add: S_def)
  have tot: "(\<Sum>(_, v, _)\<leftarrow>cards. v) = sum_list (map snd S)"
    unfolding cards sum_cards by simp
  have "(\<Sum>(_, v, _)\<leftarrow>cards. v / sum_list (map snd S) * 100) = sum_list (map snd S) / sum_list (map snd S) * 100"
    unfolding cards sum_cards sum_percent by simp
  then show ?thesis
    using assms(2) unfolding tot by (auto simp: cards category_percentage_def)
qed

theorem category_percentages_witness:
  "displaySpendingCategories (projr (parseCSV ''merchant\<newline>A\<newline>B\<newline>A'')) =
     CategoryCards [(''A'', 2, ''66.7''), (''B'', 1, ''33.3'')] \<and>
   0 < (\<Sum>(_, v, _)\<leftarrow>[(''A'', 2, ''66.7''), (''B'', 1, ''33.3'')]. v :: real) \<and>
   (\<Sum>(_, v, _)\<leftarrow>[(''A'', 2, ''66.7''), (''B'', 1, ''33.3'')].
      v / (\<Sum>(_, v, _)\<leftarrow>[(''A'', 2, ''66.7''), (''B'', 1, ''33.3'')]. v) * 100) = (100 :: real)"
proof -
  have ds: "projr (parseCSV ''merchant\<newline>A\<newline>B\<newline>A'') =
            \<lparr>headers = [''merchant''], data = [[(''merchant'', ''A'')], [(''merchant'', ''B'')], [(''merchant'', ''A'')]],
             rawText = ''merchant\<newline>A\<newline>B\<newline>A''\<rparr>"
    by (simp add: parseCSV_def nonblank_lines_def split_fields_def mk_row_def field_at_def Let_def js_simps)
  have v: "displaySpendingCategories (projr (parseCSV ''merchant\<newline>A\<newline>B\<newline>A'')) =
             CategoryCards [(''A'', 2, ''66.7''), (''B'', 1, ''33.3'')]"
    unfolding ds
    by (simp add: displaySpendingCategories_def category_like_def amount_or_value_def categoryMap_def
                  add_amount_def row_category_def row_amount_def cell_def sortedCategories_def
                  category_percentage_def js_simps)
  show ?thesis
    using category_percentages [OF v] v by simp
qed

text \<open>The example of the specification: groups A 10, B 30, C 5, D 30 are shown as B, D, A,
  C (the tie between B and D broken by first encounter) with percentages relative to the
  shown total 75.\<close>

theorem spending_example:
  "displaySpendingCategories (projr (parseCSV ''category,amount\<newline>A,10\<newline>B,30\<newline>C,5\<newline>D,30'')) =
   CategoryCards [(''B'', 30, ''40.0''), (''D'', 30, ''40.0''), (''A'', 10, ''13.3''), (''C'', 5, ''6.7'')]"
  unfolding spending_example_ds
  by (simp add: displaySpendingCategories_def category_like_def amount_or_value_def categoryMap_def
                add_amount_def row_category_def row_amount_def cell_def sortedCategories_def
                category_percentage_def js_includes_def js_simps)

text \<open>C13: the spending panel and the transaction summary disagree on the amount column: when
  no header mentions amount or value but one mentions price or cost, the summary totals that
  column while the spending panel finds no amount column and shows, for each category, the
  number of its rows.\<close>

theorem amount_column_divergence:
  assumes "filter category_like (headers ds) = c # cs" and "find amount_or_value (headers ds) = None"
    and "filter amount_like (headers ds) = a # as" and "parsed_values ds a \<noteq> []"
  shows "(\<exists>cards. displaySpendingCategories ds = CategoryCards cards \<and>
            (\<forall>(k, v, p) \<in> set cards. v = real (length (filter (\<lambda>r. row_category c r = k) (data ds))))) \<and>
         totalAmount (displayTransactionSummary ds) = sum_list (parsed_values ds a)"
proof -
  let ?m = "categoryMap c None (data ds)"
  have counts: "v = real (length (filter (\<lambda>r. row_category c r = k) (data ds)))"
    if "(k, v) \<in> set (sortedCategories ?m)" for k v
  proof -
    have "(k, v) \<in> set ?m" using that sortedCategories_subset by blast
    then have "map_of ?m k = Some v" using categoryMap_distinct by (rule map_of_is_SomeI [rotated])
    moreover have "k \<in> row_category c ` set (data ds)"
      using \<open>(k, v) \<in> set ?m\<close> categoryMap_keys [of c None "data ds"]
      by (metis fst_conv image_eqI set_map set_remdups set_rev)
    moreover have "row_amount None = (\<lambda>_. 1)" by (simp add: fun_eq_iff row_amount_def)
    ultimately show ?thesis by (simp add: categoryMap_lookup sum_list_triv)
  qed
  have "displaySpendingCategories ds =
          CategoryCards (map (\<lambda>(k, v). (k, v, category_percentage (sum_list (map snd (sortedCategories ?m))) v))
                             (sortedCategories ?m))"
    using displaySpendingCategories_cards [OF assms(1)] assms(2) by simp
  moreover have "totalAmount (displayTransactionSummary ds) = sum_list (parsed_values ds a)"
    using assms(3,4) by (simp add: displayTransactionSummary_def Let_def)
  ultimately show ?thesis using counts by fastforce
qed

theorem amount_column_divergence_witness:
  "displaySpendingCategories (projr (parseCSV ''merchant,price\<newline>A,10\<newline>B,20'')) =
     CategoryCards [(''A'', 1, ''50.0''), (''B'', 1, ''50.0'')] \<and>
   totalAmount (displayTransactionSummary (projr (parseCSV ''merchant,price\<newline>A,10\<newline>B,20''))) = 30"
proof -
  have ds: "projr (parseCSV ''merchant,price\<newline>A,10\<newline>B,20'') =
            \<lparr>headers = [''merchant'', ''price''],
             data = [[(''merchant'', ''A''), (''price'', ''10'')], [(''merchant'', ''B''), (''price'', ''20'')]],
             rawText = ''merchant,price\<newline>A,10\<newline>B,20''\<rparr>"
    by (simp add: parseCSV_def nonblank_lines_def split_fields_def mk_row_def field_at_def Let_def js_simps)
  have c: "displaySpendingCategories (projr (parseCSV ''merchant,price\<newline>A,10\<newline>B,20'')) =
             CategoryCards [(''A'', 1, ''50.0''), (''B'', 1, ''50.0'')]"
    unfolding ds
    by (simp add: displaySpendingCategories_def category_like_def amount_or_value_def categoryMap_def
                  add_amount_def row_category_def row_amount_def cell_def sortedCategories_def
                  category_percentage_def js_simps)
  have h: "filter category_like (headers (projr (parseCSV ''merchant,price\<newline>A,10\<newline>B,20''))) = [''merchant'']"
    "find amount_or_value (headers (projr (parseCSV ''merchant,price\<newline>A,10\<newline>B,20''))) = None"
    "filter amount_like (headers (projr (parseCSV ''merchant,price\<newline>A,10\<newline>B,20''))) = [''price'']"
    "parsed_values (projr (parseCSV ''merchant,price\<newline>A,10\<newline>B,20'')) ''price'' = [10, 20]"
    unfolding ds
    by (simp_all add: category_like_def amount_or_value_def amount_like_def parsed_values_def cell_def js_simps)
  have "totalAmount (displayTransactionSummary (projr (parseCSV ''merchant,price\<newline>A,10\<newline>B,20''))) = 10 + 20"
    using amount_column_divergence [OF h(1) h(2) h(3)] h(4) by simp
  with c show ?thesis by simp
qed

text \<open>The fraud panel shows the generic transaction count exactly when no column name
  mentions fraud, class or target; otherwise it counts the fraud labels among the non-blank
  values of the first such column, the legitimate count is the rest of those values, at most
  the number of rows, and the two exact percentages add up to 100.\<close>

theorem fraud_counts:
  "(displayFraudAnalysis ds = TransactionCount (length (data ds)) \<longleftrightarrow> filter fraud_like (headers ds) = []) \<and>
   (displayFraudAnalysis ds = FraudCards f fp l lp \<longrightarrow>
      f = length (filter fraud_label (column_values ds (hd (filter fraud_like (headers ds))))) \<and>
      f + l = length (column_values ds (hd (filter fraud_like (headers ds)))) \<and>
      f + l \<le> length (data ds) \<and>
      fp = fraud_percentage f (f + l) \<and> lp = fraud_percentage l (f + l) \<and>
      (0 < f + l \<longrightarrow> real f / real (f + l) * 100 + real l / real (f + l) * 100 = 100))"
proof (cases "filter fraud_like (headers ds)")
  case Nil
  then show ?thesis by (simp add: displayFraudAnalysis_def)
next
  case (Cons h hs)
  have le: "length (filter fraud_label (column_values ds h)) \<le> length (column_values ds h)"
    by (rule length_filter_le)
  show ?thesis
  proof (intro conjI impI)
    show "(displayFraudAnalysis ds = TransactionCount (length (data ds))) = (filter fraud_like (headers ds) = [])"
      using Cons by (simp add: displayFraudAnalysis_def Let_def)
  next
    assume v: "displayFraudAnalysis ds = FraudCards f fp l lp"
    then have f: "f = length (filter fraud_label (column_values ds h))"
      and l: "l = length (column_values ds h) - f"
      and p: "fp = fraud_percentage f (length (column_values ds h))"
             "lp = fraud_percentage l (length (column_values ds h))"
      using Cons by (auto simp: displayFraudAnalysis_def Let_def)
    have fl: "f + l = length (column_values ds h)" using f l le by simp
    show "f = length (filter fraud_label (column_values ds (hd (filter fraud_like (headers ds)))))"
      using f Cons by simp
    show "f + l = length (column_values ds (hd (filter fraud_like (headers ds))))"
      using fl Cons by simp
    show "f + l \<le> length (data ds)"
      using fl length_column_values_le [of ds h] by simp
    show "fp = fraud_percentage f (f + l)" "lp = fraud_percentage l (f + l)"
      using p fl by simp_all
    assume "0 < f + l"
    then have pos: "0 < real f + real l"
      by (simp only: of_nat_add [symmetric] of_nat_0_less_iff)
    have "real f / real (f + l) * 100 + real l / real (f + l) * 100 =
          (real f + real l) / (real f + real l) * 100"
      by (simp only: of_nat_add distrib_right [symmetric] add_divide_distrib [symmetric])
    then show "real f / real (f + l) * 100 + real l / real (f + l) * 100 = 100"
      using pos by simp
  qed
qed

theorem fraud_counts_witness:
  "displayFraudAnalysis (projr (parseCSV ''is_fraud,amount\<newline>1,5\<newline>TRUE,6\<newline>no,7\<newline>,8\<newline>Yes,9\<newline>0,1'')) =
     FraudCards 3 ''60.00'' 2 ''40.00'' \<and>
   3 + 2 \<le> length (data (projr (parseCSV ''is_fraud,amount\<newline>1,5\<newline>TRUE,6\<newline>no,7\<newline>,8\<newline>Yes,9\<newline>0,1''))) \<and>
   real 3 / real (3 + 2) * 100 + real 2 / real (3 + 2) * 100 = (100 :: real)"
proof -
  have ds: "projr (parseCSV ''is_fraud,amount\<newline>1,5\<newline>TRUE,6\<newline>no,7\<newline>,8\<newline>Yes,9\<newline>0,1'') =
            \<lparr>headers = [''is_fraud'', ''amount''],
             data = [[(''is_fraud'', ''1''), (''amount'', ''5'')], [(''is_fraud'', ''TRUE''), (''amount'', ''6'')],
                     [(''is_fraud'', ''no''), (''amount'', ''7'')], [(''is_fraud'', []), (''amount'', ''8'')],
                     [(''is_fraud'', ''Yes''), (''amount'', ''9'')], [(''is_fraud'', ''0''), (''amount'', ''1'')]],
             rawText = ''is_fraud,amount\<newline>1,5\<newline>TRUE,6\<newline>no,7\<newline>,8\<newline>Yes,9\<newline>0,1''\<rparr>"
    by (simp add: parseCSV_def nonblank_lines_def split_fields_def mk_row_def field_at_def Let_def js_simps)
  have v: "displayFraudAnalysis (projr (parseCSV ''is_fraud,amount\<newline>1,5\<newline>TRUE,6\<newline>no,7\<newline>,8\<newline>Yes,9\<newline>0,1'')) =
             FraudCards 3 ''60.00'' 2 ''40.00''"
    unfolding ds
    by (simp add: displayFraudAnalysis_def fraud_like_def fraud_label_def column_values_def present_def
                  cell_def fraud_percentage_def Let_def js_simps)
  show ?thesis
    using fraud_counts [of "projr (parseCSV ''is_fraud,amount\<newline>1,5\<newline>TRUE,6\<newline>no,7\<newline>,8\<newline>Yes,9\<newline>0,1'')" 3 "''60.00''" 2 "''40.00''"] v
    by simp
qed

end
