(* ===== verification/Analysis.thy ===== *)
theory Analysis
  imports Correlation Categories
begin

text \<open>
  \<open>performDatasetAnalysis\<close> (lines 328--357) runs the nine display functions on one
  parsed table, in the order of the code; each writes its own container of the page. The
  record \<open>analysis\<close> holds what each of them renders, one field per container, so the
  whole analysis page is one value computed from the table (and from the browser's
  \<open>Date.parse\<close>, the parameter \<open>date_ok\<close> of the column type inference).
\<close>

record analysis =
  basicStats :: basic_stats
  dataQuality :: quality
  columnAnalysis :: "column_info list"
  dataDistribution :: "(string \<times> distribution option) list"
  correlationAnalysis :: correlation_view
  missingValues :: "(string \<times> nat \<times> string) list"
  fraudAnalysis :: fraud_view
  transactionSummary :: tx_summary
  spendingCategories :: categories_view

definition performDatasetAnalysis :: "(string \<Rightarrow> bool) \<Rightarrow> dataset \<Rightarrow> analysis" where
  "performDatasetAnalysis date_ok dataset =
     \<lparr>basicStats = displayBasicStatistics dataset,
      dataQuality = displayDataQuality dataset,
      columnAnalysis = displayColumnAnalysis date_ok dataset,
      dataDistribution = displayDataDistribution dataset,
      correlationAnalysis = displayCorrelationAnalysis dataset,
      missingValues = displayMissingValues dataset,
      fraudAnalysis = displayFraudAnalysis dataset,
      transactionSummary = displayTransactionSummary dataset,
      spendingCategories = displaySpendingCategories dataset\<rparr>"

end
