(* ===== verification/Upload.thy ===== *)
theory Upload
  imports Analysis
begin

text \<open>
  The upload handlers (lines 200--276) as a state machine. The page state
  the handlers touch is the record \<open>upload_state\<close>: the global \<open>currentDataset\<close> (line 200),
  the analysis panels on screen, the \<open>FileReader\<close> reads started and not yet loaded, the
  visibility of the progress box and of the results, the \<open>dragover\<close> class of the drop
  area and the alerts shown. The browser events \<open>initializeFileUpload\<close> registers are the
  datatype \<open>upload_event\<close>; \<open>LoadEnd i\<close> is the \<open>onload\<close> callback of the \<open>i\<close>-th read in
  flight. The browser may deliver the \<open>onload\<close> events of two reads in either order, so
  \<open>upload_step\<close> lets any pending read complete, and \<open>upload_reachable\<close> collects the states
  every interleaving reaches. Of the progress box this theory keeps only whether the
  handlers have shown or hidden it; the box with its timer and text is the theory
  \<open>Progress\<close>, which \<open>Dashboard\<close> drives from the same events (\<open>progress_of_upload\<close>).
\<close>

record js_file =
  fileType :: string
  fileText :: string

record upload_state =
  currentDataset :: "dataset option"
  shownAnalysis :: "analysis option"
  pendingReads :: "string list"
  progressShown :: bool
  resultsShown :: bool
  dragActive :: bool
  alerts :: "string list"

datatype upload_event =
    FileSelect "js_file option"
  | DragOver
  | DragLeave
  | Drop "js_file list"
  | LoadEnd nat

definition upload_init :: upload_state where
  "upload_init =
     \<lparr>currentDataset = None, shownAnalysis = None, pendingReads = [], progressShown = False,
      resultsShown = False, dragActive = False, alerts = []\<rparr>"

text \<open>\<open>processCSVFile\<close>: \<open>showUploadProgress()\<close>, then \<open>reader.readAsText(file)\<close> starts a
  read whose \<open>onload\<close> fires later.\<close>

definition processCSVFile :: "js_file \<Rightarrow> upload_state \<Rightarrow> upload_state" where
  "processCSVFile f s = s\<lparr>progressShown := True, pendingReads := pendingReads s @ [fileText f]\<rparr>"

text \<open>The \<open>onload\<close> callback: \<open>parseCSV\<close> throws on a text without a non-blank line, and the
  \<open>catch\<close> alerts and hides the progress box; otherwise the table becomes
  \<open>currentDataset\<close>, the progress box is hidden, the analysis is rendered and shown.\<close>

definition reader_onload :: "(string \<Rightarrow> bool) \<Rightarrow> string \<Rightarrow> upload_state \<Rightarrow> upload_state" where
  "reader_onload date_ok csvData s =
     (case parseCSV csvData of
        Inl TypeError \<Rightarrow>
          s\<lparr>alerts := alerts s @ [''Error processing CSV file. Please check the file format.''],
            progressShown := False\<rparr>
      | Inr dataset \<Rightarrow>
          s\<lparr>currentDataset := Some dataset, progressShown := False,
            shownAnalysis := Some (performDatasetAnalysis date_ok dataset), resultsShown := True\<rparr>)"

definition handleFileSelect :: "js_file option \<Rightarrow> upload_state \<Rightarrow> upload_state" where
  "handleFileSelect selected s =
     (case selected of
        None \<Rightarrow> s
      | Some f \<Rightarrow>
          if fileType f = ''text/csv'' then processCSVFile f s
          else s\<lparr>alerts := alerts s @ [''Please select a valid CSV file!'']\<rparr>)"

definition handleDrop :: "js_file list \<Rightarrow> upload_state \<Rightarrow> upload_state" where
  "handleDrop files s =
     (let s' = s\<lparr>dragActive := False\<rparr>
      in if 0 < length files \<and> fileType (hd files) = ''text/csv'' then processCSVFile (hd files) s'
         else s'\<lparr>alerts := alerts s' @ [''Please drop a valid CSV file!'']\<rparr>)"

definition upload_step :: "(string \<Rightarrow> bool) \<Rightarrow> upload_state \<Rightarrow> upload_event \<Rightarrow> upload_state option" where
  "upload_step date_ok s e =
     (case e of
        FileSelect selected \<Rightarrow> Some (handleFileSelect selected s)
      | DragOver \<Rightarrow> Some (s\<lparr>dragActive := True\<rparr>)
      | DragLeave \<Rightarrow> Some (s\<lparr>dragActive := False\<rparr>)
      | Drop files \<Rightarrow> Some (handleDrop files s)
      | LoadEnd i \<Rightarrow>
          if i < length (pendingReads s)
          then Some (reader_onload date_ok (pendingReads s ! i)
                       (s\<lparr>pendingReads := take i (pendingReads s) @ drop (Suc i) (pendingReads s)\<rparr>))
          else None)"

fun upload_run :: "(string \<Rightarrow> bool) \<Rightarrow> upload_state \<Rightarrow> upload_event list \<Rightarrow> upload_state option" where
  "upload_run date_ok s [] = Some s"
| "upload_run date_ok s (e # es) =
     (case upload_step date_ok s e of None \<Rightarrow> None | Some s' \<Rightarrow> upload_run date_ok s' es)"

inductive upload_reachable :: "(string \<Rightarrow> bool) \<Rightarrow> upload_state \<Rightarrow> bool" for date_ok where
  init: "upload_reachable date_ok upload_init"
| step: "upload_reachable date_ok s \<Longrightarrow> upload_step date_ok s e = Some s' \<Longrightarrow> upload_reachable date_ok s'"

text \<open>What the handlers keep true: the panels on screen are the analysis of
  \<open>currentDataset\<close>, the results are shown exactly when there is one, and it is a table
  that \<open>parseCSV\<close> returned for a text that was read.\<close>

definition upload_inv :: "(string \<Rightarrow> bool) \<Rightarrow> upload_state \<Rightarrow> bool" where
  "upload_inv date_ok s \<longleftrightarrow>
     shownAnalysis s = map_option (performDatasetAnalysis date_ok) (currentDataset s) \<and>
     resultsShown s = (currentDataset s \<noteq> None) \<and>
     (case currentDataset s of None \<Rightarrow> True | Some ds \<Rightarrow> parseCSV (rawText ds) = Inr ds)"

text \<open>The contract the handlers implement: the abstract state is the current table and the
  multiset of texts whose reads are in flight. A step starts a read, completes any read in
  flight (its table becomes current, or nothing changes when parseCSV throws), or changes
  nothing the contract sees.\<close>

record upload_spec_state =
  abs_current :: "dataset option"
  abs_pending :: "string multiset"

inductive upload_spec_step :: "upload_spec_state \<Rightarrow> upload_spec_state \<Rightarrow> bool" where
  start: "upload_spec_step a (a\<lparr>abs_pending := abs_pending a + {#t#}\<rparr>)"
| complete_ok: "t \<in># abs_pending a \<Longrightarrow> parseCSV t = Inr ds \<Longrightarrow>
    upload_spec_step a \<lparr>abs_current = Some ds, abs_pending = abs_pending a - {#t#}\<rparr>"
| complete_error: "t \<in># abs_pending a \<Longrightarrow> parseCSV t = Inl err \<Longrightarrow>
    upload_spec_step a (a\<lparr>abs_pending := abs_pending a - {#t#}\<rparr>)"
| stutter: "upload_spec_step a a"

inductive upload_spec_reachable :: "upload_spec_state \<Rightarrow> bool" where
  init: "upload_spec_reachable \<lparr>abs_current = None, abs_pending = {#}\<rparr>"
| step: "upload_spec_reachable a \<Longrightarrow> upload_spec_step a b \<Longrightarrow> upload_spec_reachable b"

definition upload_abs :: "upload_state \<Rightarrow> upload_spec_state" where
  "upload_abs s = \<lparr>abs_current = currentDataset s, abs_pending = mset (pendingReads s)\<rparr>"

section \<open>Lemmas\<close>

lemma parseCSV_rawText: "parseCSV t = Inr ds \<Longrightarrow> rawText ds = t"
  by (auto simp: parseCSV_def Let_def split: list.splits)

lemma reader_onload_inv:
  "upload_inv d s \<Longrightarrow> upload_inv d (reader_onload d t s)"
  by (auto simp: reader_onload_def upload_inv_def parseCSV_rawText split: sum.splits parse_error.splits)

lemma upload_inv_cong:
  "currentDataset s' = currentDataset s \<Longrightarrow> shownAnalysis s' = shownAnalysis s \<Longrightarrow>
   resultsShown s' = resultsShown s \<Longrightarrow> upload_inv d s' = upload_inv d s"
  by (simp add: upload_inv_def)

lemma upload_step_inv:
  assumes inv: "upload_inv d s" and st: "upload_step d s e = Some s'"
  shows "upload_inv d s'"
proof (cases e)
  case (LoadEnd i)
  let ?s = "s\<lparr>pendingReads := take i (pendingReads s) @ drop (Suc i) (pendingReads s)\<rparr>"
  from st LoadEnd have s': "s' = reader_onload d (pendingReads s ! i) ?s"
    by (auto simp: upload_step_def split: if_splits)
  have "upload_inv d ?s"
    using inv upload_inv_cong [of ?s s d] by simp
  then show ?thesis
    unfolding s' by (rule reader_onload_inv)
qed (use inv st in \<open>auto simp: upload_step_def handleFileSelect_def handleDrop_def processCSVFile_def
                               Let_def upload_inv_def split: option.splits if_splits\<close>)

lemma upload_init_inv: "upload_inv d upload_init"
  by (simp add: upload_inv_def upload_init_def)

fun_cases upload_run_ConsE: "upload_run d s (e # es) = Some s'"

lemma upload_run_reachable:
  "upload_run d s es = Some s' \<Longrightarrow> upload_reachable d s \<Longrightarrow> upload_reachable d s'"
proof (induction es arbitrary: s)
  case Nil
  then show ?case by simp
next
  case (Cons e es)
  from Cons.prems(1) obtain s1 where st: "upload_step d s e = Some s1" and r: "upload_run d s1 es = Some s'"
    by (auto elim: upload_run_ConsE split: option.splits)
  show ?case
    using Cons.IH [OF r] upload_reachable.step [OF Cons.prems(2) st] by blast
qed

lemma upload_race_runs:
  "upload_run d upload_init
     [FileSelect (Some \<lparr>fileType = ''text/csv'', fileText = ''a\<newline>1''\<rparr>),
      FileSelect (Some \<lparr>fileType = ''text/csv'', fileText = ''b\<newline>2''\<rparr>), LoadEnd 1, LoadEnd 0] =
   Some \<lparr>currentDataset = Some (projr (parseCSV ''a\<newline>1'')),
         shownAnalysis = Some (performDatasetAnalysis d (projr (parseCSV ''a\<newline>1''))),
         pendingReads = [], progressShown = False, resultsShown = True, dragActive = False, alerts = []\<rparr>"
  by (simp add: upload_init_def upload_step_def handleFileSelect_def processCSVFile_def reader_onload_def
                parseCSV_def nonblank_lines_def Let_def js_simps)

lemma upload_run_append:
  "upload_run d s (es1 @ es2) = Option.bind (upload_run d s es1) (\<lambda>s'. upload_run d s' es2)"
  by (induction es1 arbitrary: s) (auto split: option.splits)

lemma mset_remove_nth:
  "i < length xs \<Longrightarrow> mset (take i xs) + mset (drop (Suc i) xs) = mset xs - {#xs ! i#}"
proof -
  assume i: "i < length xs"
  have "mset xs = add_mset (xs ! i) (mset (take i xs) + mset (drop (Suc i) xs))"
    by (subst id_take_nth_drop [OF i]) simp
  then show ?thesis by simp
qed

lemma reader_onload_pending [simp]: "pendingReads (reader_onload d t s) = pendingReads s"
  and reader_onload_progress [simp]: "progressShown (reader_onload d t s) = False"
  by (simp_all add: reader_onload_def split: sum.splits parse_error.splits)

text \<open>Each step of the handlers is a step of the contract.\<close>

lemma upload_step_simulation:
  assumes st: "upload_step d s e = Some s'"
  shows "upload_spec_step (upload_abs s) (upload_abs s')"
proof (cases e)
  case (LoadEnd i)
  let ?t = "pendingReads s ! i"
  from st LoadEnd have i: "i < length (pendingReads s)"
    and s': "s' = reader_onload d ?t (s\<lparr>pendingReads := take i (pendingReads s) @ drop (Suc i) (pendingReads s)\<rparr>)"
    by (auto simp: upload_step_def split: if_splits)
  have t: "?t \<in># abs_pending (upload_abs s)" using i by (simp add: upload_abs_def)
  show ?thesis
  proof (cases "parseCSV ?t")
    case (Inl err)
    then have "upload_abs s' = (upload_abs s)\<lparr>abs_pending := abs_pending (upload_abs s) - {#?t#}\<rparr>"
      using i s' by (cases err) (simp add: upload_abs_def reader_onload_def mset_remove_nth)
    then show ?thesis using upload_spec_step.complete_error [OF t Inl] by simp
  next
    case (Inr ds)
    then have "upload_abs s' = \<lparr>abs_current = Some ds, abs_pending = abs_pending (upload_abs s) - {#?t#}\<rparr>"
      using i s' by (simp add: upload_abs_def reader_onload_def mset_remove_nth)
    then show ?thesis using upload_spec_step.complete_ok [OF t Inr] by simp
  qed
next
  case (FileSelect sel)
  then show ?thesis
    using st upload_spec_step.start [of "upload_abs s"] upload_spec_step.stutter [of "upload_abs s"]
    by (auto simp: upload_step_def handleFileSelect_def processCSVFile_def upload_abs_def
             split: option.splits if_splits)
next
  case (Drop files)
  then show ?thesis
    using st upload_spec_step.start [of "upload_abs s"] upload_spec_step.stutter [of "upload_abs s"]
    by (auto simp: upload_step_def handleDrop_def processCSVFile_def upload_abs_def Let_def split: if_splits)
qed (use st upload_spec_step.stutter in \<open>auto simp: upload_step_def upload_abs_def\<close>)

text \<open>Completing the oldest read in flight, as many times as there are reads, is always
  possible and empties the reads.\<close>

lemma upload_drain:
  "length (pendingReads s) = n \<Longrightarrow>
   \<exists>s'. upload_run d s (replicate n (LoadEnd 0)) = Some s' \<and> pendingReads s' = [] \<and>
        (n \<noteq> 0 \<longrightarrow> \<not> progressShown s')"
proof (induction n arbitrary: s)
  case (Suc n)
  obtain t ts where p: "pendingReads s = t # ts" using Suc.prems by (cases "pendingReads s") auto
  let ?s1 = "reader_onload d t (s\<lparr>pendingReads := ts\<rparr>)"
  have st: "upload_step d s (LoadEnd 0) = Some ?s1" by (simp add: upload_step_def p)
  have l: "length (pendingReads ?s1) = n" using Suc.prems p by simp
  show ?case
  proof (cases n)
    case 0
    then show ?thesis using st l by simp
  next
    case (Suc m)
    then show ?thesis using Suc.IH [OF l] st by simp
  qed
qed simp

section \<open>Properties\<close>

text \<open>C15: in every state the upload handlers reach, under every interleaving of the reads'
  completions, the panels on screen are the analysis of currentDataset, the results are
  shown exactly when there is a current table, and that table is what parseCSV returns for
  its own text.\<close>

theorem upload_invariant: "upload_reachable d s \<Longrightarrow> upload_inv d s"
  by (induction rule: upload_reachable.induct) (auto intro: upload_init_inv upload_step_inv)

theorem upload_invariant_witness:
  "upload_reachable (\<lambda>_. False)
     \<lparr>currentDataset = Some (projr (parseCSV ''a\<newline>1'')),
      shownAnalysis = Some (performDatasetAnalysis (\<lambda>_. False) (projr (parseCSV ''a\<newline>1''))),
      pendingReads = [], progressShown = False, resultsShown = True, dragActive = False, alerts = []\<rparr> \<and>
   upload_inv (\<lambda>_. False)
     \<lparr>currentDataset = Some (projr (parseCSV ''a\<newline>1'')),
      shownAnalysis = Some (performDatasetAnalysis (\<lambda>_. False) (projr (parseCSV ''a\<newline>1''))),
      pendingReads = [], progressShown = False, resultsShown = True, dragActive = False, alerts = []\<rparr>"
proof -
  have r: "upload_reachable (\<lambda>_. False)
     \<lparr>currentDataset = Some (projr (parseCSV ''a\<newline>1'')),
      shownAnalysis = Some (performDatasetAnalysis (\<lambda>_. False) (projr (parseCSV ''a\<newline>1''))),
      pendingReads = [], progressShown = False, resultsShown = True, dragActive = False, alerts = []\<rparr>"
    by (rule upload_run_reachable [OF upload_race_runs upload_reachable.init])
  show ?thesis
    using r upload_invariant [OF r] by simp
qed

text \<open>C16: two reads in flight race, and the read that completes last wins: when the older
  read (index \<open>i\<close>, its file chosen first) completes after the newer one (\<open>j\<close>), the
  older file's table stays current although the newer file was chosen later; in the other
  order the newer table wins. The first completion already hides the progress box while
  the other read is still in flight.\<close>

theorem upload_race:
  assumes "i < j" and "j < length (pendingReads s)"
    and "parseCSV (pendingReads s ! i) = Inr da" and "parseCSV (pendingReads s ! j) = Inr db"
  shows "map_option currentDataset (upload_run d s [LoadEnd j, LoadEnd i]) = Some (Some da) \<and>
         map_option currentDataset (upload_run d s [LoadEnd i, LoadEnd (j - 1)]) = Some (Some db) \<and>
         map_option (\<lambda>s'. (progressShown s', pendingReads s' \<noteq> [])) (upload_run d s [LoadEnd j]) =
           Some (False, True)"
proof -
  let ?ps = "pendingReads s"
  have ij: "(take j ?ps @ drop (Suc j) ?ps) ! i = ?ps ! i" using assms(1,2) by (simp add: nth_append)
  have ji: "(take i ?ps @ drop (Suc i) ?ps) ! (j - 1) = ?ps ! j" using assms(1,2) by (auto simp: nth_append)
  have len: "i < length ?ps - Suc 0" "j - Suc 0 < length ?ps - Suc 0" "?ps \<noteq> []"
    using assms(1,2) by auto
  show ?thesis
    using assms ij ji len by (simp add: upload_step_def reader_onload_def)
qed

theorem upload_race_witness:
  "map_option currentDataset (upload_run (\<lambda>_. False) upload_init
     [FileSelect (Some \<lparr>fileType = ''text/csv'', fileText = ''a\<newline>1''\<rparr>),
      FileSelect (Some \<lparr>fileType = ''text/csv'', fileText = ''b\<newline>2''\<rparr>), LoadEnd 1, LoadEnd 0]) =
     Some (Some (projr (parseCSV ''a\<newline>1'')))"
proof -
  let ?s = "upload_init\<lparr>pendingReads := [''a\<newline>1'', ''b\<newline>2''], progressShown := True\<rparr>"
  have sel: "upload_run (\<lambda>_. False) upload_init
     [FileSelect (Some \<lparr>fileType = ''text/csv'', fileText = ''a\<newline>1''\<rparr>),
      FileSelect (Some \<lparr>fileType = ''text/csv'', fileText = ''b\<newline>2''\<rparr>)] = Some ?s"
    by (simp add: upload_init_def upload_step_def handleFileSelect_def processCSVFile_def)
  have pa: "parseCSV (pendingReads ?s ! 0) = Inr (projr (parseCSV ''a\<newline>1''))"
    and pb: "parseCSV (pendingReads ?s ! 1) = Inr (projr (parseCSV ''b\<newline>2''))"
    by (simp_all add: parseCSV_def nonblank_lines_def Let_def js_simps)
  have "map_option currentDataset (upload_run (\<lambda>_. False) ?s [LoadEnd 1, LoadEnd 0]) =
      Some (Some (projr (parseCSV ''a\<newline>1'')))"
    using upload_race [of 0 1 ?s, OF _ _ pa pb] by simp
  moreover have "[FileSelect (Some \<lparr>fileType = ''text/csv'', fileText = ''a\<newline>1''\<rparr>),
      FileSelect (Some \<lparr>fileType = ''text/csv'', fileText = ''b\<newline>2''\<rparr>), LoadEnd 1, LoadEnd 0] =
      [FileSelect (Some \<lparr>fileType = ''text/csv'', fileText = ''a\<newline>1''\<rparr>),
      FileSelect (Some \<lparr>fileType = ''text/csv'', fileText = ''b\<newline>2''\<rparr>)] @ [LoadEnd 1, LoadEnd 0]"
    by simp
  ultimately show ?thesis by (simp only: upload_run_append sel Option.bind.simps)
qed

text \<open>C17: a read whose text has no non-blank line raises in parseCSV; the handler then alerts,
  hides the progress box, and leaves the current table and the panels as they were.\<close>

theorem upload_error_keeps_state:
  assumes "upload_step d s (LoadEnd i) = Some s'"
    and "parseCSV (pendingReads s ! i) = Inl TypeError"
  shows "currentDataset s' = currentDataset s \<and> shownAnalysis s' = shownAnalysis s \<and>
         resultsShown s' = resultsShown s \<and> \<not> progressShown s' \<and>
         alerts s' = alerts s @ [''Error processing CSV file. Please check the file format.''] \<and>
         pendingReads s' = take i (pendingReads s) @ drop (Suc i) (pendingReads s)"
  using assms by (auto simp: upload_step_def reader_onload_def split: if_splits)

theorem upload_error_keeps_state_witness:
  "upload_step (\<lambda>_. False) (upload_init\<lparr>pendingReads := ['' \<newline> '']\<rparr>) (LoadEnd 0) =
     Some (upload_init\<lparr>alerts := [''Error processing CSV file. Please check the file format.'']\<rparr>) \<and>
   parseCSV (pendingReads (upload_init\<lparr>pendingReads := ['' \<newline> '']\<rparr>) ! 0) = Inl TypeError \<and>
   currentDataset (upload_init\<lparr>alerts := [''Error processing CSV file. Please check the file format.'']\<rparr>) =
     currentDataset (upload_init\<lparr>pendingReads := ['' \<newline> '']\<rparr>)"
proof -
  have p: "parseCSV (pendingReads (upload_init\<lparr>pendingReads := ['' \<newline> '']\<rparr>) ! 0) = Inl TypeError"
    by (simp add: parseCSV_def nonblank_lines_def js_simps)
  have st: "upload_step (\<lambda>_. False) (upload_init\<lparr>pendingReads := ['' \<newline> '']\<rparr>) (LoadEnd 0) =
     Some (upload_init\<lparr>alerts := [''Error processing CSV file. Please check the file format.'']\<rparr>)"
    by (simp add: upload_step_def reader_onload_def upload_init_def parseCSV_def nonblank_lines_def js_simps)
  show ?thesis
    using upload_error_keeps_state [OF st p] st p by simp
qed

text \<open>C18: a selected or dropped file whose type is not text/csv, or a drop without files,
  starts no read: the state changes only by the alert (and the drop area's class).\<close>

theorem upload_type_guard:
  assumes "fileType f \<noteq> ''text/csv''"
  shows "upload_step d s (FileSelect (Some f)) = Some (s\<lparr>alerts := alerts s @ [''Please select a valid CSV file!'']\<rparr>) \<and>
         upload_step d s (Drop (f # fs)) =
           Some (s\<lparr>dragActive := False, alerts := alerts s @ [''Please drop a valid CSV file!'']\<rparr>) \<and>
         upload_step d s (Drop []) =
           Some (s\<lparr>dragActive := False, alerts := alerts s @ [''Please drop a valid CSV file!'']\<rparr>)"
  using assms by (simp add: upload_step_def handleFileSelect_def handleDrop_def)

theorem upload_type_guard_witness:
  "''application/vnd.ms-excel'' \<noteq> ''text/csv'' \<and>
   map_option pendingReads (upload_step (\<lambda>_. False) upload_init
      (Drop [\<lparr>fileType = ''application/vnd.ms-excel'', fileText = ''a\<newline>1''\<rparr>])) = Some []"
  using upload_type_guard [of "\<lparr>fileType = ''application/vnd.ms-excel'', fileText = ''a\<newline>1''\<rparr>"
                             "\<lambda>_. False" upload_init "[]"]
  by (simp add: upload_init_def)

text \<open>C28: the handlers refine their contract: the current table and the multiset of reads in
  flight of every reachable state form a state the contract reaches, so a table becomes
  current only as the result of a completed read, and every read completes at most once.\<close>

theorem upload_refinement: "upload_reachable d s \<Longrightarrow> upload_spec_reachable (upload_abs s)"
proof (induction rule: upload_reachable.induct)
  case init
  then show ?case
    using upload_spec_reachable.init by (simp add: upload_abs_def upload_init_def)
next
  case (step s e s')
  then show ?case
    using upload_spec_reachable.step upload_step_simulation by blast
qed

theorem upload_refinement_witness:
  "upload_spec_reachable (upload_abs \<lparr>currentDataset = Some (projr (parseCSV ''a\<newline>1'')),
      shownAnalysis = Some (performDatasetAnalysis (\<lambda>_. False) (projr (parseCSV ''a\<newline>1''))),
      pendingReads = [], progressShown = False, resultsShown = True, dragActive = False, alerts = []\<rparr>)"
  by (rule upload_refinement [OF upload_run_reachable [OF upload_race_runs upload_reachable.init]])

text \<open>C29: every read in flight completes: from any state the browser can deliver the onload
  events of all pending reads, after which no read is in flight and, when there was one,
  the progress box is hidden.\<close>

theorem upload_reads_complete:
  "\<exists>s'. upload_run d s (replicate (length (pendingReads s)) (LoadEnd 0)) = Some s' \<and>
        pendingReads s' = [] \<and> (pendingReads s \<noteq> [] \<longrightarrow> \<not> progressShown s')"
  using upload_drain [of s "length (pendingReads s)" d] by simp

theorem upload_reads_complete_witness:
  "\<exists>s'. upload_run (\<lambda>_. False) (upload_init\<lparr>pendingReads := [''a\<newline>1'', ''b\<newline>2''], progressShown := True\<rparr>)
          (replicate 2 (LoadEnd 0)) = Some s' \<and> pendingReads s' = [] \<and> \<not> progressShown s'"
  using upload_reads_complete [of "\<lambda>_. False" "upload_init\<lparr>pendingReads := [''a\<newline>1'', ''b\<newline>2''], progressShown := True\<rparr>"]
  by (simp add: upload_init_def numeral_2_eq_2)

end
