(* ===== verification/Transaction.thy ===== *)
theory Transaction
  imports Prelude
begin

text \<open>
  The transaction check form: \<open>formatId\<close> (lines 7--13) and \<open>checkTransaction\<close>
  (1046--1181) with the history row it appends (\<open>appendHistoryRow\<close>, 1238--1254). The
  function reads five form fields, validates them, derives a customer id from
  \<open>localStorage\<close>, builds the payload of \<open>POST /predict\<close> (remembered in
  \<open>lastPredictionPayload\<close>), and renders the backend's answer, asking a second endpoint
  for an explanation. The environment \<open>tx_env\<close> supplies what the code reads from the
  browser and the backend: the two \<open>localStorage\<close> items, the random id suffix, the
  timezone-dependent \<open>toISOString\<close> and \<open>toLocaleString\<close> of the entered local time, and
  the outcomes of the two requests. JSON values of the response are \<open>json_value\<close>;
  \<open>undefined\<close> and \<open>null\<close> are both \<open>JNull\<close> (the code treats them alike with \<open>||\<close> and
  \<open>??\<close>). The page state is \<open>tx_page\<close>; the DOM elements are assumed present.

  Calendar arithmetic follows ECMAScript's \<open>DayFromYear\<close>, \<open>MakeDay\<close> and \<open>WeekDay\<close>
  (\<open>make_day\<close>, \<open>week_day\<close>): \<open>getHours\<close>, \<open>getDate\<close>, \<open>getMonth\<close> and \<open>getDay\<close> of a
  date parsed from a \<open>datetime-local\<close> value (local time) read back its fields.
\<close>

section \<open>Identifiers\<close>

datatype id_kind = Txn | Cust | Plain

definition formatId :: "string option \<Rightarrow> id_kind \<Rightarrow> string" where
  "formatId ident kind =
     (case ident of
        None \<Rightarrow> ''-''
      | Some i \<Rightarrow>
          if i = [] then ''-''
          else (let trimmed = js_trim i
                in case kind of Txn \<Rightarrow> ''TXN-'' @ trimmed | Cust \<Rightarrow> ''CUST-'' @ trimmed | Plain \<Rightarrow> trimmed))"

section \<open>Local date and time\<close>

record local_dt =
  dt_year :: int
  dt_month :: nat
  dt_day :: nat
  dt_hour :: nat
  dt_minute :: nat

definition leap_year :: "int \<Rightarrow> bool" where
  "leap_year y \<longleftrightarrow> (y mod 4 = 0 \<and> y mod 100 \<noteq> 0) \<or> y mod 400 = 0"

definition days_in_month :: "int \<Rightarrow> nat \<Rightarrow> nat" where
  "days_in_month y m =
     (if m = 2 then (if leap_year y then 29 else 28)
      else if m \<in> {4, 6, 9, 11} then 30 else 31)"

text \<open>ECMAScript \<open>DayFromYear\<close>: the day number of January 1 of year \<open>y\<close>.\<close>

definition day_from_year :: "int \<Rightarrow> int" where
  "day_from_year y = 365 * (y - 1970) + (y - 1969) div 4 - (y - 1901) div 100 + (y - 1601) div 400"

definition make_day :: "int \<Rightarrow> nat \<Rightarrow> nat \<Rightarrow> int" where
  "make_day y m d = day_from_year y + int (\<Sum>k\<leftarrow>[1..<m]. days_in_month y k) + int d - 1"

text \<open>ECMAScript \<open>WeekDay\<close>: 1970-01-01 (day 0) was a Thursday (4).\<close>

definition week_day :: "int \<Rightarrow> int" where
  "week_day day = (day + 4) mod 7"

definition digits_at :: "string \<Rightarrow> nat \<Rightarrow> nat \<Rightarrow> nat option" where
  "digits_at s i n =
     (let w = take n (drop i s)
      in if length w = n \<and> list_all is_digit w then Some (digits_nat w) else None)"

text \<open>\<open>new Date(dtValue)\<close> for the \<open>datetime-local\<close> form \<open>YYYY-MM-DDTHH:MM\<close>, read as
  local time; a malformed or out-of-range value is an invalid date.\<close>

definition parse_local_datetime :: "string \<Rightarrow> local_dt option" where
  "parse_local_datetime s =
     (if length s = 16 \<and> s ! 4 = CHR ''-'' \<and> s ! 7 = CHR ''-'' \<and> s ! 10 = CHR ''T'' \<and> s ! 13 = CHR '':''
      then (case (digits_at s 0 4, digits_at s 5 2, digits_at s 8 2, digits_at s 11 2, digits_at s 14 2) of
              (Some y, Some m, Some d, Some h, Some mi) \<Rightarrow>
                if 1 \<le> m \<and> m \<le> 12 \<and> 1 \<le> d \<and> d \<le> days_in_month (int y) m \<and> h < 24 \<and> mi < 60
                then Some \<lparr>dt_year = int y, dt_month = m, dt_day = d, dt_hour = h, dt_minute = mi\<rparr>
                else None
            | _ \<Rightarrow> None)
      else None)"

section \<open>Backend values\<close>

datatype json_value = JNull | JBool bool | JNum real | JStr string

text \<open>\<open>String(v || '').toLowerCase()\<close>. A number prints as a numeral, which is never one of
  the alphabetic labels the code compares with; it is \<open>None\<close> here.\<close>

definition prediction_text :: "json_value \<Rightarrow> string option" where
  "prediction_text v =
     (case v of
        JNull \<Rightarrow> Some []
      | JBool b \<Rightarrow> Some (if b then ''true'' else [])
      | JNum x \<Rightarrow> None
      | JStr s \<Rightarrow> Some (js_lower s))"

text \<open>\<open>Number(v ?? 0)\<close>.\<close>

definition json_to_number :: "json_value \<Rightarrow> real option" where
  "json_to_number v =
     (case v of
        JNull \<Rightarrow> Some 0
      | JBool b \<Rightarrow> Some (if b then 1 else 0)
      | JNum x \<Rightarrow> Some x
      | JStr s \<Rightarrow> js_to_number s)"

text \<open>\<open>s || d\<close> for a string that may be missing.\<close>

definition or_default :: "string option \<Rightarrow> string \<Rightarrow> string" where
  "or_default v d = (case v of Some s \<Rightarrow> if s = [] then d else s | None \<Rightarrow> d)"

record predict_response =
  prediction :: json_value
  risk_score :: json_value
  reason :: "string option"
  transaction_id :: "string option"

datatype predict_outcome =
    FetchFailed string
  | HttpError nat "string option"
  | PredictOk predict_response

datatype explain_outcome =
    ExplainOk "string option" "string option"
  | ExplainNotOk
  | ExplainFailed

record tx_env =
  storedEmail :: "string option"
  storedFirstName :: "string option"
  randomSuffix :: string
  isoString :: "local_dt \<Rightarrow> string"
  localeString :: "local_dt \<Rightarrow> string"
  predictOutcome :: predict_outcome
  explainOutcome :: explain_outcome

section \<open>The check\<close>

record tx_form =
  amountValue :: string
  kycValue :: string
  ageValue :: string
  channelValue :: string
  dtValue :: string

record predict_payload =
  p_transaction_id :: string
  p_customer_id :: string
  p_kyc_verified :: string
  p_account_age_days :: int
  p_transaction_amount :: real
  p_channel :: string
  p_timestamp :: string
  p_is_fraud :: string
  p_hour :: nat
  p_day :: nat
  p_month :: nat
  p_weekday :: int
  p_is_high_value :: nat

record result_view =
  statusText :: string
  description :: string
  riskText :: string
  iconClass :: string
  tableTx :: string
  tablePrediction :: string
  tableRisk :: string
  tableReason :: string
  tableTimestamp :: string

record history_row =
  h_customer_id :: string
  h_transaction_amount :: string
  h_kyc_verified :: string
  h_account_age_days :: int
  h_channel :: string
  h_timestamp :: string
  h_is_fraud :: nat

record tx_page =
  lastPredictionPayload :: "predict_payload option"
  resultView :: "result_view option"
  historyRows :: "history_row list"
  txAlerts :: "string list"

text \<open>The guard \<open>!amount || !kyc || !ageDays || !channel || !dtValue\<close>: \<open>NaN\<close>, \<open>0\<close> and
  the empty string are falsy.\<close>

definition form_valid :: "tx_form \<Rightarrow> bool" where
  "form_valid f \<longleftrightarrow>
     (case parseFloat (amountValue f) of None \<Rightarrow> False | Some a \<Rightarrow> a \<noteq> 0) \<and> kycValue f \<noteq> [] \<and>
     (case js_parseInt10 (ageValue f) of None \<Rightarrow> False | Some n \<Rightarrow> n \<noteq> 0) \<and>
     channelValue f \<noteq> [] \<and> dtValue f \<noteq> []"

text \<open>\<open>(storedEmail ? storedEmail.split('@')[0] : '') || storedFirst || 'guest'\<close>.\<close>

definition customer_base :: "tx_env \<Rightarrow> string" where
  "customer_base env =
     (let email = js_trim (or_default (storedEmail env) []);
          first = js_trim (or_default (storedFirstName env) []);
          fromEmail = (if email \<noteq> [] then hd (split_on (CHR ''@'') email) else [])
      in if fromEmail \<noteq> [] then fromEmail else if first \<noteq> [] then first else ''guest'')"

definition build_payload :: "tx_env \<Rightarrow> real \<Rightarrow> string \<Rightarrow> int \<Rightarrow> string \<Rightarrow> local_dt \<Rightarrow> predict_payload" where
  "build_payload env amount kyc ageDays channel date =
     \<lparr>p_transaction_id = ''temp'', p_customer_id = customer_base env @ ''-'' @ randomSuffix env,
      p_kyc_verified = kyc, p_account_age_days = ageDays, p_transaction_amount = amount,
      p_channel = channel, p_timestamp = isoString env date, p_is_fraud = ''0'',
      p_hour = dt_hour date, p_day = dt_day date, p_month = dt_month date,
      p_weekday = week_day (make_day (dt_year date) (dt_month date) (dt_day date)),
      p_is_high_value = (if 1000 \<le> amount then 1 else 0)\<rparr>"

definition result_is_fraud :: "json_value \<Rightarrow> bool" where
  "result_is_fraud v \<longleftrightarrow>
     prediction_text v = Some ''fraud'' \<or> prediction_text v = Some ''fraudulent'' \<or> v = JNum 1"

definition history_is_fraud :: "json_value \<Rightarrow> bool" where
  "history_is_fraud v \<longleftrightarrow> prediction_text v = Some ''fraud'' \<or> v = JNum 1"

text \<open>The result cards and table before the explanation request.\<close>

definition initial_view :: "predict_payload \<Rightarrow> predict_response \<Rightarrow> result_view" where
  "initial_view payload resp =
     (let isFraud = result_is_fraud (prediction resp);
          risk = fixed_or_nan 2 (json_to_number (risk_score resp))
      in \<lparr>statusText = (if isFraud then ''Fraudulent Transaction'' else ''Legitimate Transaction''),
          description = or_default (reason resp) (if isFraud then ''High risk'' else ''No anomalies detected''),
          riskText = risk,
          iconClass = (if isFraud then ''bx bxs-shield-x'' else ''bx bxs-shield-check''),
          tableTx = formatId (transaction_id resp) Txn,
          tablePrediction = (if isFraud then ''Fraud'' else ''Legit''),
          tableRisk = risk,
          tableReason = or_default (reason resp) ''-'',
          tableTimestamp = p_timestamp payload\<rparr>)"

text \<open>The explanation request, made when the response has a transaction id; the
  description reads \<open>Generating explanation...\<close> while it runs.\<close>

definition explain_view :: "explain_outcome \<Rightarrow> predict_response \<Rightarrow> result_view \<Rightarrow> result_view" where
  "explain_view outcome resp v =
     (if or_default (transaction_id resp) [] = [] then v
      else
        (let v1 = v\<lparr>description := ''Generating explanation...''\<rparr>
         in case outcome of
              ExplainOk explanation rawReason \<Rightarrow>
                v1\<lparr>description := (if or_default explanation [] \<noteq> [] then the explanation
                                   else or_default (reason resp) (description v1)),
                   tableReason := (if or_default rawReason [] \<noteq> [] then the rawReason else tableReason v1)\<rparr>
            | ExplainNotOk \<Rightarrow> v1\<lparr>description := or_default (reason resp) ''Explanation service unavailable''\<rparr>
            | ExplainFailed \<Rightarrow> v1\<lparr>description := or_default (reason resp) ''Explanation error''\<rparr>))"

definition history_row_of :: "tx_env \<Rightarrow> predict_payload \<Rightarrow> local_dt \<Rightarrow> predict_response \<Rightarrow> history_row" where
  "history_row_of env payload date resp =
     \<lparr>h_customer_id = formatId (Some (p_customer_id payload)) Cust,
      h_transaction_amount = to_fixed 2 (p_transaction_amount payload),
      h_kyc_verified = p_kyc_verified payload, h_account_age_days = p_account_age_days payload,
      h_channel = p_channel payload, h_timestamp = localeString env date,
      h_is_fraud = (if history_is_fraud (prediction resp) then 1 else 0)\<rparr>"

definition checkTransaction :: "tx_env \<Rightarrow> tx_form option \<Rightarrow> tx_page \<Rightarrow> tx_page" where
  "checkTransaction env form pg =
     (case form of
        None \<Rightarrow> pg\<lparr>txAlerts := txAlerts pg @ [''Form is incomplete on the page.'']\<rparr>
      | Some f \<Rightarrow>
          if \<not> form_valid f then pg\<lparr>txAlerts := txAlerts pg @ [''Please fill all fields correctly.'']\<rparr>
          else
            (case parse_local_datetime (dtValue f) of
               None \<Rightarrow> pg\<lparr>txAlerts := txAlerts pg @ [''Error: Invalid time value'']\<rparr>
             | Some date \<Rightarrow>
                 (let payload = build_payload env (the (parseFloat (amountValue f))) (kycValue f)
                                  (the (js_parseInt10 (ageValue f))) (channelValue f) date;
                      pg1 = pg\<lparr>lastPredictionPayload := Some payload\<rparr>
                  in case predictOutcome env of
                       FetchFailed msg \<Rightarrow> pg1\<lparr>txAlerts := txAlerts pg1 @ [''Error: '' @ msg]\<rparr>
                     | HttpError status detail \<Rightarrow>
                         pg1\<lparr>txAlerts := txAlerts pg1 @
                               [''Error: '' @ or_default detail (''Request failed with '' @ nat_digits status)]\<rparr>
                     | PredictOk resp \<Rightarrow>
                         pg1\<lparr>resultView := Some (explain_view (explainOutcome env) resp (initial_view payload resp)),
                             historyRows := historyRows pg1 @ [history_row_of env payload date resp],
                             txAlerts := txAlerts pg1 @ [''Transaction evaluated successfully.'']\<rparr>)))"

section \<open>Lemmas\<close>

lemma week_day_bounds: "0 \<le> week_day d \<and> week_day d < 7"
  by (simp add: week_day_def)

lemma customer_base_nonempty: "customer_base env \<noteq> []"
  by (simp add: customer_base_def Let_def)

lemma checkTransaction_invalid:
  "\<not> form_valid f \<Longrightarrow>
   checkTransaction env (Some f) pg = pg\<lparr>txAlerts := txAlerts pg @ [''Please fill all fields correctly.'']\<rparr>"
  by (simp add: checkTransaction_def)

lemma checkTransaction_valid:
  assumes "form_valid f" and "parse_local_datetime (dtValue f) = Some date"
  shows "lastPredictionPayload (checkTransaction env (Some f) pg) =
           Some (build_payload env (the (parseFloat (amountValue f))) (kycValue f)
                   (the (js_parseInt10 (ageValue f))) (channelValue f) date)"
  using assms by (simp add: checkTransaction_def Let_def split: predict_outcome.splits)

lemma example_form_valid: "form_valid \<lparr>amountValue = ''1500'', kycValue = ''Yes'', ageValue = ''30'', channelValue = ''Web'', dtValue = ''2024-01-05T14:30''\<rparr>"
  by (simp add: form_valid_def js_simps)

lemma example_form_datetime: "parse_local_datetime (dtValue \<lparr>amountValue = ''1500'', kycValue = ''Yes'', ageValue = ''30'', channelValue = ''Web'', dtValue = ''2024-01-05T14:30''\<rparr>) = Some \<lparr>dt_year = 2024, dt_month = 1, dt_day = 5, dt_hour = 14, dt_minute = 30\<rparr>"
  by (simp add: parse_local_datetime_def digits_at_def days_in_month_def js_simps)

section \<open>Properties\<close>

text \<open>C20: the form is accepted exactly when the amount parses to a non-zero number, the age to a
  non-zero integer, and KYC, channel and date are non-empty; so 0 is refused while negative
  amounts and ages pass. A refused form only raises the alert and sends nothing.\<close>

theorem form_validation:
  "(form_valid f \<longleftrightarrow>
     (\<exists>a. parseFloat (amountValue f) = Some a \<and> a \<noteq> 0) \<and> kycValue f \<noteq> [] \<and>
     (\<exists>n. js_parseInt10 (ageValue f) = Some n \<and> n \<noteq> 0) \<and> channelValue f \<noteq> [] \<and> dtValue f \<noteq> []) \<and>
   (\<not> form_valid f \<longrightarrow>
      checkTransaction env (Some f) pg = pg\<lparr>txAlerts := txAlerts pg @ [''Please fill all fields correctly.'']\<rparr>)"
  by (auto simp: form_valid_def checkTransaction_invalid split: option.splits)

theorem form_validation_witness:
  "\<not> form_valid \<lparr>amountValue = ''0'', kycValue = ''Yes'', ageValue = ''30'', channelValue = ''Web'',
                  dtValue = ''2024-01-05T14:30''\<rparr> \<and>
   checkTransaction (\<lparr>storedEmail = None, storedFirstName = Some ''Ana'', randomSuffix = ''k3x9qa'', isoString = (\<lambda>_. ''2024-01-05T13:30:00.000Z''), localeString = (\<lambda>_. ''1/5/2024, 2:30:00 PM''), predictOutcome = FetchFailed ''Failed to fetch'', explainOutcome = ExplainFailed\<rparr>) (Some \<lparr>amountValue = ''0'', kycValue = ''Yes'', ageValue = ''30'', channelValue = ''Web'',
                  dtValue = ''2024-01-05T14:30''\<rparr>) \<lparr>lastPredictionPayload = None, resultView = None, historyRows = [], txAlerts = []\<rparr> =
     \<lparr>lastPredictionPayload = None, resultView = None, historyRows = [], txAlerts = []\<rparr>\<lparr>txAlerts := txAlerts \<lparr>lastPredictionPayload = None, resultView = None, historyRows = [], txAlerts = []\<rparr> @ [''Please fill all fields correctly.'']\<rparr> \<and>
   form_valid \<lparr>amountValue = ''-50'', kycValue = ''Yes'', ageValue = ''-3'', channelValue = ''Web'',
                dtValue = ''2024-01-05T14:30''\<rparr>"
proof -
  have z: "\<not> form_valid \<lparr>amountValue = ''0'', kycValue = ''Yes'', ageValue = ''30'', channelValue = ''Web'',
                  dtValue = ''2024-01-05T14:30''\<rparr>"
    by (simp add: form_valid_def js_simps)
  have n: "form_valid \<lparr>amountValue = ''-50'', kycValue = ''Yes'', ageValue = ''-3'', channelValue = ''Web'',
                dtValue = ''2024-01-05T14:30''\<rparr>"
    by (simp add: form_valid_def js_simps)
  show ?thesis
    using form_validation [of "\<lparr>amountValue = ''0'', kycValue = ''Yes'', ageValue = ''30'', channelValue = ''Web'',
                  dtValue = ''2024-01-05T14:30''\<rparr>"
                  "\<lparr>storedEmail = None, storedFirstName = Some ''Ana'', randomSuffix = ''k3x9qa'', isoString = (\<lambda>_. ''2024-01-05T13:30:00.000Z''), localeString = (\<lambda>_. ''1/5/2024, 2:30:00 PM''), predictOutcome = FetchFailed ''Failed to fetch'', explainOutcome = ExplainFailed\<rparr>"
                  "\<lparr>lastPredictionPayload = None, resultView = None, historyRows = [], txAlerts = []\<rparr>"] z n by simp
qed

text \<open>For an accepted form with a valid date the remembered payload carries the parsed amount
  and age, is_high_value exactly for amounts of at least 1000, the entered hour, day and month,
  a weekday in 0..6, is_fraud 0, and a customer id made of a non-empty base and the random
  suffix.\<close>

theorem payload_fields:
  assumes "form_valid f" and "parse_local_datetime (dtValue f) = Some date"
  shows "\<exists>p a n. lastPredictionPayload (checkTransaction env (Some f) pg) = Some p \<and>
           parseFloat (amountValue f) = Some a \<and> js_parseInt10 (ageValue f) = Some n \<and>
           p_transaction_amount p = a \<and> p_account_age_days p = n \<and>
           p_is_high_value p = (if 1000 \<le> a then 1 else 0) \<and>
           p_hour p = dt_hour date \<and> p_day p = dt_day date \<and> p_month p = dt_month date \<and>
           0 \<le> p_weekday p \<and> p_weekday p < 7 \<and> p_is_fraud p = ''0'' \<and>
           p_customer_id p = customer_base env @ ''-'' @ randomSuffix env \<and> customer_base env \<noteq> []"
proof -
  obtain a where a: "parseFloat (amountValue f) = Some a"
    using assms(1) by (auto simp: form_valid_def split: option.splits)
  obtain n where n: "js_parseInt10 (ageValue f) = Some n"
    using assms(1) by (auto simp: form_valid_def split: option.splits)
  show ?thesis
    using checkTransaction_valid [OF assms, of env pg] a n week_day_bounds customer_base_nonempty
    by (simp add: build_payload_def)
qed

theorem payload_fields_witness:
  "form_valid \<lparr>amountValue = ''1500'', kycValue = ''Yes'', ageValue = ''30'', channelValue = ''Web'',
                dtValue = ''2024-01-05T14:30''\<rparr> \<and>
   parse_local_datetime ''2024-01-05T14:30'' =
     Some \<lparr>dt_year = 2024, dt_month = 1, dt_day = 5, dt_hour = 14, dt_minute = 30\<rparr> \<and>
   map_option p_is_high_value (lastPredictionPayload (checkTransaction (\<lparr>storedEmail = None, storedFirstName = Some ''Ana'', randomSuffix = ''k3x9qa'', isoString = (\<lambda>_. ''2024-01-05T13:30:00.000Z''), localeString = (\<lambda>_. ''1/5/2024, 2:30:00 PM''), predictOutcome = FetchFailed ''Failed to fetch'', explainOutcome = ExplainFailed\<rparr>)
     (Some \<lparr>amountValue = ''1500'', kycValue = ''Yes'', ageValue = ''30'', channelValue = ''Web'',
            dtValue = ''2024-01-05T14:30''\<rparr>) \<lparr>lastPredictionPayload = None, resultView = None, historyRows = [], txAlerts = []\<rparr>)) = Some 1"
proof -
  have v: "form_valid \<lparr>amountValue = ''1500'', kycValue = ''Yes'', ageValue = ''30'', channelValue = ''Web'',
                dtValue = ''2024-01-05T14:30''\<rparr>"
    by (simp add: form_valid_def js_simps)
  have d: "parse_local_datetime (dtValue \<lparr>amountValue = ''1500'', kycValue = ''Yes'', ageValue = ''30'',
              channelValue = ''Web'', dtValue = ''2024-01-05T14:30''\<rparr>) =
           Some \<lparr>dt_year = 2024, dt_month = 1, dt_day = 5, dt_hour = 14, dt_minute = 30\<rparr>"
    by (simp add: parse_local_datetime_def digits_at_def days_in_month_def js_simps)
  have a: "parseFloat ''1500'' = Some 1500"
    by (simp add: js_simps)
  show ?thesis
    using payload_fields [OF v d, of "\<lparr>storedEmail = None, storedFirstName = Some ''Ana'', randomSuffix = ''k3x9qa'', isoString = (\<lambda>_. ''2024-01-05T13:30:00.000Z''), localeString = (\<lambda>_. ''1/5/2024, 2:30:00 PM''), predictOutcome = FetchFailed ''Failed to fetch'', explainOutcome = ExplainFailed\<rparr>"
                  "\<lparr>lastPredictionPayload = None, resultView = None, historyRows = [], txAlerts = []\<rparr>"] v d a by auto
qed

text \<open>An end-to-end example: 1500 on Friday 2024-01-05 at 14:30 gives the payload with
  weekday 5 (ECMAScript's WeekDay of MakeDay), hour 14 and is_high_value 1, whatever the
  backend answers.\<close>

theorem checkTransaction_example:
  "lastPredictionPayload (checkTransaction env
     (Some \<lparr>amountValue = ''1500'', kycValue = ''Yes'', ageValue = ''30'', channelValue = ''Web'',
            dtValue = ''2024-01-05T14:30''\<rparr>) pg) =
   Some \<lparr>p_transaction_id = ''temp'', p_customer_id = customer_base env @ ''-'' @ randomSuffix env,
         p_kyc_verified = ''Yes'', p_account_age_days = 30, p_transaction_amount = 1500,
         p_channel = ''Web'',
         p_timestamp = isoString env \<lparr>dt_year = 2024, dt_month = 1, dt_day = 5, dt_hour = 14, dt_minute = 30\<rparr>,
         p_is_fraud = ''0'', p_hour = 14, p_day = 5, p_month = 1, p_weekday = 5, p_is_high_value = 1\<rparr>"
  by (simp add: checkTransaction_def form_valid_def parse_local_datetime_def digits_at_def days_in_month_def
                build_payload_def week_day_def make_day_def day_from_year_def Let_def js_simps
           split: predict_outcome.splits)

text \<open>C21: a prediction labelled Fraudulent is shown as a fraudulent transaction, but the history
  row it appends records is_fraud 0: the history test omits the label fraudulent.\<close>

theorem fraud_label_divergence:
  assumes "form_valid f" and "parse_local_datetime (dtValue f) = Some date"
    and "predictOutcome env = PredictOk resp" and "prediction resp = JStr ''Fraudulent''"
  shows "map_option statusText (resultView (checkTransaction env (Some f) pg)) = Some ''Fraudulent Transaction'' \<and>
         map h_is_fraud (historyRows (checkTransaction env (Some f) pg)) = map h_is_fraud (historyRows pg) @ [0]"
  using assms
  by (simp add: checkTransaction_def Let_def explain_view_def initial_view_def history_row_of_def
                result_is_fraud_def history_is_fraud_def prediction_text_def js_simps
           split: explain_outcome.splits)

theorem fraud_label_divergence_witness:
  "form_valid \<lparr>amountValue = ''1500'', kycValue = ''Yes'', ageValue = ''30'', channelValue = ''Web'', dtValue = ''2024-01-05T14:30''\<rparr> \<and> predictOutcome (\<lparr>storedEmail = Some ''ana@bank.example'', storedFirstName = None, randomSuffix = ''k3x9qa'', isoString = (\<lambda>_. ''2024-01-05T13:30:00.000Z''), localeString = (\<lambda>_. ''1/5/2024, 2:30:00 PM''), predictOutcome = PredictOk \<lparr>prediction = JStr ''Fraudulent'', risk_score = JNum 0.9, reason = Some ''High amount'', transaction_id = Some ''t1''\<rparr>, explainOutcome = ExplainNotOk\<rparr>) = PredictOk \<lparr>prediction = JStr ''Fraudulent'', risk_score = JNum 0.9, reason = Some ''High amount'', transaction_id = Some ''t1''\<rparr> \<and>
   map_option statusText (resultView (checkTransaction (\<lparr>storedEmail = Some ''ana@bank.example'', storedFirstName = None, randomSuffix = ''k3x9qa'', isoString = (\<lambda>_. ''2024-01-05T13:30:00.000Z''), localeString = (\<lambda>_. ''1/5/2024, 2:30:00 PM''), predictOutcome = PredictOk \<lparr>prediction = JStr ''Fraudulent'', risk_score = JNum 0.9, reason = Some ''High amount'', transaction_id = Some ''t1''\<rparr>, explainOutcome = ExplainNotOk\<rparr>) (Some \<lparr>amountValue = ''1500'', kycValue = ''Yes'', ageValue = ''30'', channelValue = ''Web'', dtValue = ''2024-01-05T14:30''\<rparr>) \<lparr>lastPredictionPayload = None, resultView = None, historyRows = [], txAlerts = []\<rparr>)) =
     Some ''Fraudulent Transaction'' \<and>
   map h_is_fraud (historyRows (checkTransaction (\<lparr>storedEmail = Some ''ana@bank.example'', storedFirstName = None, randomSuffix = ''k3x9qa'', isoString = (\<lambda>_. ''2024-01-05T13:30:00.000Z''), localeString = (\<lambda>_. ''1/5/2024, 2:30:00 PM''), predictOutcome = PredictOk \<lparr>prediction = JStr ''Fraudulent'', risk_score = JNum 0.9, reason = Some ''High amount'', transaction_id = Some ''t1''\<rparr>, explainOutcome = ExplainNotOk\<rparr>) (Some \<lparr>amountValue = ''1500'', kycValue = ''Yes'', ageValue = ''30'', channelValue = ''Web'', dtValue = ''2024-01-05T14:30''\<rparr>) \<lparr>lastPredictionPayload = None, resultView = None, historyRows = [], txAlerts = []\<rparr>)) = [0]"
  using fraud_label_divergence [OF example_form_valid example_form_datetime, of "\<lparr>storedEmail = Some ''ana@bank.example'', storedFirstName = None, randomSuffix = ''k3x9qa'', isoString = (\<lambda>_. ''2024-01-05T13:30:00.000Z''), localeString = (\<lambda>_. ''1/5/2024, 2:30:00 PM''), predictOutcome = PredictOk \<lparr>prediction = JStr ''Fraudulent'', risk_score = JNum 0.9, reason = Some ''High amount'', transaction_id = Some ''t1''\<rparr>, explainOutcome = ExplainNotOk\<rparr>" "\<lparr>prediction = JStr ''Fraudulent'', risk_score = JNum 0.9, reason = Some ''High amount'', transaction_id = Some ''t1''\<rparr>" "\<lparr>lastPredictionPayload = None, resultView = None, historyRows = [], txAlerts = []\<rparr>"]
        example_form_valid
  by simp

text \<open>C22: when the backend gives no reason and the explanation endpoint answers without an
  explanation, the description keeps the placeholder Generating explanation..., because the
  fallback reads the description after the placeholder was written.\<close>

theorem explanation_stuck:
  assumes "form_valid f" and "parse_local_datetime (dtValue f) = Some date"
    and "predictOutcome env = PredictOk resp" and "or_default (reason resp) [] = []"
    and "or_default (transaction_id resp) [] \<noteq> []"
    and "explainOutcome env = ExplainOk explanation rawReason" and "or_default explanation [] = []"
  shows "map_option description (resultView (checkTransaction env (Some f) pg)) = Some ''Generating explanation...''"
  using assms
  by (simp add: checkTransaction_def Let_def explain_view_def or_default_def split: option.splits if_splits)

theorem explanation_stuck_witness:
  "form_valid \<lparr>amountValue = ''1500'', kycValue = ''Yes'', ageValue = ''30'', channelValue = ''Web'', dtValue = ''2024-01-05T14:30''\<rparr> \<and> predictOutcome (\<lparr>storedEmail = Some ''ana@bank.example'', storedFirstName = None, randomSuffix = ''k3x9qa'', isoString = (\<lambda>_. ''2024-01-05T13:30:00.000Z''), localeString = (\<lambda>_. ''1/5/2024, 2:30:00 PM''), predictOutcome = PredictOk \<lparr>prediction = JStr ''legit'', risk_score = JNull, reason = None, transaction_id = Some ''t2''\<rparr>, explainOutcome = ExplainOk None None\<rparr>) = PredictOk \<lparr>prediction = JStr ''legit'', risk_score = JNull, reason = None, transaction_id = Some ''t2''\<rparr> \<and>
   map_option description (resultView (checkTransaction (\<lparr>storedEmail = Some ''ana@bank.example'', storedFirstName = None, randomSuffix = ''k3x9qa'', isoString = (\<lambda>_. ''2024-01-05T13:30:00.000Z''), localeString = (\<lambda>_. ''1/5/2024, 2:30:00 PM''), predictOutcome = PredictOk \<lparr>prediction = JStr ''legit'', risk_score = JNull, reason = None, transaction_id = Some ''t2''\<rparr>, explainOutcome = ExplainOk None None\<rparr>) (Some \<lparr>amountValue = ''1500'', kycValue = ''Yes'', ageValue = ''30'', channelValue = ''Web'', dtValue = ''2024-01-05T14:30''\<rparr>) \<lparr>lastPredictionPayload = None, resultView = None, historyRows = [], txAlerts = []\<rparr>)) =
     Some ''Generating explanation...''"
  using explanation_stuck [OF example_form_valid example_form_datetime, of "\<lparr>storedEmail = Some ''ana@bank.example'', storedFirstName = None, randomSuffix = ''k3x9qa'', isoString = (\<lambda>_. ''2024-01-05T13:30:00.000Z''), localeString = (\<lambda>_. ''1/5/2024, 2:30:00 PM''), predictOutcome = PredictOk \<lparr>prediction = JStr ''legit'', risk_score = JNull, reason = None, transaction_id = Some ''t2''\<rparr>, explainOutcome = ExplainOk None None\<rparr>" "\<lparr>prediction = JStr ''legit'', risk_score = JNull, reason = None, transaction_id = Some ''t2''\<rparr>" None None "\<lparr>lastPredictionPayload = None, resultView = None, historyRows = [], txAlerts = []\<rparr>"]
        example_form_valid
  by (simp add: or_default_def)

text \<open>When the prediction request fails with an HTTP error the page alerts the server's
  detail or the status, appends no history row and keeps the previous result, but the payload
  is already remembered as the last prediction.\<close>

theorem request_error:
  assumes "form_valid f" and "parse_local_datetime (dtValue f) = Some date"
    and "predictOutcome env = HttpError status detail"
  shows "historyRows (checkTransaction env (Some f) pg) = historyRows pg \<and>
         resultView (checkTransaction env (Some f) pg) = resultView pg \<and>
         lastPredictionPayload (checkTransaction env (Some f) pg) \<noteq> None \<and>
         txAlerts (checkTransaction env (Some f) pg) =
           txAlerts pg @ [''Error: '' @ or_default detail (''Request failed with '' @ nat_digits status)]"
  using assms by (simp add: checkTransaction_def Let_def)

theorem request_error_witness:
  "form_valid \<lparr>amountValue = ''1500'', kycValue = ''Yes'', ageValue = ''30'', channelValue = ''Web'', dtValue = ''2024-01-05T14:30''\<rparr> \<and>
   txAlerts (checkTransaction (\<lparr>storedEmail = Some ''ana@bank.example'', storedFirstName = None, randomSuffix = ''k3x9qa'', isoString = (\<lambda>_. ''2024-01-05T13:30:00.000Z''), localeString = (\<lambda>_. ''1/5/2024, 2:30:00 PM''), predictOutcome = HttpError 500 None, explainOutcome = ExplainFailed\<rparr>) (Some \<lparr>amountValue = ''1500'', kycValue = ''Yes'', ageValue = ''30'', channelValue = ''Web'', dtValue = ''2024-01-05T14:30''\<rparr>) \<lparr>lastPredictionPayload = None, resultView = None, historyRows = [], txAlerts = []\<rparr>) = [''Error: Request failed with 500''] \<and>
   historyRows (checkTransaction (\<lparr>storedEmail = Some ''ana@bank.example'', storedFirstName = None, randomSuffix = ''k3x9qa'', isoString = (\<lambda>_. ''2024-01-05T13:30:00.000Z''), localeString = (\<lambda>_. ''1/5/2024, 2:30:00 PM''), predictOutcome = HttpError 500 None, explainOutcome = ExplainFailed\<rparr>) (Some \<lparr>amountValue = ''1500'', kycValue = ''Yes'', ageValue = ''30'', channelValue = ''Web'', dtValue = ''2024-01-05T14:30''\<rparr>) \<lparr>lastPredictionPayload = None, resultView = None, historyRows = [], txAlerts = []\<rparr>) = []"
  using request_error [OF example_form_valid example_form_datetime, of "\<lparr>storedEmail = Some ''ana@bank.example'', storedFirstName = None, randomSuffix = ''k3x9qa'', isoString = (\<lambda>_. ''2024-01-05T13:30:00.000Z''), localeString = (\<lambda>_. ''1/5/2024, 2:30:00 PM''), predictOutcome = HttpError 500 None, explainOutcome = ExplainFailed\<rparr>" 500 None "\<lparr>lastPredictionPayload = None, resultView = None, historyRows = [], txAlerts = []\<rparr>"]
        example_form_valid
  by (simp add: or_default_def js_simps)

end
