(* ===== verification/Charts.thy ===== *)
theory Charts
  imports Prelude
begin

text \<open>
  The chart renderers of the history page: \<open>destroyChartIfExists\<close> (lines 1467--1472),
  \<open>renderRocCurveFromMetrics\<close> (1477--1504), \<open>renderFraudVsLegit\<close> (1506--1524),
  \<open>renderFraudTrend\<close> (1526--1584), \<open>renderChannelFraudPie\<close> (1586--1612) and
  \<open>renderAmountVsFraudScatter\<close> (1614--1703). The registry \<open>charts\<close> (lines 15--22)
  maps a key to a chart or \<open>null\<close>. A chart is the data the code hands to Chart.js: its
  labels and data sets; colours, options and the drawing are not modelled. Each renderer
  first destroys the chart of its key, then asks its endpoint; any exception the
  \<open>try\<close> catches, and each early \<open>return\<close>, leaves no chart under the key. The
  backend's rows are records of \<open>js_val\<close>s (an element that is not an object would make
  the field reads throw, which the model does not cover). The histogram's labels are the
  two \<open>toFixed(2)\<close> bounds of each bin, which the code joins with an en dash.
\<close>

datatype chart =
    RocChart js_val js_val string "js_val list"
  | PieChart "js_val list"
  | TrendChart "js_val list" "real option list" "real option list" "real option list"
  | ChannelChart "string list" "real option list"
  | AmountBars string nat nat
  | AmountHistogram "(string \<times> string) list" "nat list" "nat list"

type_synonym chart_registry = "(string \<times> chart option) list"

definition destroyChartIfExists :: "string \<Rightarrow> chart_registry \<Rightarrow> chart_registry" where
  "destroyChartIfExists key charts =
     (case map_of charts key of Some (Some c) \<Rightarrow> AList.update key None charts | _ \<Rightarrow> charts)"

text \<open>A renderer's effect on the registry: the old chart is destroyed, the new one, if the
  renderer makes one, stored under the key.\<close>

definition render_chart :: "string \<Rightarrow> chart option \<Rightarrow> chart_registry \<Rightarrow> chart_registry" where
  "render_chart key c charts =
     (let charts1 = destroyChartIfExists key charts
      in case c of None \<Rightarrow> charts1 | Some ch \<Rightarrow> AList.update key (Some ch) charts1)"

text \<open>\<open>v || d\<close>.\<close>

definition js_or :: "js_val \<Rightarrow> js_val \<Rightarrow> js_val" where
  "js_or v d = (if js_truthy v then v else d)"

text \<open>\<open>v ?? d\<close>.\<close>

definition js_nullish :: "js_val \<Rightarrow> js_val \<Rightarrow> js_val" where
  "js_nullish v d = (if v = JsUndefined \<or> v = JsNull then d else v)"

section \<open>ROC curve\<close>

record roc_metrics =
  roc_fpr :: js_val
  roc_tpr :: js_val
  rm_auc_score :: js_val

datatype roc_outcome = RocFailed | RocNotOk | RocOk roc_metrics

text \<open>\<open>fpr.map(x => x)\<close> throws unless \<open>fpr\<close> is an array.\<close>

definition roc_chart :: "roc_outcome \<Rightarrow> chart option" where
  "roc_chart outcome =
     (case outcome of
        RocOk m \<Rightarrow>
          (let fpr = js_or (roc_fpr m) (JsArr []); tpr = js_or (roc_tpr m) (JsArr []);
               auc = (case js_number (rm_auc_score m) of Some a \<Rightarrow> a | None \<Rightarrow> 0)
           in case fpr of
                JsArr xs \<Rightarrow> Some (RocChart fpr tpr (''ROC (AUC '' @ to_fixed 4 auc @ '')'') xs)
              | _ \<Rightarrow> None)
      | _ \<Rightarrow> None)"

definition renderRocCurveFromMetrics :: "roc_outcome \<Rightarrow> chart_registry \<Rightarrow> chart_registry" where
  "renderRocCurveFromMetrics outcome charts = render_chart ''roc'' (roc_chart outcome) charts"

section \<open>Fraud and legitimate counts\<close>

record fraud_stats =
  fs_fraud_transactions :: js_val
  fs_legit_transactions :: js_val
  fs_message :: js_val

text \<open>The answer of \<open>GET /api/fraud-stats\<close>; the code does not look at the status.\<close>

datatype stats_outcome = StatsFailed | StatsNull | StatsOk fraud_stats

definition fraud_vs_legit_chart :: "stats_outcome \<Rightarrow> chart option" where
  "fraud_vs_legit_chart outcome =
     (case outcome of
        StatsOk st \<Rightarrow>
          if js_truthy (fs_message st) then None
          else Some (PieChart [js_or (fs_fraud_transactions st) (JsNum 0), js_or (fs_legit_transactions st) (JsNum 0)])
      | _ \<Rightarrow> None)"

definition renderFraudVsLegit :: "stats_outcome \<Rightarrow> chart_registry \<Rightarrow> chart_registry" where
  "renderFraudVsLegit outcome charts = render_chart ''fraudVsLegit'' (fraud_vs_legit_chart outcome) charts"

section \<open>Fraud trend\<close>

record trend_row =
  tr_transaction_date :: js_val
  tr_fraud_count :: js_val
  tr_total_count :: js_val
  tr_fraud_percentage :: js_val

datatype trend_outcome = TrendFailed | TrendNotArray | TrendArray "trend_row list"

text \<open>\<open>Math.max(0, t - f)\<close>: \<open>NaN\<close> when either count is.\<close>

definition legit_count :: "real option \<Rightarrow> real option \<Rightarrow> real option" where
  "legit_count t f = (case (t, f) of (Some a, Some b) \<Rightarrow> Some (max 0 (a - b)) | _ \<Rightarrow> None)"

definition fraud_trend_chart :: "trend_outcome \<Rightarrow> chart option" where
  "fraud_trend_chart outcome =
     (case outcome of
        TrendArray series \<Rightarrow>
          if series = [] then None
          else
            (let labels = map tr_transaction_date series;
                 fraudCounts = map (\<lambda>r. js_number (js_or (tr_fraud_count r) (JsNum 0))) series;
                 totalCounts = map (\<lambda>r. js_number (js_or (tr_total_count r) (JsNum 0))) series;
                 legitCounts = map (\<lambda>(t, f). legit_count t f) (zip totalCounts fraudCounts);
                 fraudPercents = map (\<lambda>r. js_number (js_or (tr_fraud_percentage r) (JsNum 0))) series
             in Some (TrendChart labels legitCounts fraudCounts fraudPercents))
      | _ \<Rightarrow> None)"

definition renderFraudTrend :: "trend_outcome \<Rightarrow> chart_registry \<Rightarrow> chart_registry" where
  "renderFraudTrend outcome charts = render_chart ''fraudTrend'' (fraud_trend_chart outcome) charts"

section \<open>Fraud by channel\<close>

record channel_row =
  ch_channel :: js_val
  ch_fraud_percentage :: js_val

datatype channel_outcome = ChannelFailed | ChannelNotArray | ChannelArray "channel_row list"

text \<open>\<open>s.charAt(0).toUpperCase() + s.slice(1).toLowerCase()\<close>.\<close>

definition capitalize :: "string \<Rightarrow> string" where
  "capitalize s = (case s of [] \<Rightarrow> [] | c # cs \<Rightarrow> js_upper [c] @ js_lower cs)"

definition channel_chart :: "(real \<Rightarrow> string) \<Rightarrow> channel_outcome \<Rightarrow> chart option" where
  "channel_chart numStr outcome =
     (case outcome of
        ChannelArray rows \<Rightarrow>
          Some (ChannelChart (map (\<lambda>r. capitalize (js_string numStr (js_or (ch_channel r) (JsStr [])))) rows)
                             (map (\<lambda>r. js_number (js_nullish (ch_fraud_percentage r) (JsNum 0))) rows))
      | _ \<Rightarrow> None)"

definition renderChannelFraudPie :: "(real \<Rightarrow> string) \<Rightarrow> channel_outcome \<Rightarrow> chart_registry \<Rightarrow> chart_registry" where
  "renderChannelFraudPie numStr outcome charts = render_chart ''channelPie'' (channel_chart numStr outcome) charts"

section \<open>Amount histogram\<close>

record amount_row =
  am_transaction_amount :: js_val
  am_is_fraud :: js_val

datatype amount_outcome = AmountFailed | AmountNotArray | AmountArray "amount_row list"

definition BIN_COUNT :: nat where
  "BIN_COUNT = 20"

text \<open>\<open>Math.floor((a - minA) / (maxA - minA) * BIN_COUNT)\<close>, clamped to the bins.\<close>

definition bin_index :: "real \<Rightarrow> real \<Rightarrow> real \<Rightarrow> nat" where
  "bin_index minA maxA a =
     (let idx = \<lfloor>(a - minA) / (maxA - minA) * real BIN_COUNT\<rfloor>;
          idx1 = (if idx < 0 then 0 else idx)
      in if idx1 \<ge> int BIN_COUNT then BIN_COUNT - 1 else nat idx1)"

text \<open>The \<open>for\<close> loop over the rows: a row without a finite amount is skipped, the others
  count in their bin as fraud when \<open>Number(r.is_fraud) === 1\<close>, as legitimate otherwise.\<close>

definition bin_step :: "real \<Rightarrow> real \<Rightarrow> nat list \<times> nat list \<Rightarrow> amount_row \<Rightarrow> nat list \<times> nat list" where
  "bin_step minA maxA acc r =
     (let (legit, fraud) = acc
      in case js_number (am_transaction_amount r) of
           None \<Rightarrow> (legit, fraud)
         | Some a \<Rightarrow>
             (let idx = bin_index minA maxA a
              in if js_number (am_is_fraud r) = Some 1 then (legit, fraud[idx := fraud ! idx + 1])
                 else (legit[idx := legit ! idx + 1], fraud)))"

definition count_bins :: "real \<Rightarrow> real \<Rightarrow> amount_row list \<Rightarrow> nat list \<times> nat list" where
  "count_bins minA maxA rows = foldl (bin_step minA maxA) (replicate BIN_COUNT 0, replicate BIN_COUNT 0) rows"

definition bin_labels :: "real \<Rightarrow> real \<Rightarrow> (string \<times> string) list" where
  "bin_labels minA maxA =
     (let binWidth = (maxA - minA) / real BIN_COUNT;
          edges = map (\<lambda>i. minA + real i * binWidth) [0..<BIN_COUNT + 1]
      in map (\<lambda>i. (to_fixed 2 (edges ! i), to_fixed 2 (edges ! (i + 1)))) [0..<BIN_COUNT])"

definition amount_chart :: "amount_outcome \<Rightarrow> chart option" where
  "amount_chart outcome =
     (case outcome of
        AmountArray rows \<Rightarrow>
          (case List.map_filter (\<lambda>r. js_number (am_transaction_amount r)) rows of
             [] \<Rightarrow> None
           | a # amounts \<Rightarrow>
               (let minA = fold min amounts a; maxA = fold max amounts a
                in if minA = maxA
                   then Some (AmountBars (to_fixed 2 minA)
                                (length (filter (\<lambda>r. am_is_fraud r = JsNum 0) rows))
                                (length (filter (\<lambda>r. am_is_fraud r = JsNum 1) rows)))
                   else (let (legit, fraud) = count_bins minA maxA rows
                         in Some (AmountHistogram (bin_labels minA maxA) legit fraud))))
      | _ \<Rightarrow> None)"

definition renderAmountVsFraudScatter :: "amount_outcome \<Rightarrow> chart_registry \<Rightarrow> chart_registry" where
  "renderAmountVsFraudScatter outcome charts = render_chart ''amountScatter'' (amount_chart outcome) charts"

section \<open>Lemmas\<close>

lemma bin_index_less: "bin_index minA maxA a < BIN_COUNT"
  by (auto simp: bin_index_def BIN_COUNT_def Let_def nat_less_iff floor_less_iff)

lemma bin_index_max: "minA < maxA \<Longrightarrow> bin_index minA maxA maxA = BIN_COUNT - 1"
  by (simp add: bin_index_def BIN_COUNT_def Let_def)

lemma sum_list_incr: "i < length xs \<Longrightarrow> sum_list (xs[i := Suc (xs ! i)]) = Suc (sum_list xs)"
proof (induction xs arbitrary: i)
  case (Cons x xs)
  then show ?case by (cases i) simp_all
qed simp

text \<open>The loop of the histogram keeps twenty bins and counts every row with a finite amount
  once, in the fraud bins exactly when its label is 1.\<close>

lemma foldl_bin_step:
  assumes "length l = BIN_COUNT" and "length f = BIN_COUNT"
  shows "length (fst (foldl (bin_step minA maxA) (l, f) rows)) = BIN_COUNT \<and>
         length (snd (foldl (bin_step minA maxA) (l, f) rows)) = BIN_COUNT \<and>
         sum_list (fst (foldl (bin_step minA maxA) (l, f) rows)) =
           sum_list l + length (filter (\<lambda>r. js_number (am_transaction_amount r) \<noteq> None \<and>
                                               js_number (am_is_fraud r) \<noteq> Some 1) rows) \<and>
         sum_list (snd (foldl (bin_step minA maxA) (l, f) rows)) =
           sum_list f + length (filter (\<lambda>r. js_number (am_transaction_amount r) \<noteq> None \<and>
                                               js_number (am_is_fraud r) = Some 1) rows)"
  using assms
proof (induction rows arbitrary: l f)
  case (Cons r rows)
  obtain l' f' where s: "bin_step minA maxA (l, f) r = (l', f')" by fastforce
  have len: "length l' = BIN_COUNT \<and> length f' = BIN_COUNT"
    using s Cons.prems by (auto simp: bin_step_def Let_def split: option.splits if_splits)
  have sums: "sum_list l' = sum_list l + (if js_number (am_transaction_amount r) \<noteq> None \<and>
                                              js_number (am_is_fraud r) \<noteq> Some 1 then 1 else 0) \<and>
              sum_list f' = sum_list f + (if js_number (am_transaction_amount r) \<noteq> None \<and>
                                              js_number (am_is_fraud r) = Some 1 then 1 else 0)"
    using s Cons.prems bin_index_less [of minA maxA]
    by (auto simp: bin_step_def Let_def split: option.splits if_splits intro!: sum_list_incr)
  show ?case
    using Cons.IH [of l' f'] len sums s by simp
qed simp

lemma length_filter_split:
  "length (filter (\<lambda>x. P x \<and> \<not> Q x) xs) + length (filter (\<lambda>x. P x \<and> Q x) xs) = length (filter P xs)"
  by (induction xs) auto

lemma length_bin_labels [simp]: "length (bin_labels minA maxA) = BIN_COUNT"
  by (simp add: bin_labels_def Let_def)

text \<open>The degenerate chart counts every row, also those without a finite amount, and only the
  labels that are the number 0 or 1; the histogram converts the label with \<open>Number\<close>.\<close>

lemma amount_bars_strict_labels:
  "amount_chart (AmountArray [\<lparr>am_transaction_amount = JsNum 5, am_is_fraud = JsStr ''1''\<rparr>,
                              \<lparr>am_transaction_amount = JsStr ''n/a'', am_is_fraud = JsNum 1\<rparr>]) =
   Some (AmountBars ''5.00'' 0 1)"
  by (simp add: amount_chart_def List.map_filter_simps js_simps)

section \<open>Properties\<close>

text \<open>C27: when the amounts are not all equal the amount histogram has twenty bins with their
  labels, counts every row whose amount is a finite number exactly once, and counts as fraud
  exactly those whose is_fraud converts to 1; rows without a finite amount are left out.\<close>

theorem amount_histogram_counts:
  assumes "List.map_filter (\<lambda>r. js_number (am_transaction_amount r)) rows = a # amounts"
    and "fold min amounts a \<noteq> fold max amounts a"
  shows "\<exists>labels legit fraud.
           amount_chart (AmountArray rows) = Some (AmountHistogram labels legit fraud) \<and>
           length labels = BIN_COUNT \<and> length legit = BIN_COUNT \<and> length fraud = BIN_COUNT \<and>
           sum_list legit + sum_list fraud = length (filter (\<lambda>r. js_number (am_transaction_amount r) \<noteq> None) rows) \<and>
           sum_list fraud = length (filter (\<lambda>r. js_number (am_transaction_amount r) \<noteq> None \<and>
                                                 js_number (am_is_fraud r) = Some 1) rows)"
proof -
  let ?mn = "fold min amounts a" and ?mx = "fold max amounts a"
  obtain legit fraud where c: "count_bins ?mn ?mx rows = (legit, fraud)" by fastforce
  have "amount_chart (AmountArray rows) = Some (AmountHistogram (bin_labels ?mn ?mx) legit fraud)"
    using assms c by (simp add: amount_chart_def Let_def)
  moreover have "length legit = BIN_COUNT \<and> length fraud = BIN_COUNT \<and>
      sum_list legit = length (filter (\<lambda>r. js_number (am_transaction_amount r) \<noteq> None \<and>
                                           js_number (am_is_fraud r) \<noteq> Some 1) rows) \<and>
      sum_list fraud = length (filter (\<lambda>r. js_number (am_transaction_amount r) \<noteq> None \<and>
                                           js_number (am_is_fraud r) = Some 1) rows)"
    using foldl_bin_step [of "replicate BIN_COUNT 0" "replicate BIN_COUNT 0" ?mn ?mx rows] c
    by (simp add: count_bins_def)
  ultimately show ?thesis
    using length_filter_split [of "\<lambda>r. js_number (am_transaction_amount r) \<noteq> None"
                                  "\<lambda>r. js_number (am_is_fraud r) = Some 1" rows]
    by auto
qed

theorem amount_histogram_counts_witness:
  "\<exists>labels legit fraud.
     amount_chart (AmountArray [\<lparr>am_transaction_amount = JsNum 10, am_is_fraud = JsNum 0\<rparr>, \<lparr>am_transaction_amount = JsStr ''250'', am_is_fraud = JsStr ''1''\<rparr>,
      \<lparr>am_transaction_amount = JsStr ''n/a'', am_is_fraud = JsNum 1\<rparr>, \<lparr>am_transaction_amount = JsNum 90, am_is_fraud = JsNum 1\<rparr>]) = Some (AmountHistogram labels legit fraud) \<and>
     sum_list legit + sum_list fraud = 3 \<and> sum_list fraud = 2"
proof -
  have m: "List.map_filter (\<lambda>r. js_number (am_transaction_amount r)) [\<lparr>am_transaction_amount = JsNum 10, am_is_fraud = JsNum 0\<rparr>, \<lparr>am_transaction_amount = JsStr ''250'', am_is_fraud = JsStr ''1''\<rparr>,
      \<lparr>am_transaction_amount = JsStr ''n/a'', am_is_fraud = JsNum 1\<rparr>, \<lparr>am_transaction_amount = JsNum 90, am_is_fraud = JsNum 1\<rparr>] = 10 # [250, 90]"
    by (simp add: List.map_filter_simps js_simps)
  have d: "fold min [250, 90] (10::real) \<noteq> fold max [250, 90] 10"
    by simp
  show ?thesis
    using amount_histogram_counts [OF m d] by (simp add: js_simps eval_nat_numeral) blast
qed

end
