(* ===== verification/History.thy ===== *)
theory History
  imports Transaction CsvParse Charts
begin

text \<open>
  The transaction history page: the table body \<open>historyTableBody\<close> and the functions
  that change it, \<open>loadTransactionHistory\<close> (lines 1188--1220), \<open>renderEmptyHistory\<close>
  (1222--1236), \<open>appendHistoryRow\<close> (1238--1254), \<open>clearTransactionHistory\<close>
  (1258--1299), which destroys the history page's charts (\<open>Charts\<close>), and the export
  \<open>downloadTransactionHistory\<close> (1302--1346) with \<open>createExcelFile\<close> (1350--1375).
  The body is a list of rows: the placeholder row of class \<open>no-data\<close> or a row of seven
  cells, each the text of its \<open>td\<close>. The values are written into \<open>innerHTML\<close>; the model
  reads a cell's \<open>textContent\<close> as the value's string, which it is for a value without
  markup characters. The backend's transaction records are JSON objects whose fields are
  \<open>js_val\<close>s; \<open>String\<close> of a number is a parameter \<open>numStr\<close> (the integral case is
  \<^const>\<open>int_string\<close>). The downloaded file is its name, the byte order mark and the
  text; reading it back with \<open>FileReader.readAsText\<close> drops the mark and yields the text.
\<close>

section \<open>The table\<close>

datatype hrow = NoDataRow | CellsRow "string list"

record download =
  fileName :: string
  withBom :: bool
  csvText :: string

record history_state =
  historyBody :: "hrow list"
  liveCharts :: chart_registry
  histAlerts :: "string list"
  downloads :: "download list"

text \<open>The template \<open>${v ?? '-'}\<close>.\<close>

definition or_dash :: "(real \<Rightarrow> string) \<Rightarrow> js_val \<Rightarrow> string" where
  "or_dash numStr v = (case v of JsUndefined \<Rightarrow> ''-'' | JsNull \<Rightarrow> ''-'' | _ \<Rightarrow> js_string numStr v)"

definition renderEmptyHistory :: "history_state \<Rightarrow> history_state" where
  "renderEmptyHistory s = s\<lparr>historyBody := [NoDataRow]\<rparr>"

text \<open>\<open>appendHistoryRow\<close>: the first placeholder row is removed, the new row appended.\<close>

definition appendHistoryRow :: "string list \<Rightarrow> history_state \<Rightarrow> history_state" where
  "appendHistoryRow cells s = s\<lparr>historyBody := remove1 NoDataRow (historyBody s) @ [CellsRow cells]\<rparr>"

text \<open>The cells of the row \<open>checkTransaction\<close> appends (lines 1166--1174).\<close>

definition history_cells :: "history_row \<Rightarrow> string list" where
  "history_cells r =
     [h_customer_id r, h_transaction_amount r, h_kyc_verified r, int_string (h_account_age_days r),
      h_channel r, h_timestamp r, nat_digits (h_is_fraud r)]"

record tx_record =
  t_customer_id :: js_val
  t_transaction_amount :: js_val
  t_kyc_verified :: js_val
  t_account_age_days :: js_val
  t_channel :: js_val
  t_timestamp :: js_val
  t_is_fraud :: js_val

text \<open>The cells of a loaded record (lines 1206--1214 and 1246--1252): \<open>customer_id || '-'\<close>,
  every field but \<open>is_fraud\<close> through \<open>?? '-'\<close>.\<close>

definition loaded_cells :: "(real \<Rightarrow> string) \<Rightarrow> tx_record \<Rightarrow> string list" where
  "loaded_cells numStr t =
     [or_dash numStr (if js_truthy (t_customer_id t) then t_customer_id t else JsStr ''-''),
      or_dash numStr (t_transaction_amount t), or_dash numStr (t_kyc_verified t),
      or_dash numStr (t_account_age_days t), or_dash numStr (t_channel t),
      or_dash numStr (t_timestamp t), js_string numStr (t_is_fraud t)]"

text \<open>The answer of \<open>GET /api/transactions\<close>: a failed request or body, a value that is not
  an array, or the array of records.\<close>

datatype load_outcome = LoadFailed | LoadNotArray | LoadArray "tx_record list"

definition loadTransactionHistory ::
  "(real \<Rightarrow> string) \<Rightarrow> load_outcome \<Rightarrow> history_state \<Rightarrow> history_state" where
  "loadTransactionHistory numStr outcome s =
     (case outcome of
        LoadFailed \<Rightarrow> renderEmptyHistory s
      | LoadNotArray \<Rightarrow> renderEmptyHistory s
      | LoadArray txs \<Rightarrow>
          (let s1 = s\<lparr>historyBody := []\<rparr>
           in if txs = [] then renderEmptyHistory s1
              else fold (\<lambda>t. appendHistoryRow (loaded_cells numStr t)) txs s1))"

definition history_chart_keys :: "string list" where
  "history_chart_keys = [''roc'', ''fraudVsLegit'', ''fraudTrend'', ''channelPie'', ''amountScatter'']"

text \<open>The answer of \<open>DELETE /api/transactions\<close>: success, an HTTP error with the
  \<open>detail\<close> of its JSON body if any, or a failed request with its message.\<close>

datatype delete_outcome = DeleteOk | DeleteHttpError nat "string option" | DeleteFailed string

definition clearTransactionHistory ::
  "bool \<Rightarrow> delete_outcome \<Rightarrow> history_state \<Rightarrow> history_state" where
  "clearTransactionHistory confirmed outcome s =
     (if \<not> confirmed then s
      else case outcome of
        DeleteOk \<Rightarrow>
          s\<lparr>historyBody := [NoDataRow], liveCharts := fold destroyChartIfExists history_chart_keys (liveCharts s),
            histAlerts := histAlerts s @ [''All transaction history has been cleared.'']\<rparr>
      | DeleteHttpError status detail \<Rightarrow>
          s\<lparr>histAlerts := histAlerts s @
               [''Failed to clear history: '' @
                  or_default detail (''Failed to delete (status '' @ nat_digits status @ '')'')]\<rparr>
      | DeleteFailed msg \<Rightarrow> s\<lparr>histAlerts := histAlerts s @ [''Failed to clear history: '' @ msg]\<rparr>)"

section \<open>The export\<close>

definition export_headers :: "string list" where
  "export_headers =
     [''Customer ID'', ''Transaction Amount'', ''KYC Verified'', ''Account Age (Days)'', ''Channel'',
      ''Date & Time'', ''is_fraud'']"

definition export_row :: "string list \<Rightarrow> string list option" where
  "export_row cells = (if 7 \<le> length cells then Some (map js_trim (take 7 cells)) else None)"

definition quote_cell :: "string \<Rightarrow> string" where
  "quote_cell c = [CHR 0x22] @ c @ [CHR 0x22]"

definition csv_line :: "string list \<Rightarrow> string" where
  "csv_line r = js_join '','' (map quote_cell r) @ [CHR 0x0A]"

definition createExcelFile :: "string list list \<Rightarrow> string \<Rightarrow> download" where
  "createExcelFile rows filename =
     \<lparr>fileName = filename, withBom = True, csvText = concat (map csv_line rows)\<rparr>"

text \<open>A cell the export writes and \<open>parseCSV\<close> reads back unchanged: no quote, comma or
  line feed.\<close>

definition csv_clean :: "string \<Rightarrow> bool" where
  "csv_clean c \<longleftrightarrow> CHR 0x22 \<notin> set c \<and> CHR '','' \<notin> set c \<and> CHR 0x0A \<notin> set c"

definition table_rows :: "hrow list \<Rightarrow> string list list" where
  "table_rows body = [cs. CellsRow cs \<leftarrow> body]"

definition downloadTransactionHistory :: "history_state \<Rightarrow> history_state" where
  "downloadTransactionHistory s =
     (let rows = table_rows (historyBody s)
      in if rows = [] then s\<lparr>histAlerts := histAlerts s @ [''No transaction history available to download.'']\<rparr>
         else s\<lparr>downloads := downloads s @
                   [createExcelFile (export_headers # List.map_filter export_row rows)
                      ''Transaction_History.xlsx'']\<rparr>)"

section \<open>The page as a state machine\<close>

text \<open>The events that change the history page: the row \<open>checkTransaction\<close> appends, a load
  (on \<open>showPage('transactionHistory')\<close>), a clear with the user's answer to the
  confirmation, and a download.\<close>

datatype history_event =
    HCheck history_row
  | HLoad load_outcome
  | HClear bool delete_outcome
  | HDownload

definition history_step :: "(real \<Rightarrow> string) \<Rightarrow> history_event \<Rightarrow> history_state \<Rightarrow> history_state" where
  "history_step numStr e s =
     (case e of
        HCheck r \<Rightarrow> appendHistoryRow (history_cells r) s
      | HLoad outcome \<Rightarrow> loadTransactionHistory numStr outcome s
      | HClear confirmed outcome \<Rightarrow> clearTransactionHistory confirmed outcome s
      | HDownload \<Rightarrow> downloadTransactionHistory s)"

text \<open>The page starts with an empty body or the placeholder row.\<close>

inductive history_reachable :: "(real \<Rightarrow> string) \<Rightarrow> history_state \<Rightarrow> bool" for numStr where
  start: "historyBody s = [] \<or> historyBody s = [NoDataRow] \<Longrightarrow> history_reachable numStr s"
| step: "history_reachable numStr s \<Longrightarrow> history_reachable numStr (history_step numStr e s)"

text \<open>The table invariant: the placeholder is alone or absent, and every row has the seven
  cells of the header.\<close>

definition hist_inv :: "history_state \<Rightarrow> bool" where
  "hist_inv s \<longleftrightarrow>
     (historyBody s = [NoDataRow] \<or> NoDataRow \<notin> set (historyBody s)) \<and>
     (\<forall>cs\<in>set (table_rows (historyBody s)). length cs = 7)"

section \<open>Lemmas\<close>

lemma quote_cell_trim: "js_trim (quote_cell c) = quote_cell c"
  by (rule js_trim_id) (simp_all add: quote_cell_def js_simps)

lemma strip_quotes_trim_quote: "csv_clean c \<Longrightarrow> strip_quotes (js_trim (quote_cell c)) = c"
proof -
  assume c: "csv_clean c"
  have "strip_quotes (js_trim (quote_cell c)) = strip_quotes (quote_cell c)"
    by (simp only: quote_cell_trim)
  then show ?thesis
    using c strip_quotes_id [of c] by (simp add: quote_cell_def csv_clean_def strip_quotes_def)
qed

lemma split_fields_quoted:
  assumes "r \<noteq> []" and "\<forall>c\<in>set r. csv_clean c"
  shows "split_fields (js_join '','' (map quote_cell r)) = r"
proof -
  have "split_on (CHR '','') (js_join [CHR '',''] (map quote_cell r)) = map quote_cell r"
    using assms by (intro split_on_join) (auto simp: quote_cell_def csv_clean_def)
  then show ?thesis
    using assms(2) strip_quotes_trim_quote by (simp add: split_fields_def comp_def map_idI)
qed

lemma csv_line_no_lf:
  "\<forall>c\<in>set r. CHR 0x0A \<notin> set c \<Longrightarrow> CHR 0x0A \<notin> set (js_join '','' (map quote_cell r))"
proof -
  assume r: "\<forall>c\<in>set r. CHR 0x0A \<notin> set c"
  have "CHR 0x0A \<notin> set '','' \<union> \<Union> (set ` set (map quote_cell r))"
    using r by (auto simp: quote_cell_def)
  then show ?thesis using set_js_join [of "'',''" "map quote_cell r"] by blast
qed

lemma csv_line_nonblank: "r \<noteq> [] \<Longrightarrow> js_trim (js_join '','' (map quote_cell r)) \<noteq> []"
proof -
  assume "r \<noteq> []"
  then obtain c r' where "r = c # r'" by (cases r) auto
  then have "CHR 0x22 \<in> set (js_join '','' (map quote_cell r))"
    by (cases r') (simp_all add: quote_cell_def)
  moreover have "\<not> js_ws (CHR 0x22)"
    by (simp add: js_ws_def js_ws_chars_def)
  ultimately show ?thesis
    by (metis js_trim_Nil_iff)
qed

text \<open>\<open>parseCSV\<close> of an exported text: the header line gives the headers when its cells are
  clean, and every further line one row, built from the fields of the line.\<close>

lemma parseCSV_csv_text:
  assumes "hs \<noteq> []" and "\<forall>c\<in>set hs. csv_clean c"
    and "\<forall>r\<in>set rows. r \<noteq> [] \<and> (\<forall>c\<in>set r. CHR 0x0A \<notin> set c)"
  shows "parseCSV (concat (map csv_line (hs # rows))) =
           Inr \<lparr>headers = hs, data = map (\<lambda>r. mk_row hs (split_fields (js_join '','' (map quote_cell r)))) rows,
                rawText = concat (map csv_line (hs # rows))\<rparr>"
proof -
  let ?l = "\<lambda>r. js_join '','' (map quote_cell r)"
  have t: "concat (map csv_line (hs # rows)) = concat (map (\<lambda>l. l @ [CHR 0x0A]) (map ?l (hs # rows)))"
    by (induction rows) (simp_all add: csv_line_def)
  have nl: "\<forall>l\<in>set (map ?l (hs # rows)). CHR 0x0A \<notin> set l"
    using assms csv_line_no_lf by (auto simp: csv_clean_def)
  have "split_on (CHR 0x0A) (concat (map csv_line (hs # rows))) = map ?l (hs # rows) @ [[]]"
    unfolding t by (rule split_on_lines [OF nl])
  moreover have "\<forall>l\<in>set (map ?l (hs # rows)). js_trim l \<noteq> []"
    using assms csv_line_nonblank by auto
  ultimately have nb: "nonblank_lines (concat (map csv_line (hs # rows))) = map ?l (hs # rows)"
    unfolding nonblank_lines_def by simp
  have h: "split_fields (?l hs) = hs"
    using assms split_fields_quoted by simp
  show ?thesis
    unfolding parseCSV_def nb by (simp only: list.map list.case Let_def h map_map comp_def)
qed

lemma export_headers_clean: "\<forall>c\<in>set export_headers. csv_clean c"
  and export_headers_distinct: "distinct export_headers" and export_headers_nonempty: "export_headers \<noteq> []"
  by (simp_all add: export_headers_def csv_clean_def)

lemma csv_clean_trim: "csv_clean c \<Longrightarrow> csv_clean (js_trim c)"
  using set_js_trim [of c] by (auto simp: csv_clean_def)

lemma map_filter_export_row:
  "\<forall>cs\<in>set rows. 7 \<le> length cs \<Longrightarrow> List.map_filter export_row rows = map (\<lambda>cs. map js_trim (take 7 cs)) rows"
  by (induction rows) (simp_all add: List.map_filter_simps export_row_def)

lemma download_last:
  "table_rows (historyBody s) \<noteq> [] \<Longrightarrow>
   last (downloads (downloadTransactionHistory s)) =
     createExcelFile (export_headers # List.map_filter export_row (table_rows (historyBody s))) ''Transaction_History.xlsx''"
  by (simp add: downloadTransactionHistory_def Let_def)

lemma table_rows_simps [simp]:
  "table_rows [] = []" "table_rows (NoDataRow # b) = table_rows b"
  "table_rows (CellsRow cs # b) = cs # table_rows b" "table_rows (b @ b') = table_rows b @ table_rows b'"
  by (simp_all add: table_rows_def)

lemma table_rows_remove1: "table_rows (remove1 NoDataRow b) = table_rows b"
  by (induction b) (auto simp: table_rows_def split: hrow.splits)

lemma hist_inv_append:
  "hist_inv s \<Longrightarrow> length cells = 7 \<Longrightarrow> hist_inv (appendHistoryRow cells s)"
  by (auto simp: hist_inv_def appendHistoryRow_def table_rows_remove1)

lemma hist_inv_fold_append:
  "hist_inv s \<Longrightarrow> \<forall>t\<in>set ts. length (f t) = 7 \<Longrightarrow> hist_inv (fold (\<lambda>t. appendHistoryRow (f t)) ts s)"
  by (induction ts arbitrary: s) (simp_all add: hist_inv_append)

lemma length_loaded_cells [simp]: "length (loaded_cells numStr t) = 7"
  by (simp add: loaded_cells_def)

lemma hist_inv_placeholder: "historyBody s = [NoDataRow] \<or> historyBody s = [] \<Longrightarrow> hist_inv s"
  by (auto simp: hist_inv_def)

lemma hist_inv_step: "hist_inv s \<Longrightarrow> hist_inv (history_step numStr e s)"
proof (cases e)
  case (HLoad outcome)
  assume "hist_inv s"
  show ?thesis
    using HLoad hist_inv_fold_append [OF hist_inv_placeholder, of "s\<lparr>historyBody := []\<rparr>" _ "loaded_cells numStr"]
    by (auto simp: history_step_def loadTransactionHistory_def renderEmptyHistory_def Let_def
                   hist_inv_placeholder split: load_outcome.splits)
next
  case (HCheck r)
  assume "hist_inv s"
  moreover have "length (history_cells r) = 7" by (simp add: history_cells_def)
  ultimately show ?thesis using HCheck by (simp add: history_step_def hist_inv_append)
qed (auto simp: history_step_def clearTransactionHistory_def
                downloadTransactionHistory_def hist_inv_def Let_def split: delete_outcome.splits)

text \<open>The fields \<open>parseCSV\<close> reads from an exported line whose next-to-last cell holds one
  comma: that cell becomes two fields.\<close>

lemma split_fields_comma_cell:
  assumes cx: "\<forall>c\<in>set xs. csv_clean c" and cf: "csv_clean f" and dt: "csv_clean d" "csv_clean t"
    and "d \<noteq> []" and "\<not> js_ws (last d)"
  shows "split_fields (js_join '','' (map quote_cell (xs @ [d @ '','' @ t, f]))) = xs @ [d, trim_start t, f]"
proof -
  have split: "split_on (CHR '','') (js_join '','' (map quote_cell (xs @ [(d @ '','' @ t), f]))) =
               map quote_cell xs @ [CHR 0x22 # d, t @ [CHR 0x22], quote_cell f]"
  proof -
    have "map quote_cell (xs @ [(d @ '','' @ t), f]) = map quote_cell xs @ ((CHR 0x22 # d) @ '','' @ (t @ [CHR 0x22])) # [quote_cell f]"
      by (simp add: quote_cell_def)
    then have "js_join '','' (map quote_cell (xs @ [(d @ '','' @ t), f])) =
               js_join [CHR '',''] (map quote_cell xs @ [CHR 0x22 # d, t @ [CHR 0x22], quote_cell f])"
      using js_join_merge [where c="CHR '',''" and ys="map quote_cell xs" and a="CHR 0x22 # d"
                            and b="t @ [CHR 0x22]" and zs="[quote_cell f]"] by simp
    moreover have "\<forall>x\<in>set (map quote_cell xs @ [CHR 0x22 # d, t @ [CHR 0x22], quote_cell f]). CHR '','' \<notin> set x"
      using cx cf dt by (auto simp: quote_cell_def csv_clean_def)
    ultimately show ?thesis by (simp add: split_on_join)
  qed
  have fd: "strip_quotes (js_trim (CHR 0x22 # d)) = d"
    using js_trim_id [of "CHR 0x22 # d"] assms(5,6) quote_ws dt strip_quotes_id [of d]
    by (simp add: csv_clean_def strip_quotes_def)
  have ft: "strip_quotes (js_trim (t @ [CHR 0x22])) = trim_start t"
    using js_trim_snoc [OF quote_ws, of t] dt set_trim_start [of t] strip_quotes_id [of "trim_start t"]
    by (auto simp: csv_clean_def strip_quotes_def)
  have fq: "\<forall>c\<in>set (xs @ [f]). strip_quotes (js_trim (quote_cell c)) = c"
    using cx cf strip_quotes_trim_quote by auto
  show ?thesis
  proof -
    have "map (\<lambda>v. strip_quotes (js_trim v)) (map quote_cell xs) = xs"
      using fq by (induction xs) auto
    then show ?thesis
      unfolding split_fields_def split using fq fd ft by (simp del: map_map)
  qed
qed

section \<open>Properties\<close>

text \<open>C23: the CSV export round-trips: when the history table has rows and the first seven cells
  of each hold no quote, comma or line feed, the downloaded text parses (by the dashboard's own
  \<open>parseCSV\<close>) to a table with the seven export headers whose rows, read by header, are the
  trimmed first seven cells of the table's rows, in order.\<close>

theorem export_roundtrip:
  assumes "table_rows (historyBody s) \<noteq> []"
    and "\<forall>cs\<in>set (table_rows (historyBody s)). 7 \<le> length cs \<and> (\<forall>c\<in>set (take 7 cs). csv_clean c)"
  shows "\<exists>ds. parseCSV (csvText (last (downloads (downloadTransactionHistory s)))) = Inr ds \<and>
           headers ds = export_headers \<and>
           map (\<lambda>r. map (cell r) (headers ds)) (data ds) =
             map (\<lambda>cs. map js_trim (take 7 cs)) (table_rows (historyBody s))"
proof -
  let ?R = "map (\<lambda>cs. map js_trim (take 7 cs)) (table_rows (historyBody s))"
  have R: "\<forall>r\<in>set ?R. r \<noteq> [] \<and> (\<forall>c\<in>set r. csv_clean c)"
    using assms(2) csv_clean_trim by auto
  then have R': "\<forall>r\<in>set ?R. r \<noteq> [] \<and> (\<forall>c\<in>set r. CHR 0x0A \<notin> set c)"
    by (auto simp: csv_clean_def)
  have len: "\<forall>r\<in>set ?R. length r = length export_headers"
    using assms(2) by (auto simp: export_headers_def)
  have "map (\<lambda>r. mk_row export_headers (split_fields (js_join '','' (map quote_cell r)))) ?R =
        map (mk_row export_headers) ?R"
  proof (rule map_cong [OF refl])
    fix r assume "r \<in> set ?R"
    then have "r \<noteq> [] \<and> (\<forall>c\<in>set r. csv_clean c)" using R by blast
    then show "mk_row export_headers (split_fields (js_join '','' (map quote_cell r))) = mk_row export_headers r"
      using split_fields_quoted [of r] by simp
  qed
  moreover have "map (\<lambda>r. map (cell r) export_headers) (map (mk_row export_headers) ?R) = ?R"
    using len map_cell_mk_row [OF export_headers_distinct] by (simp add: map_idI)
  ultimately show ?thesis
    using parseCSV_csv_text [OF _ export_headers_clean R'] assms
    by (simp add: download_last map_filter_export_row createExcelFile_def export_headers_def)
qed

theorem export_roundtrip_witness:
  "\<exists>ds. parseCSV (csvText (last (downloads (downloadTransactionHistory \<lparr>historyBody = [CellsRow (history_cells \<lparr>h_customer_id = ''CUST-ana-k3x9qa'', h_transaction_amount = ''1500.00'', h_kyc_verified = ''Yes'', h_account_age_days = 30, h_channel = ''Web'', h_timestamp = ''2024-01-05 14:30:00'', h_is_fraud = 0\<rparr>)], liveCharts = [], histAlerts = [], downloads = []\<rparr>)))) = Inr ds \<and>
        headers ds = export_headers \<and>
        map (\<lambda>r. map (cell r) (headers ds)) (data ds) =
          [[''CUST-ana-k3x9qa'', ''1500.00'', ''Yes'', ''30'', ''Web'', ''2024-01-05 14:30:00'', ''0'']]"
proof -
  have "table_rows (historyBody \<lparr>historyBody = [CellsRow (history_cells \<lparr>h_customer_id = ''CUST-ana-k3x9qa'', h_transaction_amount = ''1500.00'', h_kyc_verified = ''Yes'', h_account_age_days = 30, h_channel = ''Web'', h_timestamp = ''2024-01-05 14:30:00'', h_is_fraud = 0\<rparr>)], liveCharts = [], histAlerts = [], downloads = []\<rparr>) = [[''CUST-ana-k3x9qa'', ''1500.00'', ''Yes'', ''30'', ''Web'', ''2024-01-05 14:30:00'', ''0'']]"
    by (simp add: history_cells_def js_simps)
  moreover have "map js_trim [''CUST-ana-k3x9qa'', ''1500.00'', ''Yes'', ''30'', ''Web'', ''2024-01-05 14:30:00'', ''0''] =
                 [''CUST-ana-k3x9qa'', ''1500.00'', ''Yes'', ''30'', ''Web'', ''2024-01-05 14:30:00'', ''0'']"
    by (simp add: js_simps)
  ultimately show ?thesis
    using export_roundtrip [of "\<lparr>historyBody = [CellsRow (history_cells \<lparr>h_customer_id = ''CUST-ana-k3x9qa'', h_transaction_amount = ''1500.00'', h_kyc_verified = ''Yes'', h_account_age_days = 30, h_channel = ''Web'', h_timestamp = ''2024-01-05 14:30:00'', h_is_fraud = 0\<rparr>)], liveCharts = [], histAlerts = [], downloads = []\<rparr>"] by (simp add: csv_clean_def)
qed

text \<open>C24: in every state the history page reaches from an empty body or the placeholder, under
  any sequence of appended checks, loads, clears and downloads, the placeholder row is alone or
  absent and every row has the seven cells of the header, so the export writes every row.\<close>

theorem history_invariant:
  "history_reachable numStr s \<Longrightarrow>
   hist_inv s \<and> length (List.map_filter export_row (table_rows (historyBody s))) = length (table_rows (historyBody s))"
proof -
  assume "history_reachable numStr s"
  then have inv: "hist_inv s"
    by (induction rule: history_reachable.induct) (auto intro: hist_inv_placeholder hist_inv_step)
  then show ?thesis
    by (simp add: map_filter_export_row hist_inv_def)
qed

theorem history_invariant_witness:
  "history_reachable (\<lambda>_. ''0'') (history_step (\<lambda>_. ''0'') (HCheck \<lparr>h_customer_id = ''CUST-ana-k3x9qa'', h_transaction_amount = ''1500.00'', h_kyc_verified = ''Yes'', h_account_age_days = 30, h_channel = ''Web'', h_timestamp = ''2024-01-05 14:30:00'', h_is_fraud = 0\<rparr>)
     \<lparr>historyBody = [NoDataRow], liveCharts = [], histAlerts = [], downloads = []\<rparr>) \<and>
   hist_inv (history_step (\<lambda>_. ''0'') (HCheck \<lparr>h_customer_id = ''CUST-ana-k3x9qa'', h_transaction_amount = ''1500.00'', h_kyc_verified = ''Yes'', h_account_age_days = 30, h_channel = ''Web'', h_timestamp = ''2024-01-05 14:30:00'', h_is_fraud = 0\<rparr>)
     \<lparr>historyBody = [NoDataRow], liveCharts = [], histAlerts = [], downloads = []\<rparr>)"
proof -
  have r: "history_reachable (\<lambda>_. ''0'') (history_step (\<lambda>_. ''0'') (HCheck \<lparr>h_customer_id = ''CUST-ana-k3x9qa'', h_transaction_amount = ''1500.00'', h_kyc_verified = ''Yes'', h_account_age_days = 30, h_channel = ''Web'', h_timestamp = ''2024-01-05 14:30:00'', h_is_fraud = 0\<rparr>)
     \<lparr>historyBody = [NoDataRow], liveCharts = [], histAlerts = [], downloads = []\<rparr>)"
    by (intro history_reachable.step history_reachable.start) simp
  then show ?thesis using history_invariant [OF r] by simp
qed

text \<open>C25: a timestamp with a comma, as \<open>toLocaleString\<close> prints it in the en-US locale, does
  not survive the export: \<open>parseCSV\<close> ignores the quotes the export adds and splits the
  quoted cell, so on re-upload the Date & Time column holds the date, is_fraud holds the time,
  and the fraud label is lost.\<close>

theorem export_comma_shift:
  assumes "table_rows (historyBody s) = [xs @ [d @ '','' @ t, f]]" and "length xs = 5"
    and "\<forall>c\<in>set (xs @ [d, t, f]). csv_clean c"
    and "d \<noteq> []" and "\<not> js_ws (hd d)" and "\<not> js_ws (last d)" and "t \<noteq> []" and "\<not> js_ws (last t)"
  shows "\<exists>ds r. parseCSV (csvText (last (downloads (downloadTransactionHistory s)))) = Inr ds \<and>
           headers ds = export_headers \<and> data ds = [r] \<and>
           map (cell r) (headers ds) = map js_trim xs @ [d, trim_start t]"
proof -
  let ?xs = "map js_trim xs" and ?f = "js_trim f" and ?ts = "d @ '','' @ t"
  have ts: "js_trim ?ts = ?ts"
    using assms(4-8) by (intro js_trim_id) simp_all
  have R: "map js_trim (take 7 (xs @ [?ts, f])) = ?xs @ [?ts, ?f]"
    using assms(2) ts by simp
  have cx: "\<forall>c\<in>set ?xs. csv_clean c" and cf: "csv_clean ?f"
    using assms(3) csv_clean_trim by auto
  have dt: "csv_clean d" "csv_clean t" using assms(3) by auto
  have fields: "split_fields (js_join '','' (map quote_cell (?xs @ [?ts, ?f]))) = ?xs @ [d, trim_start t, ?f]"
    using split_fields_comma_cell [OF cx cf dt assms(4,6)] .
  have lf: "\<forall>c\<in>set (?xs @ [?ts, ?f]). CHR 0x0A \<notin> set c"
    using cx cf dt by (auto simp: csv_clean_def)
  have m: "map (cell (mk_row export_headers (?xs @ [d, trim_start t, ?f]))) export_headers = ?xs @ [d, trim_start t]"
    using map_cell_mk_row [OF export_headers_distinct] assms(2) by (simp add: export_headers_def)
  have "csvText (last (downloads (downloadTransactionHistory s))) =
        concat (map csv_line (export_headers # [?xs @ [?ts, ?f]]))"
    using assms(1,2) ts by (simp add: download_last List.map_filter_simps export_row_def createExcelFile_def)
  then have "parseCSV (csvText (last (downloads (downloadTransactionHistory s)))) =
      Inr \<lparr>headers = export_headers, data = [mk_row export_headers (?xs @ [d, trim_start t, ?f])],
           rawText = concat (map csv_line (export_headers # [?xs @ [?ts, ?f]]))\<rparr>"
    using parseCSV_csv_text [OF export_headers_nonempty export_headers_clean, of "[?xs @ [?ts, ?f]]"] lf fields
    by simp
  then show ?thesis using m by auto
qed

theorem export_comma_shift_witness:
  "\<exists>ds r. parseCSV (csvText (last (downloads (downloadTransactionHistory \<lparr>historyBody = [CellsRow (history_cells \<lparr>h_customer_id = ''CUST-ana-k3x9qa'', h_transaction_amount = ''1500.00'', h_kyc_verified = ''Yes'', h_account_age_days = 30, h_channel = ''Web'', h_timestamp = ''1/5/2024, 2:30:00 PM'', h_is_fraud = 1\<rparr>)], liveCharts = [], histAlerts = [], downloads = []\<rparr>)))) = Inr ds \<and>
          headers ds = export_headers \<and> data ds = [r] \<and>
          map (cell r) (headers ds) = [''CUST-ana-k3x9qa'', ''1500.00'', ''Yes'', ''30'', ''Web'', ''1/5/2024'', ''2:30:00 PM'']"
proof -
  have "table_rows (historyBody \<lparr>historyBody = [CellsRow (history_cells \<lparr>h_customer_id = ''CUST-ana-k3x9qa'', h_transaction_amount = ''1500.00'', h_kyc_verified = ''Yes'', h_account_age_days = 30, h_channel = ''Web'', h_timestamp = ''1/5/2024, 2:30:00 PM'', h_is_fraud = 1\<rparr>)], liveCharts = [], histAlerts = [], downloads = []\<rparr>) =
        [[''CUST-ana-k3x9qa'', ''1500.00'', ''Yes'', ''30'', ''Web''] @ [''1/5/2024'' @ '','' @ '' 2:30:00 PM'', ''1'']]"
    by (simp add: history_cells_def js_simps)
  moreover have "map js_trim [''CUST-ana-k3x9qa'', ''1500.00'', ''Yes'', ''30'', ''Web''] =
                 [''CUST-ana-k3x9qa'', ''1500.00'', ''Yes'', ''30'', ''Web'']"
    by (simp add: js_simps)
  moreover have "trim_start '' 2:30:00 PM'' = ''2:30:00 PM''"
    by (simp add: js_simps)
  ultimately show ?thesis
    using export_comma_shift [of "\<lparr>historyBody = [CellsRow (history_cells \<lparr>h_customer_id = ''CUST-ana-k3x9qa'', h_transaction_amount = ''1500.00'', h_kyc_verified = ''Yes'', h_account_age_days = 30, h_channel = ''Web'', h_timestamp = ''1/5/2024, 2:30:00 PM'', h_is_fraud = 1\<rparr>)], liveCharts = [], histAlerts = [], downloads = []\<rparr>" "[''CUST-ana-k3x9qa'', ''1500.00'', ''Yes'', ''30'', ''Web'']"
                              "''1/5/2024''" "'' 2:30:00 PM''" "''1''"]
    by (simp add: csv_clean_def js_ws_def js_ws_chars_def)
qed

end
