(* ===== verification/Metrics.thy ===== *)
theory Metrics
  imports Prelude
begin

text \<open>
  The model performance page: \<open>loadModelPerformance\<close> (lines 1381--1394),
  \<open>updatePerformanceMetrics\<close> (1397--1447) and \<open>fillConfusionMatrixTable\<close> (1450--1463).
  The answer of \<open>GET /api/model-info\<close> is a record of \<open>js_val\<close>s; its
  \<open>confusion_matrix\<close> is, by the backend's contract, an array of rows of counts, or
  absent (\<open>None\<close>). The page holds the rows of the performance table (the value cell and
  the status badge of each) and the four cells of the confusion matrix table; the number of
  table rows is fixed by the page's markup and is a parameter of the initial state.
  \<open>textContent = v\<close> of a number prints it with the parameter \<open>numStr\<close>; of
  \<open>undefined\<close> it writes the empty string.
\<close>

record model_metrics =
  m_accuracy :: js_val
  m_precision :: js_val
  m_recall :: js_val
  m_f1_score :: js_val
  m_specificity :: js_val
  m_auc_score :: js_val
  m_confusion_matrix :: "real list list option"

record perf_row =
  valueText :: string
  badgeText :: string
  badgeClass :: string

record cm_cells =
  tnText :: string
  fpText :: string
  fnText :: string
  tpText :: string

record perf_page =
  perfRows :: "perf_row list"
  cmCells :: cm_cells
  perfAlerts :: "string list"

text \<open>\<open>a[i]\<close> of an array: \<open>undefined\<close> past its end.\<close>

definition js_index :: "'a list \<Rightarrow> nat \<Rightarrow> 'a option" where
  "js_index xs i = (if i < length xs then Some (xs ! i) else None)"

text \<open>The specificity fallback (lines 1404--1412): when \<open>metrics.specificity\<close> is not a
  number and the confusion matrix is an array, \<open>tn / (tn + fp)\<close> of its first row, 0 when
  the sum is not positive; \<open>undefined + x\<close> is \<open>NaN\<close>, which is not positive. An empty matrix
  makes \<open>cm[0][0]\<close> throw, which the empty \<open>catch\<close> swallows, keeping the value.\<close>

definition specificity_value :: "model_metrics \<Rightarrow> js_val" where
  "specificity_value m =
     (case m_specificity m of
        JsNum x \<Rightarrow> JsNum x
      | v \<Rightarrow>
          (case m_confusion_matrix m of
             None \<Rightarrow> v
           | Some [] \<Rightarrow> v
           | Some (row0 # _) \<Rightarrow>
               (case (js_index row0 0, js_index row0 1) of
                  (Some tn, Some fp) \<Rightarrow> JsNum (if 0 < tn + fp then tn / (tn + fp) else 0)
                | _ \<Rightarrow> JsNum 0)))"

text \<open>\<open>valueMap\<close> read in the order of \<open>ordered\<close>: Accuracy, Precision, F1-Score, Recall,
  Specificity, AUC Score.\<close>

definition ordered_values :: "model_metrics \<Rightarrow> real option list" where
  "ordered_values m =
     map js_number [m_accuracy m, m_precision m, m_f1_score m, m_recall m, specificity_value m, m_auc_score m]"

text \<open>The row update: \<open>Number(...)\<close> is always of type number, \<open>NaN\<close> included, so both
  \<open>typeof val === 'number'\<close> guards hold and the row shows \<open>(val * 100).toFixed(2) + '%'\<close>
  with a Completed badge.\<close>

definition metric_row :: "real option \<Rightarrow> perf_row \<Rightarrow> perf_row" where
  "metric_row val r =
     r\<lparr>valueText := fixed_or_nan 2 (map_option (\<lambda>v. v * 100) val) @ ''%'',
       badgeText := ''Completed'', badgeClass := ''status-badge completed''\<rparr>"

definition updatePerformanceMetrics :: "model_metrics \<Rightarrow> perf_page \<Rightarrow> perf_page" where
  "updatePerformanceMetrics m pg =
     pg\<lparr>perfRows := map (\<lambda>(idx, r). case js_index (ordered_values m) idx of
                                       Some val \<Rightarrow> metric_row val r
                                     | None \<Rightarrow> r)
                       (enumerate 0 (perfRows pg))\<rparr>"

text \<open>\<open>fillConfusionMatrixTable\<close>: the four assignments run in order, and the first that
  reads a missing row throws; the \<open>catch\<close> keeps the cells already written.\<close>

definition cm_text :: "(real \<Rightarrow> string) \<Rightarrow> real list \<Rightarrow> nat \<Rightarrow> string" where
  "cm_text numStr row i = (case js_index row i of Some x \<Rightarrow> numStr x | None \<Rightarrow> [])"

definition fillConfusionMatrixTable :: "(real \<Rightarrow> string) \<Rightarrow> model_metrics \<Rightarrow> perf_page \<Rightarrow> perf_page" where
  "fillConfusionMatrixTable numStr m pg =
     (case m_confusion_matrix m of
        None \<Rightarrow> pg
      | Some cm \<Rightarrow>
          (case cm of
             [] \<Rightarrow> pg
           | r0 # rest \<Rightarrow>
               (let c1 = (cmCells pg)\<lparr>tnText := cm_text numStr r0 0, fpText := cm_text numStr r0 1\<rparr>
                in case rest of
                     [] \<Rightarrow> pg\<lparr>cmCells := c1\<rparr>
                   | r1 # _ \<Rightarrow>
                       pg\<lparr>cmCells := c1\<lparr>fnText := cm_text numStr r1 0, tpText := cm_text numStr r1 1\<rparr>\<rparr>)))"

text \<open>The answer of \<open>GET /api/model-info\<close>: a failed request or body, a status that is not
  ok, or the metrics.\<close>

datatype metrics_outcome = MetricsFailed | MetricsNotOk | MetricsOk model_metrics

definition loadModelPerformance :: "(real \<Rightarrow> string) \<Rightarrow> metrics_outcome \<Rightarrow> perf_page \<Rightarrow> perf_page" where
  "loadModelPerformance numStr outcome pg =
     (case outcome of
        MetricsOk m \<Rightarrow> fillConfusionMatrixTable numStr m (updatePerformanceMetrics m pg)
      | _ \<Rightarrow> pg\<lparr>perfAlerts := perfAlerts pg @
               [''Could not load model performance metrics. Ensure the model is trained and server is running.'']\<rparr>)"

section \<open>Lemmas\<close>

lemma length_ordered_values [simp]: "length (ordered_values m) = 6"
  by (simp add: ordered_values_def)

lemma updatePerformanceMetrics_length [simp]:
  "length (perfRows (updatePerformanceMetrics m pg)) = length (perfRows pg)"
  by (simp add: updatePerformanceMetrics_def)

lemma updatePerformanceMetrics_nth:
  "i < length (perfRows pg) \<Longrightarrow>
   perfRows (updatePerformanceMetrics m pg) ! i =
     (if i < 6 then metric_row (ordered_values m ! i) (perfRows pg ! i) else perfRows pg ! i)"
  by (simp add: updatePerformanceMetrics_def js_index_def nth_enumerate_eq)

lemma perfRows_fillConfusionMatrixTable [simp]:
  "perfRows (fillConfusionMatrixTable numStr m pg) = perfRows pg"
  by (simp add: fillConfusionMatrixTable_def Let_def split: option.splits list.splits)

lemma specificity_value_bounds:
  assumes "m_confusion_matrix m = Some ((tn # fp # r) # rows)" and "0 \<le> tn" and "0 \<le> fp"
    and "\<forall>x. m_specificity m \<noteq> JsNum x"
  shows "\<exists>x. specificity_value m = JsNum x \<and> 0 \<le> x \<and> x \<le> 1"
  using assms by (cases "m_specificity m") (auto simp: specificity_value_def js_index_def)

text \<open>A matrix of one row writes TN and FP and then throws at \<open>cm[1][0]\<close>: FN and TP keep
  what the previous load wrote.\<close>

lemma fill_cm_one_row:
  "m_confusion_matrix m = Some [r0] \<Longrightarrow>
   cmCells (fillConfusionMatrixTable numStr m pg) =
     (cmCells pg)\<lparr>tnText := cm_text numStr r0 0, fpText := cm_text numStr r0 1\<rparr>"
  by (simp add: fillConfusionMatrixTable_def)

section \<open>Properties\<close>

text \<open>C26: a metric the backend leaves out or sends as a non-number is shown as NaN% with a
  Completed badge: the guards typeof val === 'number' hold for the NaN that Number returns.
  Loading the metrics writes each of the first six table rows from its value and leaves
  the others alone.\<close>

theorem missing_metric_completed:
  assumes "i < length (perfRows pg)"
  shows "perfRows (loadModelPerformance numStr (MetricsOk m) pg) ! i =
           (if i < 6 then metric_row (ordered_values m ! i) (perfRows pg ! i) else perfRows pg ! i) \<and>
         (i < 6 \<and> ordered_values m ! i = None \<longrightarrow>
            valueText (perfRows (loadModelPerformance numStr (MetricsOk m) pg) ! i) = ''NaN%'' \<and>
            badgeText (perfRows (loadModelPerformance numStr (MetricsOk m) pg) ! i) = ''Completed'')"
  using assms updatePerformanceMetrics_nth [OF assms, of m]
  by (simp add: loadModelPerformance_def metric_row_def fixed_or_nan_def)

theorem missing_metric_completed_witness:
  "valueText (perfRows (loadModelPerformance (\<lambda>_. ''0'')
      (MetricsOk \<lparr>m_accuracy = JsUndefined, m_precision = JsNum 0.9, m_recall = JsNum 0.8, m_f1_score = JsNum 0.85,
                  m_specificity = JsNum 0.95, m_auc_score = JsNum 0.97, m_confusion_matrix = None\<rparr>)
      \<lparr>perfRows = replicate 6 \<lparr>valueText = ''-'', badgeText = ''Pending'', badgeClass = ''status-badge''\<rparr>,
       cmCells = \<lparr>tnText = [], fpText = [], fnText = [], tpText = []\<rparr>, perfAlerts = []\<rparr>) ! 0) = ''NaN%'' \<and>
   badgeText (perfRows (loadModelPerformance (\<lambda>_. ''0'')
      (MetricsOk \<lparr>m_accuracy = JsUndefined, m_precision = JsNum 0.9, m_recall = JsNum 0.8, m_f1_score = JsNum 0.85,
                  m_specificity = JsNum 0.95, m_auc_score = JsNum 0.97, m_confusion_matrix = None\<rparr>)
      \<lparr>perfRows = replicate 6 \<lparr>valueText = ''-'', badgeText = ''Pending'', badgeClass = ''status-badge''\<rparr>,
       cmCells = \<lparr>tnText = [], fpText = [], fnText = [], tpText = []\<rparr>, perfAlerts = []\<rparr>) ! 0) = ''Completed''"
  using missing_metric_completed [of 0 "\<lparr>perfRows = replicate 6 \<lparr>valueText = ''-'', badgeText = ''Pending'', badgeClass = ''status-badge''\<rparr>,
       cmCells = \<lparr>tnText = [], fpText = [], fnText = [], tpText = []\<rparr>, perfAlerts = []\<rparr>" "\<lambda>_. ''0''"
      "\<lparr>m_accuracy = JsUndefined, m_precision = JsNum 0.9, m_recall = JsNum 0.8, m_f1_score = JsNum 0.85,
        m_specificity = JsNum 0.95, m_auc_score = JsNum 0.97, m_confusion_matrix = None\<rparr>"]
  by (simp add: ordered_values_def metric_row_def fixed_or_nan_def)

end
