(* ===== verification/Navigation.thy ===== *)
theory Navigation
  imports History Metrics
begin

text \<open>
  Page navigation: \<open>showPage\<close> (lines 957--1023), called by \<open>initializeNavigation\<close>
  (951--954) with \<open>welcome\<close> and by the sidebar links. It hides the six pages, shows the one
  its name selects (the welcome page for an unknown name) and starts the loads of the page:
  the metrics for the model performance page; the history, the ROC curve and the four
  analytics charts for the history page; \<open>loadAlertsInbox\<close> for the alerts inbox, a
  function the script never defines, so that call throws a \<open>ReferenceError\<close> after the
  page is shown. The loads are asynchronous and \<open>showPage\<close> does not wait for them; the
  model applies each when its request completes, in the order of the calls, and the lemma
  \<open>render_chart_commute\<close> shows the completion order of the charts does not matter.
  The answers of the endpoints are the environment \<open>nav_env\<close>.
\<close>

datatype page =
    WelcomePage | DatasetAnalysisPage | ModelPerformancePage | TransactionCheckPage
  | TransactionHistoryPage | AlertsInboxPage

record nav_env =
  nNumStr :: "real \<Rightarrow> string"
  nHistory :: load_outcome
  nMetrics :: metrics_outcome
  nRoc :: roc_outcome
  nStats :: stats_outcome
  nTrend :: trend_outcome
  nChannel :: channel_outcome
  nAmount :: amount_outcome

record nav_state =
  currentPage :: page
  histPage :: history_state
  perfPage :: perf_page

datatype nav_result = NavOk nav_state | NavThrows string nav_state

definition page_of_name :: "string \<Rightarrow> page" where
  "page_of_name name =
     (if name = ''welcome'' then WelcomePage
      else if name = ''datasetAnalysis'' then DatasetAnalysisPage
      else if name = ''modelPerformance'' then ModelPerformancePage
      else if name = ''transactionCheck'' then TransactionCheckPage
      else if name = ''transactionHistory'' then TransactionHistoryPage
      else if name = ''alertsInbox'' then AlertsInboxPage
      else WelcomePage)"

text \<open>The loads of the history page (lines 1012--1019): the table, then the five charts.\<close>

definition history_page_load :: "nav_env \<Rightarrow> history_state \<Rightarrow> history_state" where
  "history_page_load env h =
     (let h1 = loadTransactionHistory (nNumStr env) (nHistory env) h
      in h1\<lparr>liveCharts :=
              renderAmountVsFraudScatter (nAmount env)
                (renderChannelFraudPie (nNumStr env) (nChannel env)
                  (renderFraudTrend (nTrend env)
                    (renderFraudVsLegit (nStats env)
                      (renderRocCurveFromMetrics (nRoc env) (liveCharts h1)))))\<rparr>)"

definition showPage :: "nav_env \<Rightarrow> string \<Rightarrow> nav_state \<Rightarrow> nav_result" where
  "showPage env name st =
     (let st1 = st\<lparr>currentPage := page_of_name name\<rparr>
      in if name = ''modelPerformance''
         then NavOk (st1\<lparr>perfPage := loadModelPerformance (nNumStr env) (nMetrics env) (perfPage st1)\<rparr>)
         else if name = ''transactionHistory''
         then NavOk (st1\<lparr>histPage := history_page_load env (histPage st1)\<rparr>)
         else if name = ''alertsInbox''
         then NavThrows ''ReferenceError: loadAlertsInbox is not defined'' st1
         else NavOk st1)"

definition nav_state_of :: "nav_result \<Rightarrow> nav_state" where
  "nav_state_of r = (case r of NavOk st \<Rightarrow> st | NavThrows e st \<Rightarrow> st)"

section \<open>Lemmas\<close>

text \<open>Every name shows exactly one page, the one it selects; only the alerts inbox throws,
  and it throws after its page is shown.\<close>

lemma showPage_page: "currentPage (nav_state_of (showPage env name st)) = page_of_name name"
  by (simp add: showPage_def nav_state_of_def Let_def)

lemma showPage_throws:
  "(\<exists>e st'. showPage env name st = NavThrows e st') \<longleftrightarrow> name = ''alertsInbox''"
  by (simp add: showPage_def Let_def)

lemma showPage_unknown:
  "page_of_name name = WelcomePage \<longleftrightarrow> name \<notin> {''datasetAnalysis'', ''modelPerformance'', ''transactionCheck'', ''transactionHistory'', ''alertsInbox''}"
  by (auto simp: page_of_name_def)

text \<open>Only the two pages with loads change anything but the visible page.\<close>

lemma showPage_other_pages:
  "name \<noteq> ''modelPerformance'' \<Longrightarrow> name \<noteq> ''transactionHistory'' \<Longrightarrow>
   histPage (nav_state_of (showPage env name st)) = histPage st \<and>
   perfPage (nav_state_of (showPage env name st)) = perfPage st"
  by (simp add: showPage_def nav_state_of_def Let_def)

lemma map_of_destroyChartIfExists:
  "map_of (destroyChartIfExists key charts) =
     (case map_of charts key of Some (Some c) \<Rightarrow> (map_of charts)(key \<mapsto> None) | _ \<Rightarrow> map_of charts)"
  by (simp add: destroyChartIfExists_def update_conv' split: option.splits)

lemma map_of_render_chart:
  "map_of (render_chart key c charts) =
     (case c of
        None \<Rightarrow> (case map_of charts key of Some (Some ch) \<Rightarrow> (map_of charts)(key \<mapsto> None) | _ \<Rightarrow> map_of charts)
      | Some ch \<Rightarrow> (map_of charts)(key \<mapsto> Some ch))"
  by (auto simp: render_chart_def Let_def map_of_destroyChartIfExists update_conv' split: option.splits)

text \<open>Two renderers of different keys commute: the registry they leave does not depend on the
  order in which their requests complete.\<close>

lemma render_chart_commute:
  "k1 \<noteq> k2 \<Longrightarrow>
   map_of (render_chart k1 c1 (render_chart k2 c2 charts)) = map_of (render_chart k2 c2 (render_chart k1 c1 charts))"
  by (rule ext) (auto simp: map_of_render_chart split: option.splits)

end
