(* ===== verification/Session.thy ===== *)
theory Session
  imports Transaction
begin

text \<open>
  The session and page chrome: \<open>loadUserName\<close> (lines 177--198), the profile menu
  (\<open>toggleProfileMenu\<close> and the click, menu-item and Escape listeners, 29--76 and 118--124),
  the logout, profile and settings modals (806--948) and \<open>initializeTransactionForm\<close>
  (1028--1043), which fills the date field the check form reads. \<open>localStorage\<close> is an
  association list, or \<open>None\<close> when the browser refuses access and every \<open>getItem\<close>
  throws; \<open>removeItem\<close> and \<open>setItem\<close> are \<^const>\<open>AList.delete\<close> and
  \<^const>\<open>AList.update\<close>. The DOM elements the handlers use are assumed present. An
  exception that escapes a handler is the \<open>Inl\<close> of the result, with the state changes made
  before it. The user's clicks and keys after the page has loaded are the datatype
  \<open>session_event\<close>; \<open>session_step\<close> runs the element's handler and then the document's
  listeners the click bubbles to, and \<open>session_reachable\<close> collects the states every
  sequence of them reaches. Console logging is not modelled.
\<close>

type_synonym local_storage = "(string \<times> string) list"

record session_ui =
  storage :: "local_storage option"
  userNameText :: string
  profileMenuActive :: bool
  logoutModalActive :: bool
  profileModalActive :: bool
  settingsModalActive :: bool
  profileFullName :: string
  profileEmail :: string
  profileMobile :: string
  location :: "string option"
  dtInputValue :: string
  sessionAlerts :: "string list"

datatype ui_error = StorageError

text \<open>The result of a handler: the state it leaves, or an exception with the state the
  handler had reached when it threw.\<close>

type_synonym ui_result = "(ui_error \<times> session_ui) + session_ui"

text \<open>\<open>localStorage.getItem(k) || d\<close>.\<close>

definition item_or :: "local_storage \<Rightarrow> string \<Rightarrow> string \<Rightarrow> string" where
  "item_or st k d = (case map_of st k of Some v \<Rightarrow> if v = [] then d else v | None \<Rightarrow> d)"

text \<open>\<open>loadUserName\<close>: the stored first name unless it is missing, empty or \<open>User\<close>; else the
  \<open>name\<close> parameter of the URL, which is then stored; else \<open>User\<close>.\<close>

definition loadUserName :: "string option \<Rightarrow> session_ui \<Rightarrow> ui_result" where
  "loadUserName nameFromUrl s =
     (case storage s of
        None \<Rightarrow> Inl (StorageError, s)
      | Some st \<Rightarrow>
          (let fromUrl =
             (case nameFromUrl of
                Some u \<Rightarrow>
                  if u \<noteq> [] then s\<lparr>userNameText := u, storage := Some (AList.update ''userFirstName'' u st)\<rparr>
                  else s\<lparr>userNameText := ''User''\<rparr>
              | None \<Rightarrow> s\<lparr>userNameText := ''User''\<rparr>)
           in case map_of st ''userFirstName'' of
                Some n \<Rightarrow> Inr (if n \<noteq> [] \<and> n \<noteq> ''User'' then s\<lparr>userNameText := n\<rparr> else fromUrl)
              | None \<Rightarrow> Inr fromUrl))"

definition toggleProfileMenu :: "session_ui \<Rightarrow> session_ui" where
  "toggleProfileMenu s = s\<lparr>profileMenuActive := \<not> profileMenuActive s\<rparr>"

text \<open>\<open>loadProfileData\<close>: the full name, e-mail and phone from \<open>localStorage\<close> with their
  defaults; when reading the storage throws, the \<open>catch\<close> calls \<open>loadFallbackProfileData\<close>,
  which reads the storage again and throws in turn.\<close>

definition profile_phone :: "string \<Rightarrow> string \<Rightarrow> string" where
  "profile_phone countryCode mobile =
     (if countryCode \<noteq> [] \<and> mobile \<noteq> [] then ''+'' @ countryCode @ '' '' @ mobile
      else if mobile \<noteq> [] then mobile else ''Not provided'')"

definition loadProfileData :: "session_ui \<Rightarrow> ui_result" where
  "loadProfileData s =
     (case storage s of
        None \<Rightarrow> Inl (StorageError, s)
      | Some st \<Rightarrow>
          (let firstName = item_or st ''userFirstName'' ''User'';
               lastName = item_or st ''userLastName'' [];
               email = item_or st ''userEmail'' ''user@example.com'';
               mobile = item_or st ''userMobile'' [];
               countryCode = item_or st ''userCountryCode'' [];
               fullName = js_trim (firstName @ '' '' @ lastName)
           in Inr (s\<lparr>profileFullName := (if fullName = [] then ''User Name'' else fullName),
                     profileEmail := email, profileMobile := profile_phone countryCode mobile\<rparr>)))"

definition showProfileModal :: "session_ui \<Rightarrow> ui_result" where
  "showProfileModal s = loadProfileData (s\<lparr>profileModalActive := True\<rparr>)"

text \<open>The settings are disabled: \<open>loadSettings\<close> only logs.\<close>

definition loadSettings :: "session_ui \<Rightarrow> session_ui" where
  "loadSettings s = s"

definition showSettingsModal :: "session_ui \<Rightarrow> session_ui" where
  "showSettingsModal s = loadSettings (s\<lparr>settingsModalActive := True\<rparr>)"

definition hideSettingsModal :: "session_ui \<Rightarrow> session_ui" where
  "hideSettingsModal s = s\<lparr>settingsModalActive := False\<rparr>"

definition closeSettingsModal :: "session_ui \<Rightarrow> session_ui" where
  "closeSettingsModal s = hideSettingsModal s"

definition showSettingsDisabled :: "session_ui \<Rightarrow> session_ui" where
  "showSettingsDisabled s = s\<lparr>sessionAlerts := sessionAlerts s @ [''Settings are currently inactive. Coming soon!'']\<rparr>"

definition hideProfileModal :: "session_ui \<Rightarrow> session_ui" where
  "hideProfileModal s = s\<lparr>profileModalActive := False\<rparr>"

definition closeProfileModal :: "session_ui \<Rightarrow> session_ui" where
  "closeProfileModal s = hideProfileModal s"

definition showLogoutModal :: "session_ui \<Rightarrow> session_ui" where
  "showLogoutModal s = s\<lparr>logoutModalActive := True\<rparr>"

definition hideLogoutModal :: "session_ui \<Rightarrow> session_ui" where
  "hideLogoutModal s = s\<lparr>logoutModalActive := False\<rparr>"

definition cancelLogout :: "session_ui \<Rightarrow> session_ui" where
  "cancelLogout s = hideLogoutModal s"

definition user_keys :: "string list" where
  "user_keys = [''userFirstName'', ''userEmail'', ''userMobile'', ''userCountryCode'', ''userLastName'']"

text \<open>\<open>confirmLogout\<close>: the five user items are removed and the page goes to the landing
  page.\<close>

definition confirmLogout :: "session_ui \<Rightarrow> ui_result" where
  "confirmLogout s =
     (case storage s of
        None \<Rightarrow> Inl (StorageError, s)
      | Some st \<Rightarrow> Inr (s\<lparr>storage := Some (fold AList.delete user_keys st), location := Some ''../index.html''\<rparr>))"

datatype menu_item = MyProfile | SettingsItem | LogoutItem

text \<open>A click on a profile menu item: its action, then the menu closes. Logging out asks for
  confirmation unless \<open>requireConfirmation\<close> is stored as \<open>false\<close>.\<close>

definition menu_item_click :: "menu_item \<Rightarrow> session_ui \<Rightarrow> ui_result" where
  "menu_item_click item s =
     map_sum id (\<lambda>s'. s'\<lparr>profileMenuActive := False\<rparr>)
       (case item of
          MyProfile \<Rightarrow> showProfileModal s
        | SettingsItem \<Rightarrow> Inr (showSettingsModal s)
        | LogoutItem \<Rightarrow>
            (case storage s of
               None \<Rightarrow> Inl (StorageError, s)
             | Some st \<Rightarrow> if map_of st ''requireConfirmation'' \<noteq> Some ''false'' then Inr (showLogoutModal s)
                         else confirmLogout s))"

text \<open>The two \<open>keydown\<close> listeners for Escape, in the order the script registers them:
  the first closes the profile menu, the second the three modals.\<close>

definition escape_menu :: "session_ui \<Rightarrow> session_ui" where
  "escape_menu s = s\<lparr>profileMenuActive := False\<rparr>"

definition escape_modals :: "session_ui \<Rightarrow> session_ui" where
  "escape_modals s = closeSettingsModal (hideProfileModal (hideLogoutModal s))"

definition escape_key :: "session_ui \<Rightarrow> session_ui" where
  "escape_key s = escape_modals (escape_menu s)"

text \<open>The two \<open>click\<close> listeners of the document: outside the profile section the menu
  closes; on the backdrop of the logout modal that modal closes.\<close>

definition outside_click :: "bool \<Rightarrow> session_ui \<Rightarrow> session_ui" where
  "outside_click inProfileSection s = (if inProfileSection then s else s\<lparr>profileMenuActive := False\<rparr>)"

definition logout_backdrop_click :: "bool \<Rightarrow> session_ui \<Rightarrow> session_ui" where
  "logout_backdrop_click onLogoutBackdrop s = (if onLogoutBackdrop then hideLogoutModal s else s)"

definition document_click :: "bool \<Rightarrow> bool \<Rightarrow> session_ui \<Rightarrow> session_ui" where
  "document_click inProfileSection onLogoutBackdrop s =
     logout_backdrop_click onLogoutBackdrop (outside_click inProfileSection s)"

text \<open>\<open>String(n).padStart(2, '0')\<close>.\<close>

definition pad2 :: "nat \<Rightarrow> string" where
  "pad2 n = (let d = nat_digits n in replicate (2 - length d) (CHR ''0'') @ d)"

text \<open>\<open>initializeTransactionForm\<close>: the local date and time of \<open>new Date()\<close> as
  \<open>YYYY-MM-DDTHH:MM\<close>; the year is not padded.\<close>

definition dt_input_value :: "local_dt \<Rightarrow> string" where
  "dt_input_value now =
     int_string (dt_year now) @ ''-'' @ pad2 (dt_month now) @ ''-'' @ pad2 (dt_day now) @ ''T'' @
     pad2 (dt_hour now) @ '':'' @ pad2 (dt_minute now)"

definition initializeTransactionForm :: "local_dt \<Rightarrow> session_ui \<Rightarrow> session_ui" where
  "initializeTransactionForm now s = s\<lparr>dtInputValue := dt_input_value now\<rparr>"

text \<open>The user's actions on the page chrome after it has loaded: the profile button (its
  \<open>onclick\<close> is \<open>toggleProfileMenu\<close>), a profile menu item, a click elsewhere (inside the
  profile section or not, on the logout backdrop or not), Escape, and the buttons of the
  modals. A click runs the element's own handler first and then bubbles to the two
  document listeners; an exception in one listener does not stop the others. The buttons
  of the modals lie outside the profile section and are not the backdrop.\<close>

datatype session_event =
    ProfileButton
  | MenuClick menu_item
  | DocClick bool bool
  | EscapeKey
  | CancelLogoutButton
  | ConfirmLogoutButton
  | CloseProfileButton
  | CloseSettingsButton
  | SettingsDisabledButton

definition bubble :: "bool \<Rightarrow> ui_result \<Rightarrow> ui_result" where
  "bubble inProfileSection r = map_sum (\<lambda>(e, s). (e, document_click inProfileSection False s)) (document_click inProfileSection False) r"

definition session_step :: "session_event \<Rightarrow> session_ui \<Rightarrow> ui_result" where
  "session_step e s =
     (case e of
        ProfileButton \<Rightarrow> bubble True (Inr (toggleProfileMenu s))
      | MenuClick item \<Rightarrow> bubble True (menu_item_click item s)
      | DocClick inProfileSection onLogoutBackdrop \<Rightarrow> Inr (document_click inProfileSection onLogoutBackdrop s)
      | EscapeKey \<Rightarrow> Inr (escape_key s)
      | CancelLogoutButton \<Rightarrow> bubble False (Inr (cancelLogout s))
      | ConfirmLogoutButton \<Rightarrow> bubble False (confirmLogout s)
      | CloseProfileButton \<Rightarrow> bubble False (Inr (closeProfileModal s))
      | CloseSettingsButton \<Rightarrow> bubble False (Inr (closeSettingsModal s))
      | SettingsDisabledButton \<Rightarrow> bubble False (Inr (showSettingsDisabled s)))"

definition ui_state :: "ui_result \<Rightarrow> session_ui" where
  "ui_state r = (case r of Inl (e, s) \<Rightarrow> s | Inr s \<Rightarrow> s)"

text \<open>The states the chrome reaches from the loaded page \<open>s0\<close>; a handler that throws
  leaves the state it had reached.\<close>

inductive session_reachable :: "session_ui \<Rightarrow> session_ui \<Rightarrow> bool" for s0 where
  init: "session_reachable s0 s0"
| step: "session_reachable s0 s \<Longrightarrow> session_reachable s0 (ui_state (session_step e s))"

text \<open>What logging out does to the storage: before it the storage is the loaded one; once
  the page is sent to the landing page, the five user items are gone and every other item
  is as loaded.\<close>

definition logout_inv :: "session_ui \<Rightarrow> session_ui \<Rightarrow> bool" where
  "logout_inv s0 s \<longleftrightarrow>
     (case location s of
        None \<Rightarrow> storage s = storage s0
      | Some l \<Rightarrow> l = ''../index.html'' \<and>
          (\<exists>st0 st. storage s0 = Some st0 \<and> storage s = Some st \<and>
             (\<forall>k. map_of st k = (if k \<in> set user_keys then None else map_of st0 k))))"

section \<open>Lemmas\<close>

lemma pad2_props:
  assumes "n < 100"
  shows "length (pad2 n) = 2 \<and> list_all is_digit (pad2 n) \<and> digits_nat (pad2 n) = n"
proof (cases "n < 10")
  case True
  then have "length (nat_digits n) = 1" by (simp add: nat_digits_less)
  then show ?thesis using nat_digits_inv [of n]
    by (simp add: pad2_def Let_def is_digit_def digits_nat_def)
next
  case False
  then have "length (nat_digits n) = 2" using length_nat_digits [of 1 n] assms by simp
  then show ?thesis using nat_digits_inv [of n] by (simp add: pad2_def Let_def)
qed

lemma digits_at_append:
  "length xs = i \<Longrightarrow> length w = n \<Longrightarrow> list_all is_digit w \<Longrightarrow>
   digits_at (xs @ w @ ys) i n = Some (digits_nat w)"
  by (simp add: digits_at_def)

lemma days_in_month_le: "days_in_month y m \<le> 31"
  by (simp add: days_in_month_def)

lemma dt_input_value_roundtrip:
  assumes "1000 \<le> dt_year now" and "dt_year now \<le> 9999" and "1 \<le> dt_month now" and "dt_month now \<le> 12"
    and "1 \<le> dt_day now" and "dt_day now \<le> days_in_month (dt_year now) (dt_month now)"
    and "dt_hour now < 24" and "dt_minute now < 60"
  shows "parse_local_datetime (dt_input_value now) = Some now"
proof -
  let ?Y = "nat_digits (nat (dt_year now))"
  let ?M = "pad2 (dt_month now)" and ?D = "pad2 (dt_day now)"
  let ?H = "pad2 (dt_hour now)" and ?I = "pad2 (dt_minute now)"
  have y: "int_string (dt_year now) = ?Y" using assms(1) by (simp add: int_string_def)
  have ly: "length ?Y = 4" using length_nat_digits [of 3 "nat (dt_year now)"] assms(1,2) by simp
  have dy: "list_all is_digit ?Y \<and> digits_nat ?Y = nat (dt_year now)" using nat_digits_inv by simp
  have p: "length ?M = 2 \<and> list_all is_digit ?M \<and> digits_nat ?M = dt_month now"
          "length ?D = 2 \<and> list_all is_digit ?D \<and> digits_nat ?D = dt_day now"
          "length ?H = 2 \<and> list_all is_digit ?H \<and> digits_nat ?H = dt_hour now"
          "length ?I = 2 \<and> list_all is_digit ?I \<and> digits_nat ?I = dt_minute now"
    using pad2_props assms(4,6,7,8) order_trans [OF assms(6) days_in_month_le] by simp_all
  have v: "dt_input_value now = ?Y @ ''-'' @ ?M @ ''-'' @ ?D @ ''T'' @ ?H @ '':'' @ ?I"
    by (simp add: dt_input_value_def y)
  have d0: "digits_at (dt_input_value now) 0 4 = Some (nat (dt_year now))"
    using digits_at_append [of "[]" 0 ?Y 4] ly dy v by simp
  have d1: "digits_at (dt_input_value now) 5 2 = Some (dt_month now)"
    using digits_at_append [of "?Y @ ''-''" 5 ?M 2] ly p v by simp
  have d2: "digits_at (dt_input_value now) 8 2 = Some (dt_day now)"
    using digits_at_append [of "?Y @ ''-'' @ ?M @ ''-''" 8 ?D 2] ly p v by simp
  have d3: "digits_at (dt_input_value now) 11 2 = Some (dt_hour now)"
    using digits_at_append [of "?Y @ ''-'' @ ?M @ ''-'' @ ?D @ ''T''" 11 ?H 2] ly p v by simp
  have d4: "digits_at (dt_input_value now) 14 2 = Some (dt_minute now)"
    using digits_at_append [of "?Y @ ''-'' @ ?M @ ''-'' @ ?D @ ''T'' @ ?H @ '':''" 14 ?I 2 "[]"] ly p v by simp
  have l: "length (dt_input_value now) = 16" using v ly p by simp
  have c: "dt_input_value now ! 4 = CHR ''-'' \<and> dt_input_value now ! 7 = CHR ''-'' \<and>
           dt_input_value now ! 10 = CHR ''T'' \<and> dt_input_value now ! 13 = CHR '':''"
    using v ly p by (simp add: nth_append)
  show ?thesis
    using l c d0 d1 d2 d3 d4 assms by (simp add: parse_local_datetime_def)
qed

lemma map_of_fold_delete [simp]:
  "map_of (fold AList.delete ks st) k = (if k \<in> set ks then None else map_of st k)"
  by (induction ks arbitrary: st) (auto simp: delete_conv')

lemma confirmLogout_storage:
  "confirmLogout s = Inr s' \<Longrightarrow> storage s = Some st \<Longrightarrow>
   storage s' = Some (fold AList.delete user_keys st) \<and> location s' = Some ''../index.html'' \<and>
   (\<forall>k. map_of (fold AList.delete user_keys st) k = (if k \<in> set user_keys then None else map_of st k))"
  by (auto simp: confirmLogout_def)

lemmas chrome_defs = toggleProfileMenu_def menu_item_click_def showProfileModal_def loadProfileData_def
  showSettingsModal_def loadSettings_def hideSettingsModal_def closeSettingsModal_def showSettingsDisabled_def
  hideProfileModal_def closeProfileModal_def showLogoutModal_def hideLogoutModal_def cancelLogout_def
  confirmLogout_def escape_key_def escape_menu_def escape_modals_def outside_click_def
  logout_backdrop_click_def document_click_def bubble_def ui_state_def

text \<open>A step of the chrome either leaves the storage and the location alone or is a logout:
  the user items deleted and the landing page set.\<close>

lemma session_step_storage:
  "(storage (ui_state (session_step e s)) = storage s \<and> location (ui_state (session_step e s)) = location s) \<or>
   (\<exists>st. storage s = Some st \<and> storage (ui_state (session_step e s)) = Some (fold AList.delete user_keys st) \<and>
         location (ui_state (session_step e s)) = Some ''../index.html'')"
proof (cases e)
  case (MenuClick item)
  then show ?thesis
    by (cases item) (auto simp: session_step_def chrome_defs Let_def split: option.splits)
qed (auto simp: session_step_def chrome_defs split: option.splits)

lemma session_reachable_logout_inv:
  assumes "session_reachable s0 s" and "location s0 = None"
  shows "logout_inv s0 s"
  using assms(1)
proof (induction rule: session_reachable.induct)
  case init
  show ?case using assms(2) by (simp add: logout_inv_def)
next
  case (step s e)
  from session_step_storage [of e s] show ?case
  proof
    assume "storage (ui_state (session_step e s)) = storage s \<and> location (ui_state (session_step e s)) = location s"
    then have a: "storage (ui_state (session_step e s)) = storage s"
      and b: "location (ui_state (session_step e s)) = location s" by blast+
    from step.IH show ?thesis unfolding logout_inv_def a b .
  next
    assume "\<exists>st. storage s = Some st \<and> storage (ui_state (session_step e s)) = Some (fold AList.delete user_keys st) \<and>
         location (ui_state (session_step e s)) = Some ''../index.html''"
    with step.IH show ?thesis by (auto simp: logout_inv_def split: option.splits)
  qed
qed

lemma escape_closes_all:
  "\<not> profileMenuActive (escape_key s) \<and> \<not> logoutModalActive (escape_key s) \<and>
   \<not> profileModalActive (escape_key s) \<and> \<not> settingsModalActive (escape_key s)"
  by (simp add: escape_key_def escape_menu_def escape_modals_def closeSettingsModal_def
                hideSettingsModal_def hideProfileModal_def hideLogoutModal_def)

text \<open>When the storage cannot be read, \<open>My Profile\<close> opens the profile modal, then
  \<open>loadProfileData\<close> and its fallback both throw: the modal stays open without data and the
  menu is not closed.\<close>

lemma profile_storage_error:
  "storage s = None \<Longrightarrow>
   menu_item_click MyProfile s = Inl (StorageError, s\<lparr>profileModalActive := True\<rparr>)"
  by (simp add: menu_item_click_def showProfileModal_def loadProfileData_def)

section \<open>Properties\<close>

text \<open>C34: the page leaves for the landing page only through confirmLogout, and only with the
  user's data removed: in every state the chrome's handlers reach from a loaded page, under
  any sequence of clicks and keys, once the location is set it is ../index.html and the
  storage has none of the five user items and every other item as loaded.\<close>

theorem logout_clears_user:
  assumes "session_reachable s0 s" and "location s0 = None" and "storage s0 = Some st0"
    and "location s \<noteq> None"
  shows "location s = Some ''../index.html'' \<and>
         (\<exists>st. storage s = Some st \<and> (\<forall>k. map_of st k = (if k \<in> set user_keys then None else map_of st0 k)))"
  using session_reachable_logout_inv [OF assms(1,2)] assms(3,4) by (auto simp: logout_inv_def)

theorem logout_clears_user_witness:
  "location (ui_state (session_step (MenuClick LogoutItem)
     \<lparr>storage = Some [(''userFirstName'', ''Ana''), (''requireConfirmation'', ''false'')], userNameText = ''Ana'',
      profileMenuActive = True, logoutModalActive = False, profileModalActive = False, settingsModalActive = False,
      profileFullName = [], profileEmail = [], profileMobile = [], location = None, dtInputValue = [], sessionAlerts = []\<rparr>)) =
     Some ''../index.html'' \<and>
   (\<exists>st. storage (ui_state (session_step (MenuClick LogoutItem)
     \<lparr>storage = Some [(''userFirstName'', ''Ana''), (''requireConfirmation'', ''false'')], userNameText = ''Ana'',
      profileMenuActive = True, logoutModalActive = False, profileModalActive = False, settingsModalActive = False,
      profileFullName = [], profileEmail = [], profileMobile = [], location = None, dtInputValue = [], sessionAlerts = []\<rparr>)) = Some st \<and>
     map_of st ''userFirstName'' = None \<and> map_of st ''requireConfirmation'' = Some ''false'')"
proof -
  let ?s0 = "\<lparr>storage = Some [(''userFirstName'', ''Ana''), (''requireConfirmation'', ''false'')], userNameText = ''Ana'',
      profileMenuActive = True, logoutModalActive = False, profileModalActive = False, settingsModalActive = False,
      profileFullName = [], profileEmail = [], profileMobile = [], location = None, dtInputValue = [], sessionAlerts = []\<rparr>"
  have r: "session_reachable ?s0 (ui_state (session_step (MenuClick LogoutItem) ?s0))"
    by (rule session_reachable.step [OF session_reachable.init])
  have l: "location (ui_state (session_step (MenuClick LogoutItem) ?s0)) \<noteq> None"
    by (simp add: session_step_def chrome_defs)
  let ?s1 = "ui_state (session_step (MenuClick LogoutItem) ?s0)"
  have h: "location ?s1 = Some ''../index.html'' \<and>
      (\<exists>st. storage ?s1 = Some st \<and>
         (\<forall>k. map_of st k = (if k \<in> set user_keys then None
              else map_of [(''userFirstName'', ''Ana''), (''requireConfirmation'', ''false'')] k)))"
    using logout_clears_user [OF r _ _ l, of "[(''userFirstName'', ''Ana''), (''requireConfirmation'', ''false'')]"]
    by simp
  then obtain st where st: "storage ?s1 = Some st"
    and m: "\<forall>k. map_of st k = (if k \<in> set user_keys then None
              else map_of [(''userFirstName'', ''Ana''), (''requireConfirmation'', ''false'')] k)" by blast
  have "map_of st ''userFirstName'' = None" using m [rule_format, of "''userFirstName''"] by (simp add: user_keys_def)
  moreover have "map_of st ''requireConfirmation'' = Some ''false''"
    using m [rule_format, of "''requireConfirmation''"] by (simp add: user_keys_def)
  ultimately show ?thesis using h st by blast
qed

text \<open>C30: the date the check form is initialised with is the one the check reads: for a valid
  local date and time with a four-digit year, parsing the value initializeTransactionForm
  writes gives back that date, and checkTransaction of a valid form carrying it sends its
  hour, day and month.\<close>

theorem form_default_date:
  assumes "1000 \<le> dt_year now" and "dt_year now \<le> 9999" and "1 \<le> dt_month now" and "dt_month now \<le> 12"
    and "1 \<le> dt_day now" and "dt_day now \<le> days_in_month (dt_year now) (dt_month now)"
    and "dt_hour now < 24" and "dt_minute now < 60"
  shows "parse_local_datetime (dtInputValue (initializeTransactionForm now s)) = Some now \<and>
         (form_valid f \<longrightarrow> dtValue f = dtInputValue (initializeTransactionForm now s) \<longrightarrow>
            map_option (\<lambda>p. (p_hour p, p_day p, p_month p)) (lastPredictionPayload (checkTransaction env (Some f) pg)) =
              Some (dt_hour now, dt_day now, dt_month now))"
proof -
  have r: "parse_local_datetime (dtInputValue (initializeTransactionForm now s)) = Some now"
    using dt_input_value_roundtrip [OF assms] by (simp add: initializeTransactionForm_def)
  moreover have "form_valid f \<longrightarrow> dtValue f = dtInputValue (initializeTransactionForm now s) \<longrightarrow>
            map_option (\<lambda>p. (p_hour p, p_day p, p_month p)) (lastPredictionPayload (checkTransaction env (Some f) pg)) =
              Some (dt_hour now, dt_day now, dt_month now)"
    using checkTransaction_valid [of f now env pg] r by (auto simp: build_payload_def)
  ultimately show ?thesis by blast
qed

theorem form_default_date_witness:
  "dtInputValue (initializeTransactionForm \<lparr>dt_year = 2024, dt_month = 1, dt_day = 5, dt_hour = 14, dt_minute = 30\<rparr> \<lparr>storage = Some [], userNameText = ''User'', profileMenuActive = False, logoutModalActive = False, profileModalActive = False, settingsModalActive = False, profileFullName = [], profileEmail = [], profileMobile = [], location = None, dtInputValue = [], sessionAlerts = []\<rparr>) = ''2024-01-05T14:30'' \<and>
   map_option (\<lambda>p. (p_hour p, p_day p, p_month p))
     (lastPredictionPayload (checkTransaction \<lparr>storedEmail = Some ''ana@bank.example'', storedFirstName = None, randomSuffix = ''k3x9qa'', isoString = (\<lambda>_. ''2024-01-05T13:30:00.000Z''), localeString = (\<lambda>_. ''1/5/2024, 2:30:00 PM''), predictOutcome = FetchFailed ''Failed to fetch'', explainOutcome = ExplainFailed\<rparr> (Some \<lparr>amountValue = ''1500'', kycValue = ''Yes'', ageValue = ''30'', channelValue = ''Web'', dtValue = ''2024-01-05T14:30''\<rparr>) \<lparr>lastPredictionPayload = None, resultView = None, historyRows = [], txAlerts = []\<rparr>)) = Some (14, 5, 1)"
proof -
  have v: "dtInputValue (initializeTransactionForm \<lparr>dt_year = 2024, dt_month = 1, dt_day = 5, dt_hour = 14, dt_minute = 30\<rparr> \<lparr>storage = Some [], userNameText = ''User'', profileMenuActive = False, logoutModalActive = False, profileModalActive = False, settingsModalActive = False, profileFullName = [], profileEmail = [], profileMobile = [], location = None, dtInputValue = [], sessionAlerts = []\<rparr>) = ''2024-01-05T14:30''"
    by (simp add: initializeTransactionForm_def dt_input_value_def pad2_def js_simps)
  have "(1000::int) \<le> 2024" and "days_in_month 2024 1 = 31" by (simp_all add: days_in_month_def)
  then show ?thesis
    using form_default_date [of "\<lparr>dt_year = 2024, dt_month = 1, dt_day = 5, dt_hour = 14, dt_minute = 30\<rparr>" "\<lparr>storage = Some [], userNameText = ''User'', profileMenuActive = False, logoutModalActive = False, profileModalActive = False, settingsModalActive = False, profileFullName = [], profileEmail = [], profileMobile = [], location = None, dtInputValue = [], sessionAlerts = []\<rparr>" "\<lparr>amountValue = ''1500'', kycValue = ''Yes'', ageValue = ''30'', channelValue = ''Web'', dtValue = ''2024-01-05T14:30''\<rparr>" "\<lparr>storedEmail = Some ''ana@bank.example'', storedFirstName = None, randomSuffix = ''k3x9qa'', isoString = (\<lambda>_. ''2024-01-05T13:30:00.000Z''), localeString = (\<lambda>_. ''1/5/2024, 2:30:00 PM''), predictOutcome = FetchFailed ''Failed to fetch'', explainOutcome = ExplainFailed\<rparr>" "\<lparr>lastPredictionPayload = None, resultView = None, historyRows = [], txAlerts = []\<rparr>"] v example_form_valid by simp
qed

end
