(* ===== verification/Progress.thy ===== *)
theory Progress
  imports Prelude
begin

text \<open>
  The upload progress box: \<open>showUploadProgress\<close> (lines 296--315), \<open>hideUploadProgress\<close>
  (318--321) and \<open>showAnalysisResults\<close> (324--326). \<open>showUploadProgress\<close> shows the box,
  hides the drop area and starts a \<open>setInterval\<close> timer of 100 ms whose callback adds
  \<open>Math.random() * 15\<close> to a counter \<open>progress\<close> local to that call, and at 100 or more
  clamps it, clears the timer and writes \<open>Processing dataset...\<close>; every tick writes
  \<open>progress + '%'\<close> as the width of the bar. The state is the visibility of the box, the
  drop area and the results, the bar's width (the number before \<open>%\<close>, \<open>None\<close> before any
  tick), the text of the box and the timers started so far, each with its own counter and
  whether it still runs. A tick is the callback of timer \<open>i\<close> with the draw \<open>r\<close> of
  \<open>Math.random()\<close>, which lies in \<open>[0, 1)\<close>; the browser may fire the ticks of two
  timers in any order. The loop of one timer is \<open>run_timer\<close>, a
  \<open>partial_function (option)\<close> over the sequence of draws: \<open>None\<close> is a timer that is
  never cleared.
\<close>

record progress_timer =
  tmProgress :: real
  tmRunning :: bool

record progress_ui =
  uploadProgressShown :: bool
  fileUploadAreaShown :: bool
  analysisResultsShown :: bool
  progressFillWidth :: "real option"
  progressText :: string
  timers :: "progress_timer list"

definition showUploadProgress :: "progress_ui \<Rightarrow> progress_ui" where
  "showUploadProgress s =
     s\<lparr>uploadProgressShown := True, fileUploadAreaShown := False,
       timers := timers s @ [\<lparr>tmProgress = 0, tmRunning = True\<rparr>]\<rparr>"

text \<open>The callback of timer \<open>i\<close> with the draw \<open>r\<close>; \<open>None\<close> when no such timer runs
  (a cleared timer never fires again) or the draw is not one \<open>Math.random\<close> returns.\<close>

definition progress_tick :: "nat \<Rightarrow> real \<Rightarrow> progress_ui \<Rightarrow> progress_ui option" where
  "progress_tick i r s =
     (if i < length (timers s) \<and> tmRunning (timers s ! i) \<and> 0 \<le> r \<and> r < 1 then
        (let p = tmProgress (timers s ! i) + r * 15
         in if 100 \<le> p then
              Some (s\<lparr>timers := (timers s)[i := \<lparr>tmProgress = 100, tmRunning = False\<rparr>],
                      progressText := ''Processing dataset...'', progressFillWidth := Some 100\<rparr>)
            else Some (s\<lparr>timers := (timers s)[i := \<lparr>tmProgress = p, tmRunning = True\<rparr>],
                         progressFillWidth := Some p\<rparr>))
      else None)"

definition hideUploadProgress :: "progress_ui \<Rightarrow> progress_ui" where
  "hideUploadProgress s = s\<lparr>uploadProgressShown := False, fileUploadAreaShown := True\<rparr>"

definition showAnalysisResults :: "progress_ui \<Rightarrow> progress_ui" where
  "showAnalysisResults s = s\<lparr>analysisResultsShown := True\<rparr>"

datatype progress_event = ShowProgress | Tick nat real | HideProgress | ShowResults

definition progress_step :: "progress_ui \<Rightarrow> progress_event \<Rightarrow> progress_ui option" where
  "progress_step s e =
     (case e of
        ShowProgress \<Rightarrow> Some (showUploadProgress s)
      | Tick i r \<Rightarrow> progress_tick i r s
      | HideProgress \<Rightarrow> Some (hideUploadProgress s)
      | ShowResults \<Rightarrow> Some (showAnalysisResults s))"

text \<open>The page as loaded: the box hidden, the drop area shown, no timer; the box's first text
  comes from the page's markup.\<close>

definition progress_init :: "string \<Rightarrow> progress_ui" where
  "progress_init boxText =
     \<lparr>uploadProgressShown = False, fileUploadAreaShown = True, analysisResultsShown = False,
      progressFillWidth = None, progressText = boxText, timers = []\<rparr>"

inductive progress_reachable :: "string \<Rightarrow> progress_ui \<Rightarrow> bool" for boxText where
  init: "progress_reachable boxText (progress_init boxText)"
| step: "progress_reachable boxText s \<Longrightarrow> progress_step s e = Some s' \<Longrightarrow> progress_reachable boxText s'"

fun progress_run :: "progress_ui \<Rightarrow> progress_event list \<Rightarrow> progress_ui option" where
  "progress_run s [] = Some s"
| "progress_run s (e # es) = (case progress_step s e of None \<Rightarrow> None | Some s' \<Rightarrow> progress_run s' es)"

text \<open>The ticks of timer \<open>i\<close> from the \<open>k\<close>-th draw on, until it clears itself: the number
  of draws used and the state at that moment.\<close>

partial_function (option) run_timer ::
  "(nat \<Rightarrow> real) \<Rightarrow> nat \<Rightarrow> nat \<Rightarrow> progress_ui \<Rightarrow> (nat \<times> progress_ui) option" where
  "run_timer rnd i k s =
     (if i < length (timers s) \<and> tmRunning (timers s ! i) then
        (case progress_tick i (rnd k) s of None \<Rightarrow> None | Some s' \<Rightarrow> run_timer rnd i (Suc k) s')
      else Some (k, s))"

text \<open>What every reachable state satisfies: each timer's counter is in \<open>[0, 100]\<close>, below
  100 while it runs and 100 once cleared, the bar is at most full, and once a timer has
  cleared itself the text is \<open>Processing dataset...\<close>.\<close>

definition progress_inv :: "progress_ui \<Rightarrow> bool" where
  "progress_inv s \<longleftrightarrow>
     (\<forall>t \<in> set (timers s). 0 \<le> tmProgress t \<and> (if tmRunning t then tmProgress t < 100 else tmProgress t = 100)) \<and>
     (case progressFillWidth s of None \<Rightarrow> True | Some w \<Rightarrow> 0 \<le> w \<and> w \<le> 100) \<and>
     (list_all tmRunning (timers s) \<or> progressText s = ''Processing dataset...'')"

section \<open>Lemmas\<close>

lemma progress_tick_inv:
  assumes "progress_inv s" and "progress_tick i r s = Some s'"
  shows "progress_inv s'"
proof -
  have i: "i < length (timers s)" "tmRunning (timers s ! i)" "0 \<le> r"
    using assms(2) by (auto simp: progress_tick_def split: if_splits)
  have "0 \<le> tmProgress (timers s ! i)" using assms(1) i(1) nth_mem by (auto simp: progress_inv_def)
  with i have "0 \<le> tmProgress (timers s ! i) + r * 15" by simp
  with assms i show ?thesis
    by (auto simp: progress_tick_def progress_inv_def Let_def list_all_iff
             dest!: set_update_subset_insert [THEN subsetD] split: if_splits)
qed

lemma progress_step_inv:
  assumes "progress_inv s" and "progress_step s e = Some s'"
  shows "progress_inv s'"
proof (cases e)
  case (Tick i r)
  then show ?thesis using assms progress_tick_inv [of s i r s'] by (simp add: progress_step_def)
qed (use assms in \<open>auto simp: progress_step_def showUploadProgress_def hideUploadProgress_def
                                  showAnalysisResults_def progress_inv_def\<close>)

lemma progress_reachable_inv: "progress_reachable b s \<Longrightarrow> progress_inv s"
proof (induction rule: progress_reachable.induct)
  case init
  show ?case by (simp add: progress_init_def progress_inv_def)
next
  case (step s e s')
  from step.IH step.hyps(2) show ?case by (rule progress_step_inv)
qed

lemma progress_run_reachable:
  "progress_reachable b s \<Longrightarrow> progress_run s es = Some s' \<Longrightarrow> progress_reachable b s'"
proof (induction es arbitrary: s)
  case Nil
  then show ?case by simp
next
  case (Cons e es)
  then obtain s1 where "progress_step s e = Some s1" and "progress_run s1 es = Some s'"
    by (auto split: option.splits)
  then show ?case using Cons.IH progress_reachable.step [OF Cons.prems(1)] by blast
qed


lemma timer_measure_pos:
  fixes eps p :: real
  assumes "0 < eps" and "p < 100"
  shows "Suc 0 \<le> nat \<lceil>(100 - p) / (15 * eps)\<rceil>"
proof -
  have "0 < (100 - p) / (15 * eps)" using assms by simp
  then show ?thesis by linarith
qed

lemma timer_measure_decreases:
  fixes eps p r :: real
  assumes "0 < eps" and "eps \<le> r" and "p + r * 15 < 100"
  shows "nat \<lceil>(100 - (p + r * 15)) / (15 * eps)\<rceil> < nat \<lceil>(100 - p) / (15 * eps)\<rceil>"
proof -
  have "(100 - (p + r * 15)) / (15 * eps) = (100 - p) / (15 * eps) - r / eps"
    using assms(1) by (simp add: field_simps)
  moreover have "1 \<le> r / eps" using assms(1,2) by simp
  ultimately have le: "(100 - (p + r * 15)) / (15 * eps) \<le> (100 - p) / (15 * eps) - 1" by linarith
  have pos: "0 < (100 - (p + r * 15)) / (15 * eps)" using assms by simp
  have "\<lceil>(100 - (p + r * 15)) / (15 * eps)\<rceil> \<le> \<lceil>(100 - p) / (15 * eps) - 1\<rceil>"
    using le by (rule ceiling_mono)
  then have "\<lceil>(100 - (p + r * 15)) / (15 * eps)\<rceil> < \<lceil>(100 - p) / (15 * eps)\<rceil>" by simp
  with pos show ?thesis by linarith
qed

lemma progress_tick_running:
  assumes "i < length (timers s)" and "tmRunning (timers s ! i)" and "0 \<le> r" and "r < 1"
  shows "progress_tick i r s =
           Some (if 100 \<le> tmProgress (timers s ! i) + r * 15
                 then s\<lparr>timers := (timers s)[i := \<lparr>tmProgress = 100, tmRunning = False\<rparr>],
                        progressText := ''Processing dataset...'', progressFillWidth := Some 100\<rparr>
                 else s\<lparr>timers := (timers s)[i := \<lparr>tmProgress = tmProgress (timers s ! i) + r * 15, tmRunning = True\<rparr>],
                        progressFillWidth := Some (tmProgress (timers s ! i) + r * 15)\<rparr>)"
  using assms by (simp add: progress_tick_def Let_def)

lemma run_timer_ends:
  assumes eps: "0 < eps" and rnd: "\<forall>k. eps \<le> rnd k \<and> rnd k < 1"
  shows "i < length (timers s) \<Longrightarrow> tmRunning (timers s ! i) \<Longrightarrow> 0 \<le> tmProgress (timers s ! i) \<Longrightarrow>
    tmProgress (timers s ! i) < 100 \<Longrightarrow>
    \<exists>n s'. run_timer rnd i k s = Some (n, s') \<and>
      n \<le> k + nat \<lceil>(100 - tmProgress (timers s ! i)) / (15 * eps)\<rceil> \<and>
      i < length (timers s') \<and> \<not> tmRunning (timers s' ! i) \<and>
      progressText s' = ''Processing dataset...'' \<and> progressFillWidth s' = Some 100"
proof (induction "nat \<lceil>(100 - tmProgress (timers s ! i)) / (15 * eps)\<rceil>" arbitrary: s k rule: less_induct)
  case less
  let ?p = "tmProgress (timers s ! i)" and ?r = "rnd k"
  have r: "eps \<le> ?r" "0 \<le> ?r" "?r < 1" using rnd eps less_le_trans [of 0 eps "rnd k"] by auto
  have m: "Suc 0 \<le> nat \<lceil>(100 - ?p) / (15 * eps)\<rceil>" using timer_measure_pos eps less.prems(4) .
  show ?case
  proof (cases "100 \<le> ?p + ?r * 15")
    case True
    let ?s1 = "s\<lparr>timers := (timers s)[i := \<lparr>tmProgress = 100, tmRunning = False\<rparr>],
                 progressText := ''Processing dataset...'', progressFillWidth := Some 100\<rparr>"
    have "run_timer rnd i k s = Some (Suc k, ?s1)"
      using less.prems True r progress_tick_running [of i s ?r]
      by (simp add: run_timer.simps [of rnd i k s] run_timer.simps [of rnd i "Suc k" ?s1])
    then show ?thesis using m less.prems(1) by auto
  next
    case False
    let ?q = "?p + ?r * 15"
    let ?s1 = "s\<lparr>timers := (timers s)[i := \<lparr>tmProgress = ?q, tmRunning = True\<rparr>], progressFillWidth := Some ?q\<rparr>"
    have step: "run_timer rnd i k s = run_timer rnd i (Suc k) ?s1"
      using less.prems False r progress_tick_running [of i s ?r]
      by (simp add: run_timer.simps [of rnd i k s])
    have dec: "nat \<lceil>(100 - ?q) / (15 * eps)\<rceil> < nat \<lceil>(100 - ?p) / (15 * eps)\<rceil>"
      using timer_measure_decreases eps r(1) False by simp
    have "0 \<le> ?q" using less.prems(3) r(2) by simp
    then obtain n s' where "run_timer rnd i (Suc k) ?s1 = Some (n, s')"
        and n: "n \<le> Suc k + nat \<lceil>(100 - ?q) / (15 * eps)\<rceil>" and "i < length (timers s')"
        and "\<not> tmRunning (timers s' ! i)" and "progressText s' = ''Processing dataset...''"
        and "progressFillWidth s' = Some 100"
      using less.hyps [of ?s1 "Suc k"] less.prems(1) dec False by auto
    moreover have "n \<le> k + nat \<lceil>(100 - ?p) / (15 * eps)\<rceil>" using n dec by linarith
    ultimately show ?thesis using step by auto
  qed
qed

text \<open>Draws of 0, which \<open>Math.random\<close> may return, never move the counter: the loop does not
  return.\<close>

lemma run_timer_zero_draws:
  assumes ret: "run_timer rnd i k s = Some r" and zero: "\<forall>k. rnd k = 0"
  shows "\<not> (i < length (timers s) \<and> tmRunning (timers s ! i) \<and> tmProgress (timers s ! i) < 100)"
proof -
  have "(\<forall>k. rnd k = 0) \<longrightarrow>
          \<not> (i < length (timers s) \<and> tmRunning (timers s ! i) \<and> tmProgress (timers s ! i) < 100)"
  proof (rule run_timer.raw_induct [where P = "\<lambda>rnd i k s r. (\<forall>k. rnd k = 0) \<longrightarrow>
          \<not> (i < length (timers s) \<and> tmRunning (timers s ! i) \<and> tmProgress (timers s ! i) < 100)",
       OF _ ret])
    fix f rnd i k s r
    assume IH: "\<And>rnd i k s r. f rnd i k s = Some r \<Longrightarrow> (\<forall>k. rnd k = 0) \<longrightarrow>
          \<not> (i < length (timers s) \<and> tmRunning (timers s ! i) \<and> tmProgress (timers s ! i) < 100)"
      and eq: "(if i < length (timers s) \<and> tmRunning (timers s ! i) then
          (case progress_tick i (rnd k) s of None \<Rightarrow> None | Some s' \<Rightarrow> f rnd i (Suc k) s')
        else Some (k, s)) = Some r"
    show "(\<forall>k. rnd k = 0) \<longrightarrow>
          \<not> (i < length (timers s) \<and> tmRunning (timers s ! i) \<and> tmProgress (timers s ! i) < 100)"
    proof (intro impI notI)
      assume z: "\<forall>k. rnd k = 0"
        and run: "i < length (timers s) \<and> tmRunning (timers s ! i) \<and> tmProgress (timers s ! i) < 100"
      let ?s1 = "s\<lparr>timers := (timers s)[i := \<lparr>tmProgress = tmProgress (timers s ! i), tmRunning = True\<rparr>],
                   progressFillWidth := Some (tmProgress (timers s ! i))\<rparr>"
      have "f rnd i (Suc k) ?s1 = Some r" using eq z run by (simp add: progress_tick_def Let_def)
      then show False using IH [of rnd i "Suc k" ?s1 r] z run by simp
    qed
  qed
  with zero show ?thesis by blast
qed

text \<open>\<open>hideUploadProgress\<close> does not clear the timer: a tick after hiding the box is the
  tick before it, so the bar of a finished upload goes on moving behind the hidden box.\<close>

lemma hide_tick_commute:
  "progress_tick i r (hideUploadProgress s) = map_option hideUploadProgress (progress_tick i r s)"
  by (simp add: progress_tick_def hideUploadProgress_def Let_def)

lemma progress_tick_frame:
  assumes "progress_tick i r s = Some s'"
  shows "length (timers s') = length (timers s) \<and> (\<forall>j. j \<noteq> i \<longrightarrow> timers s' ! j = timers s ! j) \<and>
         uploadProgressShown s' = uploadProgressShown s \<and> fileUploadAreaShown s' = fileUploadAreaShown s \<and>
         analysisResultsShown s' = analysisResultsShown s"
  using assms by (auto simp: progress_tick_def Let_def split: if_splits)

text \<open>The loop of one timer is a run of its ticks: the ticks with the draws it used change
  that timer only.\<close>

lemma run_timer_ticks:
  assumes ret: "run_timer rnd i k s = Some (n, s')"
  shows "progress_run s (map (\<lambda>j. Tick i (rnd j)) [k..<n]) = Some s' \<and>
         length (timers s') = length (timers s) \<and> (\<forall>j. j \<noteq> i \<longrightarrow> timers s' ! j = timers s ! j) \<and>
         uploadProgressShown s' = uploadProgressShown s"
proof -
  let ?P = "\<lambda>rnd i k s r. case r of (n, s') \<Rightarrow>
         k \<le> n \<and> progress_run s (map (\<lambda>j. Tick i (rnd j)) [k..<n]) = Some s' \<and>
         length (timers s') = length (timers s) \<and> (\<forall>j. j \<noteq> i \<longrightarrow> timers s' ! j = timers s ! j) \<and>
         uploadProgressShown s' = uploadProgressShown s"
  have "?P rnd i k s (n, s')"
  proof (rule run_timer.raw_induct [where P = ?P, OF _ ret])
    fix f rnd i k s r
    assume IH: "\<And>rnd i k s r. f rnd i k s = Some r \<Longrightarrow> ?P rnd i k s r"
      and eq: "(if i < length (timers s) \<and> tmRunning (timers s ! i) then
          (case progress_tick i (rnd k) s of None \<Rightarrow> None | Some s' \<Rightarrow> f rnd i (Suc k) s')
        else Some (k, s)) = Some r"
    show "?P rnd i k s r"
    proof (cases "i < length (timers s) \<and> tmRunning (timers s ! i)")
      case False
      with eq show ?thesis by auto
    next
      case True
      with eq obtain s1 where t: "progress_tick i (rnd k) s = Some s1" and f: "f rnd i (Suc k) s1 = Some r"
        by (auto split: option.splits)
      obtain n s' where r: "r = (n, s')" by (cases r)
      have h: "Suc k \<le> n" "progress_run s1 (map (\<lambda>j. Tick i (rnd j)) [Suc k..<n]) = Some s'"
        "length (timers s') = length (timers s1)" "\<forall>j. j \<noteq> i \<longrightarrow> timers s' ! j = timers s1 ! j"
        "uploadProgressShown s' = uploadProgressShown s1"
        using IH [OF f] r by auto
      have "[k..<n] = k # [Suc k..<n]" using h(1) by (simp add: upt_conv_Cons)
      then show ?thesis using h t progress_tick_frame [OF t] r by (simp add: progress_step_def)
    qed
  qed
  then show ?thesis by simp
qed

lemma progress_run_inv:
  "progress_inv s \<Longrightarrow> progress_run s es = Some s' \<Longrightarrow> progress_inv s'"
proof (induction es arbitrary: s)
  case Nil
  then show ?case by simp
next
  case (Cons e es)
  then obtain s1 where "progress_step s e = Some s1" and "progress_run s1 es = Some s'"
    by (auto split: option.splits)
  then show ?case using Cons.IH progress_step_inv [OF Cons.prems(1)] by blast
qed

lemma progress_run_append:
  "progress_run s es1 = Some s1 \<Longrightarrow> progress_run s1 es2 = Some s2 \<Longrightarrow> progress_run s (es1 @ es2) = Some s2"
  by (induction es1 arbitrary: s) (auto split: option.splits)

lemma all_timers_clear:
  fixes rnd :: "nat \<Rightarrow> real"
  assumes eps: "0 < eps" and rnd: "\<forall>k. eps \<le> rnd k \<and> rnd k < 1"
  shows "progress_inv s \<Longrightarrow>
    \<exists>es s'. (\<forall>e \<in> set es. \<exists>i k. e = Tick i (rnd k)) \<and> progress_run s es = Some s' \<and>
      length (timers s') = length (timers s) \<and> (\<forall>t \<in> set (timers s'). \<not> tmRunning t) \<and>
      uploadProgressShown s' = uploadProgressShown s"
proof (induction "length (filter tmRunning (timers s))" arbitrary: s rule: less_induct)
  case less
  show ?case
  proof (cases "\<exists>t \<in> set (timers s). tmRunning t")
    case False
    then show ?thesis by (intro exI [of _ "[]"] exI [of _ s]) simp
  next
    case True
    then obtain i where i: "i < length (timers s)" "tmRunning (timers s ! i)"
      by (auto simp: in_set_conv_nth)
    have p: "0 \<le> tmProgress (timers s ! i)" "tmProgress (timers s ! i) < 100"
      using less.prems i nth_mem by (fastforce simp: progress_inv_def)+
    obtain n s1 where rt: "run_timer rnd i 0 s = Some (n, s1)" and stop: "\<not> tmRunning (timers s1 ! i)"
      using run_timer_ends [OF eps rnd i p, of 0] by blast
    note tk = run_timer_ticks [OF rt]
    have upd: "timers s1 = (timers s)[i := timers s1 ! i]"
      using tk i by (intro nth_equalityI) (auto simp: nth_list_update)
    have dec: "length (filter tmRunning (timers s1)) < length (filter tmRunning (timers s))"
      using length_filter_update_less [OF i(1), of tmRunning "timers s1 ! i"] i(2) stop upd by simp
    have inv1: "progress_inv s1" using progress_run_inv [OF less.prems] tk by blast
    obtain es s' where es: "\<forall>e \<in> set es. \<exists>i k. e = Tick i (rnd k)" and r2: "progress_run s1 es = Some s'"
      and l: "length (timers s') = length (timers s1)" and none: "\<forall>t \<in> set (timers s'). \<not> tmRunning t"
      and sh: "uploadProgressShown s' = uploadProgressShown s1"
      using less.hyps [OF dec inv1] by blast
    show ?thesis
    proof (intro exI conjI)
      show "progress_run s (map (\<lambda>j. Tick i (rnd j)) [0..<n] @ es) = Some s'"
        using progress_run_append tk r2 by blast
      show "\<forall>e \<in> set (map (\<lambda>j. Tick i (rnd j)) [0..<n] @ es). \<exists>i k. e = Tick i (rnd k)"
        using es by auto
    qed (use l tk none sh in auto)
  qed
qed

section \<open>Properties\<close>

text \<open>C31: the timer of the progress bar stops: when every draw of Math.random is at least
  some eps > 0, a running timer of a reachable state clears itself after at most
  ceil(100 / (15 eps)) ticks, leaving the bar full and the text Processing dataset....\<close>

theorem timer_terminates:
  assumes "progress_inv s" and "i < length (timers s)" and "tmRunning (timers s ! i)"
    and "0 < eps" and "\<forall>k. eps \<le> rnd k \<and> rnd k < 1"
  shows "\<exists>n s'. run_timer rnd i 0 s = Some (n, s') \<and> n \<le> nat \<lceil>100 / (15 * eps)\<rceil> \<and>
           \<not> tmRunning (timers s' ! i) \<and> progressText s' = ''Processing dataset...'' \<and>
           progressFillWidth s' = Some 100"
proof -
  let ?p = "tmProgress (timers s ! i)"
  have p: "0 \<le> ?p" "?p < 100" using assms(1-3) nth_mem by (fastforce simp: progress_inv_def)+
  have "(100 - ?p) / (15 * eps) \<le> 100 / (15 * eps)"
    using p(1) assms(4) by (intro divide_right_mono) auto
  then have m: "nat \<lceil>(100 - ?p) / (15 * eps)\<rceil> \<le> nat \<lceil>100 / (15 * eps)\<rceil>"
    by (intro nat_mono ceiling_mono)
  obtain n s' where "run_timer rnd i 0 s = Some (n, s')"
      and n: "n \<le> 0 + nat \<lceil>(100 - ?p) / (15 * eps)\<rceil>" and "\<not> tmRunning (timers s' ! i)"
      and "progressText s' = ''Processing dataset...''" and "progressFillWidth s' = Some 100"
    using run_timer_ends [OF assms(4,5) assms(2,3) p, of 0] by blast
  moreover have "n \<le> nat \<lceil>100 / (15 * eps)\<rceil>" using m n by linarith
  ultimately show ?thesis by blast
qed

theorem timer_terminates_witness:
  "\<exists>n s'. run_timer (\<lambda>_. 1 / 2) 0 0 (showUploadProgress (progress_init ''Uploading...'')) = Some (n, s') \<and>
     n \<le> 14 \<and> progressText s' = ''Processing dataset...''"
proof -
  have "nat \<lceil>100 / (15 * (1 / 2 :: real))\<rceil> = 14" by simp
  then show ?thesis
    using timer_terminates [of "showUploadProgress (progress_init ''Uploading...'')" 0 "1 / 2" "\<lambda>_. 1 / 2"]
    by (simp add: showUploadProgress_def progress_init_def progress_inv_def) blast
qed

text \<open>C32: in every state the handlers and timers reach, under any interleaving of the ticks of
  several uploads, the bar's width is between 0 and 100 percent and every timer's counter
  is in [0, 100].\<close>

theorem progress_bounds:
  assumes "progress_reachable b s"
  shows "(case progressFillWidth s of None \<Rightarrow> True | Some w \<Rightarrow> 0 \<le> w \<and> w \<le> 100) \<and>
         (\<forall>t \<in> set (timers s). 0 \<le> tmProgress t \<and> tmProgress t \<le> 100)"
  using progress_reachable_inv [OF assms] by (fastforce simp: progress_inv_def split: if_splits)

theorem progress_bounds_witness:
  "progressFillWidth \<lparr>uploadProgressShown = True, fileUploadAreaShown = False, analysisResultsShown = False,
      progressFillWidth = Some (15 / 2), progressText = ''Uploading...'', timers = [\<lparr>tmProgress = 15 / 2, tmRunning = True\<rparr>]\<rparr> = Some (15 / 2) \<and>
   (0::real) \<le> 15 / 2 \<and> (15 / 2 :: real) \<le> 100"
proof -
  let ?s = "\<lparr>uploadProgressShown = True, fileUploadAreaShown = False, analysisResultsShown = False,
      progressFillWidth = Some (15 / 2 :: real), progressText = ''Uploading...'', timers = [\<lparr>tmProgress = 15 / 2 :: real, tmRunning = True\<rparr>]\<rparr>"
  have r1: "progress_reachable ''Uploading...'' (showUploadProgress (progress_init ''Uploading...''))"
    by (rule progress_reachable.step [OF progress_reachable.init, where e = ShowProgress]) (simp add: progress_step_def)
  have t: "progress_step (showUploadProgress (progress_init ''Uploading...'')) (Tick 0 (1 / 2)) = Some ?s"
    by (simp add: progress_step_def progress_tick_def showUploadProgress_def progress_init_def Let_def)
  have "progress_reachable ''Uploading...'' ?s" using progress_reachable.step [OF r1 t] .
  then show ?thesis using progress_bounds [of "''Uploading...''" ?s] by simp
qed

text \<open>C33: the progress box is not reset for a new upload: once the timer of an earlier upload
  has cleared itself, showUploadProgress shows the box with the text Processing dataset...
  while the new timer starts from 0.\<close>

theorem stale_progress_text:
  assumes "progress_reachable b s" and "\<not> list_all tmRunning (timers s)"
  shows "uploadProgressShown (showUploadProgress s) \<and>
         progressText (showUploadProgress s) = ''Processing dataset...'' \<and>
         last (timers (showUploadProgress s)) = \<lparr>tmProgress = 0, tmRunning = True\<rparr>"
  using progress_reachable_inv [OF assms(1)] assms(2)
  by (simp add: progress_inv_def showUploadProgress_def)

theorem stale_progress_text_witness:
  "\<exists>s. progress_run (progress_init ''Uploading...'') (ShowProgress # replicate 7 (Tick 0 (99 / 100))) = Some s \<and>
       progressText (showUploadProgress s) = ''Processing dataset...''"
proof -
  obtain s where run: "progress_run (progress_init ''Uploading...'') (ShowProgress # replicate 7 (Tick 0 (99 / 100))) = Some s"
      and stop: "\<not> list_all tmRunning (timers s)"
    by (simp add: progress_step_def progress_tick_def showUploadProgress_def progress_init_def Let_def numeral_eq_Suc)
  have "progress_reachable ''Uploading...'' s"
    using progress_run_reachable [OF progress_reachable.init run] .
  then show ?thesis using stale_progress_text [of "''Uploading...''" s] stop run by blast
qed


text \<open>C37: every running timer can finish: from any reachable state, when each draw is at least
  some eps > 0, ticks of the running timers with such draws stop all of them without
  changing whether the box is shown, and the text is then Processing dataset....\<close>

theorem timers_all_clear_live:
  fixes rnd :: "nat \<Rightarrow> real"
  assumes "progress_reachable b s" and "0 < eps" and "\<forall>k. eps \<le> rnd k \<and> rnd k < 1"
  shows "\<exists>es s'. (\<forall>e \<in> set es. \<exists>i k. e = Tick i (rnd k)) \<and> progress_run s es = Some s' \<and>
           (\<forall>t \<in> set (timers s'). \<not> tmRunning t) \<and> uploadProgressShown s' = uploadProgressShown s \<and>
           (timers s \<noteq> [] \<longrightarrow> progressText s' = ''Processing dataset...'')"
proof -
  have inv: "progress_inv s" using progress_reachable_inv [OF assms(1)] .
  obtain es s' where es: "\<forall>e \<in> set es. \<exists>i k. e = Tick i (rnd k)" and r: "progress_run s es = Some s'"
    and l: "length (timers s') = length (timers s)" and none: "\<forall>t \<in> set (timers s'). \<not> tmRunning t"
    and sh: "uploadProgressShown s' = uploadProgressShown s"
    using all_timers_clear [OF assms(2,3) inv] by blast
  have "timers s \<noteq> [] \<longrightarrow> progressText s' = ''Processing dataset...''"
  proof
    assume "timers s \<noteq> []"
    with l none have "\<not> list_all tmRunning (timers s')" by (cases "timers s'") auto
    with progress_run_inv [OF inv r] show "progressText s' = ''Processing dataset...''"
      by (simp add: progress_inv_def)
  qed
  with es r none sh show ?thesis by blast
qed

theorem timers_all_clear_live_witness:
  "\<exists>es s'. (\<forall>e \<in> set es. \<exists>i k. e = Tick i ((\<lambda>_. 1 / 2) k)) \<and>
     progress_run (the (progress_run (progress_init ''Uploading...'') [ShowProgress, ShowProgress])) es = Some s' \<and>
     (\<forall>t \<in> set (timers s'). \<not> tmRunning t) \<and> progressText s' = ''Processing dataset...''"
proof -
  let ?s = "the (progress_run (progress_init ''Uploading...'') [ShowProgress, ShowProgress])"
  have r: "progress_run (progress_init ''Uploading...'') [ShowProgress, ShowProgress] = Some ?s"
    by (simp add: progress_step_def showUploadProgress_def progress_init_def)
  have reach: "progress_reachable ''Uploading...'' ?s"
    using progress_run_reachable [OF progress_reachable.init r] .
  have ne: "timers ?s \<noteq> []"
    by (simp add: progress_step_def showUploadProgress_def progress_init_def)
  show ?thesis
    using timers_all_clear_live [OF reach, of "1 / 2" "\<lambda>_. 1 / 2"] ne by auto
qed

end
