(* ===== verification/Dashboard.thy ===== *)
theory Dashboard
  imports Upload Navigation Session Progress
begin

text \<open>
  The page as a whole: the state of the components side by side, the three
  \<open>DOMContentLoaded\<close> listeners in the order the script registers them (the profile menu
  items, lines 45--77; the anchor links, 80--97; the initialisation, 157--174), the touch
  listeners and \<open>handleSwipe\<close> (128--154) and \<open>showLoading\<close>/\<open>hideLoading\<close> (100--113),
  which no code calls. A listener that throws stops, and the browser runs the next one:
  the initialisation calls \<open>loadUserName\<close>, \<open>initializeFileUpload\<close>,
  \<open>initializeNavigation\<close> and \<open>initializeTransactionForm\<close> in this order, so an exception
  of the first skips the other three. Registering a listener is a flag of the state; the
  events such a listener handles are those of the component theories. The only effect of
  \<open>handleSwipe\<close> is its log line, which is therefore modelled as the list \<open>swipeLog\<close>.
  \<open>querySelector(targetId)\<close> of an anchor's \<open>href\<close> throws a \<open>SyntaxError\<close> unless the
  text after \<open>#\<close> is a CSS identifier; the model takes identifiers without escapes.
\<close>

record dashboard =
  dSession :: session_ui
  dUpload :: upload_state
  dProgress :: progress_ui
  dNav :: nav_state
  menuItemHandlers :: bool
  anchorHandlers :: bool
  uploadHandlers :: bool
  scrolledTo :: "string option"
  loadingShown :: bool
  touchStartY :: real
  touchEndY :: real
  swipeLog :: "string list"

text \<open>The page as the script finds it: the storage the browser grants (or \<open>None\<close>), the
  modals and the menu closed, every component in its initial state, no listener of the
  \<open>DOMContentLoaded\<close> listeners registered yet. The box's first text and the pages come
  from the markup.\<close>

definition session_loaded :: "local_storage option \<Rightarrow> session_ui" where
  "session_loaded st =
     \<lparr>storage = st, userNameText = [], profileMenuActive = False, logoutModalActive = False,
      profileModalActive = False, settingsModalActive = False, profileFullName = [], profileEmail = [],
      profileMobile = [], location = None, dtInputValue = [], sessionAlerts = []\<rparr>"

definition page_loaded :: "local_storage option \<Rightarrow> string \<Rightarrow> nav_state \<Rightarrow> dashboard" where
  "page_loaded st boxText nav =
     \<lparr>dSession = session_loaded st, dUpload = upload_init, dProgress = progress_init boxText, dNav = nav,
      menuItemHandlers = False, anchorHandlers = False, uploadHandlers = False, scrolledTo = None,
      loadingShown = False, touchStartY = 0, touchEndY = 0, swipeLog = []\<rparr>"

definition initializeFileUpload :: "dashboard \<Rightarrow> dashboard" where
  "initializeFileUpload d = d\<lparr>uploadHandlers := True\<rparr>"

definition initializeNavigation :: "nav_env \<Rightarrow> dashboard \<Rightarrow> dashboard" where
  "initializeNavigation env d = d\<lparr>dNav := nav_state_of (showPage env ''welcome'' (dNav d))\<rparr>"

text \<open>The initialisation listener (lines 157--174).\<close>

definition init_listener ::
  "nav_env \<Rightarrow> string option \<Rightarrow> local_dt \<Rightarrow> dashboard \<Rightarrow> (ui_error \<times> dashboard) + dashboard" where
  "init_listener env nameFromUrl now d =
     (case loadUserName nameFromUrl (dSession d) of
        Inl (e, s1) \<Rightarrow> Inl (e, d\<lparr>dSession := s1\<rparr>)
      | Inr s1 \<Rightarrow>
          (let d1 = initializeFileUpload (d\<lparr>dSession := s1\<rparr>);
               d2 = initializeNavigation env d1
           in Inr (d2\<lparr>dSession := initializeTransactionForm now (dSession d2)\<rparr>)))"

text \<open>\<open>DOMContentLoaded\<close>: the menu-item listener and the anchor listener only register click
  handlers; then the initialisation runs. The result is the page and the exception that
  escaped, if one did.\<close>

definition domContentLoaded ::
  "nav_env \<Rightarrow> string option \<Rightarrow> local_dt \<Rightarrow> dashboard \<Rightarrow> dashboard \<times> ui_error option" where
  "domContentLoaded env nameFromUrl now d =
     (case init_listener env nameFromUrl now (d\<lparr>menuItemHandlers := True, anchorHandlers := True\<rparr>) of
        Inl (e, d') \<Rightarrow> (d', Some e)
      | Inr d' \<Rightarrow> (d', None))"

section \<open>Anchor links\<close>

definition css_name_start :: "char \<Rightarrow> bool" where
  "css_name_start c \<longleftrightarrow>
     (let n = (of_char c :: nat) in (97 \<le> n \<and> n \<le> 122) \<or> (65 \<le> n \<and> n \<le> 90) \<or> n = 95 \<or> 128 \<le> n)"

definition css_name_char :: "char \<Rightarrow> bool" where
  "css_name_char c \<longleftrightarrow> css_name_start c \<or> is_digit c \<or> c = CHR ''-''"

text \<open>A CSS identifier: a name start, or a hyphen followed by a name start or a hyphen; then
  name characters.\<close>

definition css_ident :: "string \<Rightarrow> bool" where
  "css_ident s =
     (case s of
        [] \<Rightarrow> False
      | c # cs \<Rightarrow>
          (css_name_start c \<or>
           (c = CHR ''-'' \<and> cs \<noteq> [] \<and> (css_name_start (hd cs) \<or> hd cs = CHR ''-''))) \<and>
          list_all css_name_char cs)"

text \<open>\<open>document.querySelector\<close> of an id selector: a \<open>SyntaxError\<close>, or whether an element
  of that id exists.\<close>

definition query_id_selector :: "(string \<Rightarrow> bool) \<Rightarrow> string \<Rightarrow> string + bool" where
  "query_id_selector hasId sel =
     (case sel of
        c # name \<Rightarrow> if c = CHR ''#'' \<and> css_ident name then Inr (hasId name) else Inl ''SyntaxError''
      | [] \<Rightarrow> Inl ''SyntaxError'')"

text \<open>The click handler of an anchor whose \<open>href\<close> starts with \<open>#\<close>.\<close>

definition anchor_click :: "(string \<Rightarrow> bool) \<Rightarrow> string \<Rightarrow> dashboard \<Rightarrow> (string \<times> dashboard) + dashboard" where
  "anchor_click hasId href d =
     (case query_id_selector hasId href of
        Inl err \<Rightarrow> Inl (err, d)
      | Inr True \<Rightarrow> Inr (d\<lparr>scrolledTo := Some href\<rparr>)
      | Inr False \<Rightarrow> Inr d)"

section \<open>Touch and loading\<close>

definition touchstart :: "real \<Rightarrow> dashboard \<Rightarrow> dashboard" where
  "touchstart y d = d\<lparr>touchStartY := y\<rparr>"

definition handleSwipe :: "dashboard \<Rightarrow> dashboard" where
  "handleSwipe d =
     (let swipeThreshold = 50; diff = touchStartY d - touchEndY d
      in if swipeThreshold < \<bar>diff\<bar>
         then d\<lparr>swipeLog := swipeLog d @ [if 0 < diff then ''Swiped up'' else ''Swiped down'']\<rparr>
         else d)"

definition touchend :: "real \<Rightarrow> dashboard \<Rightarrow> dashboard" where
  "touchend y d = handleSwipe (d\<lparr>touchEndY := y\<rparr>)"

definition showLoading :: "dashboard \<Rightarrow> dashboard" where
  "showLoading d = d\<lparr>loadingShown := True\<rparr>"

text \<open>\<open>hideLoading\<close> only logs.\<close>

definition hideLoading :: "dashboard \<Rightarrow> dashboard" where
  "hideLoading d = d"

section \<open>The page's events\<close>

text \<open>The progress box as \<open>processCSVFile\<close> drives it: a read that starts calls
  \<open>showUploadProgress\<close> (line 256); its \<open>onload\<close> calls \<open>hideUploadProgress\<close> and, when
  the text parses, \<open>showAnalysisResults\<close> (lines 265--271).\<close>

definition progress_of_upload :: "upload_event \<Rightarrow> upload_state \<Rightarrow> progress_ui \<Rightarrow> progress_ui" where
  "progress_of_upload e u p =
     (case e of
        FileSelect (Some f) \<Rightarrow> if fileType f = ''text/csv'' then showUploadProgress p else p
      | Drop files \<Rightarrow> if 0 < length files \<and> fileType (hd files) = ''text/csv'' then showUploadProgress p else p
      | LoadEnd i \<Rightarrow>
          (case parseCSV (pendingReads u ! i) of
             Inl err \<Rightarrow> hideUploadProgress p
           | Inr ds \<Rightarrow> showAnalysisResults (hideUploadProgress p))
      | _ \<Rightarrow> p)"

text \<open>An upload event reaches its handler only once \<open>initializeFileUpload\<close> has registered
  it; otherwise it changes nothing.\<close>

definition dash_upload :: "(string \<Rightarrow> bool) \<Rightarrow> upload_event \<Rightarrow> dashboard \<Rightarrow> dashboard option" where
  "dash_upload date_ok e d =
     (if \<not> uploadHandlers d then Some d
      else case upload_step date_ok (dUpload d) e of
             None \<Rightarrow> None
           | Some u' \<Rightarrow> Some (d\<lparr>dUpload := u', dProgress := progress_of_upload e (dUpload d) (dProgress d)\<rparr>))"

text \<open>A click on a profile menu item runs the item's handler only once the first
  \<open>DOMContentLoaded\<close> listener has registered it; the click bubbles to the document in
  either case.\<close>

definition dash_session :: "session_event \<Rightarrow> dashboard \<Rightarrow> dashboard" where
  "dash_session e d =
     d\<lparr>dSession := ui_state
         (case e of
            MenuClick item \<Rightarrow>
              if menuItemHandlers d then session_step e (dSession d) else Inr (document_click True False (dSession d))
          | _ \<Rightarrow> session_step e (dSession d))\<rparr>"

datatype dashboard_event =
    UploadEv upload_event
  | TimerTick nat real
  | SessionEv session_event
  | SidebarLink string
  | AnchorClick string
  | TouchStart real
  | TouchEnd real

text \<open>A step of the loaded page. An exception a handler throws is reported and the page keeps
  the state the handler reached; \<open>None\<close> is an event the browser cannot deliver (the load
  of a read that is not in flight, a tick of a cleared timer).\<close>

definition dashboard_step ::
  "(string \<Rightarrow> bool) \<Rightarrow> nav_env \<Rightarrow> (string \<Rightarrow> bool) \<Rightarrow> dashboard_event \<Rightarrow> dashboard \<Rightarrow> dashboard option" where
  "dashboard_step date_ok env hasId e d =
     (case e of
        UploadEv ue \<Rightarrow> dash_upload date_ok ue d
      | TimerTick i r \<Rightarrow> map_option (\<lambda>p. d\<lparr>dProgress := p\<rparr>) (progress_tick i r (dProgress d))
      | SessionEv se \<Rightarrow> Some (dash_session se d)
      | SidebarLink name \<Rightarrow> Some (d\<lparr>dNav := nav_state_of (showPage env name (dNav d))\<rparr>)
      | AnchorClick href \<Rightarrow>
          Some (if anchorHandlers d then (case anchor_click hasId href d of Inl (err, d') \<Rightarrow> d' | Inr d' \<Rightarrow> d') else d)
      | TouchStart y \<Rightarrow> Some (touchstart y d)
      | TouchEnd y \<Rightarrow> Some (touchend y d))"

inductive dash_reachable ::
  "(string \<Rightarrow> bool) \<Rightarrow> nav_env \<Rightarrow> (string \<Rightarrow> bool) \<Rightarrow> dashboard \<Rightarrow> dashboard \<Rightarrow> bool"
  for date_ok env hasId d0 where
  init: "dash_reachable date_ok env hasId d0 d0"
| step: "dash_reachable date_ok env hasId d0 d \<Longrightarrow> dashboard_step date_ok env hasId e d = Some d' \<Longrightarrow>
         dash_reachable date_ok env hasId d0 d'"

section \<open>Lemmas\<close>

lemma anchor_click_state:
  "(case anchor_click hasId href d of Inl (err, d') \<Rightarrow> d' | Inr d' \<Rightarrow> d') =
   d\<lparr>scrolledTo := (if query_id_selector hasId href = Inr True then Some href else scrolledTo d)\<rparr>"
  by (auto simp: anchor_click_def split: sum.splits bool.splits)

text \<open>The events after loading leave the upload and progress parts to the upload and timer
  events, and never register the upload handlers.\<close>

lemma dashboard_step_frame:
  assumes "dashboard_step date_ok env hasId e d = Some d'"
  shows "uploadHandlers d' = uploadHandlers d \<and>
         ((\<nexists>ue. e = UploadEv ue) \<longrightarrow> dUpload d' = dUpload d) \<and>
         ((\<nexists>ue. e = UploadEv ue) \<and> (\<nexists>i r. e = TimerTick i r) \<longrightarrow> dProgress d' = dProgress d)"
  using assms
  by (cases e) (auto simp: dashboard_step_def dash_upload_def dash_session_def anchor_click_state
                           touchstart_def touchend_def handleSwipe_def Let_def split: option.splits if_splits)

lemma dash_reachable_no_upload:
  assumes "dash_reachable date_ok env hasId d1 d" and "\<not> uploadHandlers d1"
  shows "\<not> uploadHandlers d \<and> dUpload d = dUpload d1"
  using assms(1)
proof (induction rule: dash_reachable.induct)
  case init
  show ?case using assms(2) by simp
next
  case (step d e d')
  have h: "uploadHandlers d' = uploadHandlers d" and
    f: "(\<nexists>ue. e = UploadEv ue) \<longrightarrow> dUpload d' = dUpload d"
    using dashboard_step_frame [OF step.hyps(2)] by blast+
  show ?case
  proof (cases "\<exists>ue. e = UploadEv ue")
    case True
    then obtain ue where "e = UploadEv ue" by blast
    with step.hyps(2) step.IH have "d' = d" by (simp add: dashboard_step_def dash_upload_def)
    with step.IH show ?thesis by simp
  next
    case False
    with step.IH h f show ?thesis by simp
  qed
qed

lemma loadUserName_ok:
  "storage s = Some st \<Longrightarrow>
   \<exists>s1. loadUserName nameFromUrl s = Inr s1 \<and> storage s1 \<noteq> None \<and> dtInputValue s1 = dtInputValue s"
  by (auto simp: loadUserName_def Let_def split: option.splits)

text \<open>\<open>querySelector('#')\<close> throws: an anchor with \<open>href="#"\<close>, the usual placeholder link,
  makes its click handler throw after \<open>preventDefault\<close>, so the click does nothing;
  \<open>#2024-report\<close> (an id that starts with a digit) throws as well.\<close>

lemma anchor_click_invalid:
  "anchor_click hasId ''#'' d = Inl (''SyntaxError'', d) \<and>
   anchor_click hasId ''#2024-report'' d = Inl (''SyntaxError'', d) \<and>
   anchor_click (\<lambda>n. n = ''results'') ''#results'' d = Inr (d\<lparr>scrolledTo := Some ''#results''\<rparr>)"
  by (simp add: anchor_click_def query_id_selector_def css_ident_def css_name_start_def css_name_char_def is_digit_def)

text \<open>A swipe is logged only when the finger moves more than 50 pixels: a move of exactly 50
  logs nothing.\<close>

lemma swipe_threshold:
  "swipeLog (touchend y (touchstart y0 d)) =
     swipeLog d @ (if 50 < \<bar>y0 - y\<bar> then [if y < y0 then ''Swiped up'' else ''Swiped down''] else [])"
  by (simp add: touchend_def touchstart_def handleSwipe_def Let_def)

text \<open>\<open>hideLoading\<close> does not hide the spinner \<open>showLoading\<close> put in place of the page.\<close>

lemma hideLoading_keeps_spinner: "loadingShown (hideLoading (showLoading d))"
  by (simp add: hideLoading_def showLoading_def)

section \<open>Properties\<close>

text \<open>C35: loading the page when the browser refuses access to localStorage: loadUserName
  throws, so the initialisation listener stops before it registers the upload handlers,
  shows the welcome page or fills the form's date; whatever the user does afterwards, no
  file is ever read and the upload state stays as loaded.\<close>

theorem storage_blocked_init:
  assumes "storage (dSession d0) = None" and "\<not> uploadHandlers d0"
    and "domContentLoaded env nameFromUrl now d0 = (d1, err)"
    and "dash_reachable date_ok env hasId d1 d"
  shows "err = Some StorageError \<and> dNav d1 = dNav d0 \<and> dtInputValue (dSession d1) = dtInputValue (dSession d0) \<and>
         \<not> uploadHandlers d \<and> dUpload d = dUpload d0"
proof -
  have d1: "d1 = d0\<lparr>menuItemHandlers := True, anchorHandlers := True\<rparr>" and e: "err = Some StorageError"
    using assms(1,3) by (auto simp: domContentLoaded_def init_listener_def loadUserName_def)
  then have "\<not> uploadHandlers d \<and> dUpload d = dUpload d1"
    using dash_reachable_no_upload [OF assms(4)] assms(2) by simp
  with d1 e show ?thesis by simp
qed

text \<open>C36: loading the page with localStorage available: no exception escapes, the three
  listeners have registered their handlers, the welcome page is shown, the history and
  metrics pages are untouched and the form holds the current local date and time.\<close>

theorem init_ok:
  assumes "storage (dSession d0) = Some st" and "domContentLoaded env nameFromUrl now d0 = (d1, err)"
  shows "err = None \<and> uploadHandlers d1 \<and> menuItemHandlers d1 \<and> anchorHandlers d1 \<and>
         currentPage (dNav d1) = WelcomePage \<and> histPage (dNav d1) = histPage (dNav d0) \<and>
         perfPage (dNav d1) = perfPage (dNav d0) \<and> dtInputValue (dSession d1) = dt_input_value now \<and>
         storage (dSession d1) \<noteq> None"
proof -
  obtain s1 where s1: "loadUserName nameFromUrl (dSession d0) = Inr s1" and "storage s1 \<noteq> None"
    using loadUserName_ok [OF assms(1)] by blast
  with assms(2) show ?thesis
    by (auto simp: domContentLoaded_def init_listener_def initializeFileUpload_def initializeNavigation_def
                   initializeTransactionForm_def showPage_def nav_state_of_def page_of_name_def Let_def)
qed

theorem storage_blocked_init_witness:
  "snd (domContentLoaded
      \<lparr>nNumStr = (\<lambda>_. ''0''), nHistory = LoadFailed, nMetrics = MetricsFailed, nRoc = RocFailed, nStats = StatsFailed,
       nTrend = TrendFailed, nChannel = ChannelFailed, nAmount = AmountFailed\<rparr>
      (Some ''Ana'') \<lparr>dt_year = 2024, dt_month = 1, dt_day = 5, dt_hour = 14, dt_minute = 30\<rparr>
      (page_loaded None ''Uploading...'' \<lparr>currentPage = WelcomePage,
         histPage = \<lparr>historyBody = [], liveCharts = [], histAlerts = [], downloads = []\<rparr>,
         perfPage = \<lparr>perfRows = [], cmCells = \<lparr>tnText = [], fpText = [], fnText = [], tpText = []\<rparr>, perfAlerts = []\<rparr>\<rparr>)) =
     Some StorageError \<and>
   \<not> uploadHandlers (fst (domContentLoaded
      \<lparr>nNumStr = (\<lambda>_. ''0''), nHistory = LoadFailed, nMetrics = MetricsFailed, nRoc = RocFailed, nStats = StatsFailed,
       nTrend = TrendFailed, nChannel = ChannelFailed, nAmount = AmountFailed\<rparr>
      (Some ''Ana'') \<lparr>dt_year = 2024, dt_month = 1, dt_day = 5, dt_hour = 14, dt_minute = 30\<rparr>
      (page_loaded None ''Uploading...'' \<lparr>currentPage = WelcomePage,
         histPage = \<lparr>historyBody = [], liveCharts = [], histAlerts = [], downloads = []\<rparr>,
         perfPage = \<lparr>perfRows = [], cmCells = \<lparr>tnText = [], fpText = [], fnText = [], tpText = []\<rparr>, perfAlerts = []\<rparr>\<rparr>)))"
proof -
  let ?env = "\<lparr>nNumStr = (\<lambda>_. ''0''), nHistory = LoadFailed, nMetrics = MetricsFailed, nRoc = RocFailed, nStats = StatsFailed,
       nTrend = TrendFailed, nChannel = ChannelFailed, nAmount = AmountFailed\<rparr>"
  let ?now = "\<lparr>dt_year = 2024, dt_month = 1, dt_day = 5, dt_hour = 14, dt_minute = 30\<rparr>"
  let ?d0 = "page_loaded None ''Uploading...'' \<lparr>currentPage = WelcomePage,
         histPage = \<lparr>historyBody = [], liveCharts = [], histAlerts = [], downloads = []\<rparr>,
         perfPage = \<lparr>perfRows = [], cmCells = \<lparr>tnText = [], fpText = [], fnText = [], tpText = []\<rparr>, perfAlerts = []\<rparr>\<rparr>"
  obtain d1 err where r: "domContentLoaded ?env (Some ''Ana'') ?now ?d0 = (d1, err)" by (cases "domContentLoaded ?env (Some ''Ana'') ?now ?d0")
  have "err = Some StorageError \<and> \<not> uploadHandlers d1"
    using storage_blocked_init [OF _ _ r dash_reachable.init [of "\<lambda>_. True" ?env "\<lambda>_. True" d1]]
    by (simp add: page_loaded_def session_loaded_def)
  with r show ?thesis by simp
qed

theorem init_ok_witness:
  "snd (domContentLoaded
      \<lparr>nNumStr = (\<lambda>_. ''0''), nHistory = LoadFailed, nMetrics = MetricsFailed, nRoc = RocFailed, nStats = StatsFailed,
       nTrend = TrendFailed, nChannel = ChannelFailed, nAmount = AmountFailed\<rparr>
      None \<lparr>dt_year = 2024, dt_month = 1, dt_day = 5, dt_hour = 14, dt_minute = 30\<rparr>
      (page_loaded (Some [(''userFirstName'', ''Ana'')]) ''Uploading...'' \<lparr>currentPage = DatasetAnalysisPage,
         histPage = \<lparr>historyBody = [], liveCharts = [], histAlerts = [], downloads = []\<rparr>,
         perfPage = \<lparr>perfRows = [], cmCells = \<lparr>tnText = [], fpText = [], fnText = [], tpText = []\<rparr>, perfAlerts = []\<rparr>\<rparr>)) = None \<and>
   currentPage (dNav (fst (domContentLoaded
      \<lparr>nNumStr = (\<lambda>_. ''0''), nHistory = LoadFailed, nMetrics = MetricsFailed, nRoc = RocFailed, nStats = StatsFailed,
       nTrend = TrendFailed, nChannel = ChannelFailed, nAmount = AmountFailed\<rparr>
      None \<lparr>dt_year = 2024, dt_month = 1, dt_day = 5, dt_hour = 14, dt_minute = 30\<rparr>
      (page_loaded (Some [(''userFirstName'', ''Ana'')]) ''Uploading...'' \<lparr>currentPage = DatasetAnalysisPage,
         histPage = \<lparr>historyBody = [], liveCharts = [], histAlerts = [], downloads = []\<rparr>,
         perfPage = \<lparr>perfRows = [], cmCells = \<lparr>tnText = [], fpText = [], fnText = [], tpText = []\<rparr>, perfAlerts = []\<rparr>\<rparr>)))) = WelcomePage"
proof -
  let ?env = "\<lparr>nNumStr = (\<lambda>_. ''0''), nHistory = LoadFailed, nMetrics = MetricsFailed, nRoc = RocFailed, nStats = StatsFailed,
       nTrend = TrendFailed, nChannel = ChannelFailed, nAmount = AmountFailed\<rparr>"
  let ?now = "\<lparr>dt_year = 2024, dt_month = 1, dt_day = 5, dt_hour = 14, dt_minute = 30\<rparr>"
  let ?d0 = "page_loaded (Some [(''userFirstName'', ''Ana'')]) ''Uploading...'' \<lparr>currentPage = DatasetAnalysisPage,
         histPage = \<lparr>historyBody = [], liveCharts = [], histAlerts = [], downloads = []\<rparr>,
         perfPage = \<lparr>perfRows = [], cmCells = \<lparr>tnText = [], fpText = [], fnText = [], tpText = []\<rparr>, perfAlerts = []\<rparr>\<rparr>"
  obtain d1 err where r: "domContentLoaded ?env None ?now ?d0 = (d1, err)" by (cases "domContentLoaded ?env None ?now ?d0")
  have "err = None \<and> currentPage (dNav d1) = WelcomePage"
    using init_ok [OF _ r, of "[(''userFirstName'', ''Ana'')]"] by (simp add: page_loaded_def session_loaded_def)
  with r show ?thesis by simp
qed

end
