(* ===== verification/Spec2Isabelle.thy ===== *)
theory Spec2Isabelle
  imports Dashboard
begin

text \<open>
  \<^bold>\<open>A verification library for the dataset analyzer of the fraud-detection dashboard.\<close>

  The repository's one source file, \<open>src/Predictive-Transaction-Intelligence-main/
  Frontend/dashboard/dashboard.js\<close>, is a browser script. Its computational core is the
  dataset analyzer: an uploaded CSV text is parsed into a table (\<open>parseCSV\<close>) and
  \<open>performDatasetAnalysis\<close> runs nine display functions over it (basic statistics, data
  quality, column profiles with type inference, numeric distributions, a Pearson
  correlation matrix, missing values, fraud counts, a transaction summary, the top
  spending categories). The analyses share no state: each reads the table \<open>parseCSV\<close>
  returned. The upload handlers own the one piece of mutable state of the analyzer,
  \<open>currentDataset\<close>, and start a \<open>FileReader\<close> read per accepted file whose \<open>onload\<close>
  callback parses the text and renders the analysis. Around it sit the transaction check
  form that posts a payload to the backend, the history table and its CSV export, the
  model-metrics view, the chart renderers, page navigation, the profile chrome and the
  page's start-up listeners, which register the handlers of the other parts.

  \<^bold>\<open>Theories\<close>, in import order; each has its definitions first (in the order of the code),
  then its lemmas, then the section \<open>Properties\<close> with the claims.
  \<^item> \<open>Prelude\<close>: the JavaScript builtins the code calls, executable: \<open>trim\<close>, \<open>split\<close>,
    \<open>join\<close>, \<open>toLowerCase\<close>/\<open>toUpperCase\<close>, \<open>includes\<close>, \<open>Number\<close>/\<open>isNaN\<close> and
    \<open>parseFloat\<close> (the decimal literal grammar), \<open>Math.round\<close>, \<open>toFixed\<close>, \<open>String\<close> of
    integers, \<open>JSON.stringify\<close> of rows, the JSON values \<open>js_val\<close> of the backend's answers
    with \<open>String\<close>, \<open>Number\<close> and truthiness; the collection \<open>js_simps\<close> that evaluates
    them by \<open>simp\<close>; shared lemmas on lists, \<open>split\<close>/\<open>join\<close> round trips, folds of
    \<open>min\<close>/\<open>max\<close>, means and the Cauchy--Schwarz inequality for finite sums.
  \<^item> \<open>CsvParse\<close>: \<open>parseCSV\<close> (lines 279--294), \<open>Inl TypeError\<close> where the code throws;
    rows are association lists built by the code's \<open>forEach\<close> (\<open>mk_row\<close>), \<open>row[h]\<close> is
    \<open>cell\<close>. Claims C1--C4: when parsing fails, the row-key type invariant, padding and
    truncation of short and long lines, no quote, comma or line feed in a cell.
  \<^item> \<open>Quality\<close>: \<open>displayDataQuality\<close>, \<open>calculateDataConsistency\<close>,
    \<open>calculateDataUniqueness\<close>, \<open>displayColumnAnalysis\<close> with \<open>inferDataType\<close>,
    \<open>displayMissingValues\<close>, \<open>displayBasicStatistics\<close> with \<open>formatFileSize\<close> (lines
    361--433, 512--535, 595--627, 795--801). Claims C5, C6, C14: completeness as the
    share of filled cells in [0, 100], uniqueness always \<open>NaN\<close> (the code reads \<open>length\<close> of a \<open>Set\<close>), the unit
    choice of file sizes; lemmas give the bounds of consistency, the order of the type
    inference, the rounding of file sizes and the specification's second type-inference
    example classified Text.
  \<^item> \<open>Stats\<close>: \<open>calculateMedian\<close>, \<open>displayDataDistribution\<close>, \<open>displayTransactionSummary\<close>
    (436--468, 629--635, 676--719). Claims C7, C8: the median is a median, and every shown
    column has its statistics, with a minimum and a maximum that are values of the column
    and bound it; lemmas give the median between two values of the list and the summary's
    total and average.
  \<^item> \<open>Correlation\<close>: \<open>calculateCorrelation\<close>, \<open>calculateCorrelationMatrix\<close>,
    \<open>displayCorrelationAnalysis\<close> (471--509, 638--673). Claims C9, C10, C38: the matrix
    is symmetric, it pairs the k-th numbers of two columns rather than the values of one
    row, and a column the type inference calls Numeric is left out of
    the panel when its first value is not a number; lemmas give the coefficient in
    [-1, 1] with a non-negative radicand (Cauchy--Schwarz), of exact reals only.
  \<^item> \<open>Categories\<close>: \<open>displayFraudAnalysis\<close> and \<open>displaySpendingCategories\<close> (538--590,
    722--792). Claims C11--C13: the top six shown in descending, stable order; the
    category map's keys, totals and conservation; with a price or cost column and none
    named amount or value, the summary totals it while the cards count rows; lemmas give the scoped percentages and the fraud counts.
  \<^item> \<open>Analysis\<close>: \<open>performDatasetAnalysis\<close> (328--357) as the record of the nine panels.
  \<^item> \<open>Upload\<close>: the handlers (200--276, 297--327) as a step function \<open>upload_step\<close> over
    \<open>upload_state\<close>, event sequences \<open>upload_run\<close>, and the inductive set
    \<open>upload_reachable\<close> of all interleavings of read completions; the contract
    \<open>upload_spec_step\<close> over the current table and the multiset of reads in flight.
    Claims C15--C18, C28, C29: the invariant by rule induction, the race of any two reads
    in flight (the one completing last wins), the
    error path, the file type guard, the refinement of the contract (a simulation through
    \<open>upload_abs\<close>), and that every pending read can complete.
  \<^item> \<open>Transaction\<close>: \<open>formatId\<close> and \<open>checkTransaction\<close> (7--13, 1046--1181) with the
    history row it appends; the browser and the backend are the environment \<open>tx_env\<close>
    (\<open>localStorage\<close>, the random id suffix, the timezone-dependent date printing, the
    answers of the two requests); the calendar follows ECMAScript's \<open>MakeDay\<close> and
    \<open>WeekDay\<close>. Claims C20--C22: the validation guard, the fraud label the history row
    misses, the explanation placeholder that stays; lemmas give the payload fields and the
    failed request.
  \<^item> \<open>Charts\<close>: the registry \<open>charts\<close>, \<open>destroyChartIfExists\<close> and the data of the five
    renderers of the history page (1467--1703). Claim C27: the amount histogram's bins
    count every row with a finite amount once.
  \<^item> \<open>History\<close>: the history table (1188--1254), \<open>clearTransactionHistory\<close> and the CSV
    export (1258--1375), the page's events as \<open>history_step\<close> and \<open>history_reachable\<close>.
    Claims C23--C25: the export read back by \<open>parseCSV\<close> gives the table (a round trip),
    the table invariant over all event sequences, and the column shift of a timestamp with
    a comma.
  \<^item> \<open>Metrics\<close>: \<open>loadModelPerformance\<close>, \<open>updatePerformanceMetrics\<close> and
    \<open>fillConfusionMatrixTable\<close> (1381--1463). Claim C26: the rows the load writes, and a
    missing metric shown as NaN% with a Completed badge.
  \<^item> \<open>Navigation\<close>: \<open>showPage\<close> (957--1023), composing the loads of the history and
    model pages; lemmas: one page shown per name, the \<open>ReferenceError\<close> of the alerts inbox,
    and chart renderers of different keys commute.
  \<^item> \<open>Session\<close>: \<open>loadUserName\<close>, the profile menu and its listeners, every function of
    the logout, profile and settings modals, both Escape and both document click listeners,
    \<open>confirmLogout\<close> and \<open>initializeTransactionForm\<close> (29--198, 806--948, 1028--1043),
    with \<open>localStorage\<close> as an association list that may refuse access; the user's clicks
    and keys as \<open>session_event\<close>, \<open>session_step\<close> (the handler, then the document
    listeners the click bubbles to) and \<open>session_reachable\<close>. Claims C30, C34: the date the
    form is filled with is the date the check reads (a round trip of the \<open>padStart\<close>
    formatting through the form's date parser); under any sequence of events the page
    leaves only through \<open>confirmLogout\<close>, with the five user items removed and the other
    items kept (rule induction over \<open>session_reachable\<close>).
  \<^item> \<open>Progress\<close>: \<open>showUploadProgress\<close> with its \<open>setInterval\<close> timer,
    \<open>hideUploadProgress\<close>, \<open>showAnalysisResults\<close> (296--326); every call's counter is a
    timer of the state, ticks of several timers interleave (\<open>progress_reachable\<close>), and
    the loop of one timer is \<open>run_timer\<close>, a \<open>partial_function (option)\<close> over the
    sequence of \<open>Math.random\<close> draws. Claims C31--C33, C37: the timer stops within
    \<open>ceil(100 / (15 eps))\<close> ticks when every draw is at least \<open>eps > 0\<close> (termination, by
    induction on that measure; with draws of 0 it never stops, a lemma by the fixpoint
    induction of \<open>run_timer\<close>), the bar and the counters stay in [0, 100], and a new
    upload finds the text of the previous one; from every reachable state all running
    timers can be stopped by ticks with such draws (liveness, by induction on the number of
    running timers, each one's loop replayed as a run of its ticks).
  \<^item> \<open>Dashboard\<close>: the whole page. Its state puts the components side by side; the three
    \<open>DOMContentLoaded\<close> listeners (45--77, 80--97, 157--174) register the handlers, and
    \<open>dashboard_step\<close> routes an event to a component only once its listener is
    registered; \<open>processCSVFile\<close> drives the progress box (\<open>progress_of_upload\<close>); the
    anchor links with \<open>querySelector\<close>, the touch listeners and \<open>handleSwipe\<close>,
    \<open>showLoading\<close>/\<open>hideLoading\<close> (100--154). Claims C35, C36: a storage that throws aborts the
    initialisation so that no file is ever read; a normal load registers every handler,
    shows the welcome page and fills the form's date.
  \<^item> This theory: C19, the consistency of the panels of one analysis.

  \<^bold>\<open>Modelling choices.\<close> JavaScript numbers are exact reals and \<open>NaN\<close> is
  \<open>None\<close>. The claims are chosen to carry over to the floating-point code: they are
  about parsing, counting, comparisons, the choice of branches and the order of events;
  the numbers they compute are quotients of integer counts (completeness, the histogram's
  bins) or elements of the input (the median of an odd list, the minimum and maximum),
  which floating point computes up to the rounding of the last digit. Facts that hold only
  of exact reals are lemmas, not claims: the correlation coefficient in [-1, 1] (floating
  point can give \<open>NaN\<close> or a value slightly above 1) and an average between the least and
  the greatest value (three copies of 0.1 average to a value above 0.1). Strings are
  lists of 8-bit characters standing for the ASCII code units the analyzer reads; the
  white space \<open>trim\<close> removes is the ASCII set. The input spelling \<open>Infinity\<close> is
  outside the number domain. JavaScript objects and \<open>Map\<close>s are association lists in
  insertion order (the engine's ordering of integer-like keys first changes no computed
  value here). \<open>Date.parse\<close>, whose accepted formats are implementation-defined, is a
  parameter \<open>date_ok\<close>. \<open>Array.prototype.sort\<close> with a consistent comparator is the stable
  \<^const>\<open>sort_key\<close>. Every loop of the analyzer is a \<open>map\<close>, \<open>filter\<close>, \<open>reduce\<close>
  or \<open>forEach\<close> over a finite array, modelled by structural recursion, so no fuel is
  needed; the one non-structural recursion, \<open>size_exponent\<close>, divides by 1024. The one
  loop that may not end is the progress timer, whose end depends on the random draws: it
  is a \<open>partial_function (option)\<close>, and its termination is a theorem under a lower
  bound on the draws.
  Nondeterminism is in the browser's order of \<open>onload\<close> events, covered by
  \<open>upload_reachable\<close>, and in the completion order of the loads a page starts, which
  \<open>showPage\<close> applies in call order (renderers of different charts commute), in the
  interleaving of the progress timers' ticks with each other and with the upload events
  (\<open>progress_reachable\<close>, \<open>dash_reachable\<close>), and in the order of the user's events
  (\<open>session_reachable\<close>). A handler that throws leaves the state it had reached, and the
  page goes on. The page before the script runs is \<open>page_loaded\<close>. The history page starts from an empty body or the placeholder row of its markup; the number
  of rows of the performance table is that of the markup, a parameter.

  \<^bold>\<open>Not modelled\<close>: DOM styling, HTML markup and the drawing by Chart.js (they only
  display the values the model computes); \<open>toLocaleString\<close> formatting and the printing of
  non-integral numbers by \<open>String\<close>, which are parameters; the backend (an external
  service), whose answers are parameters; console logging (except the swipe handler's log
  line, its only effect), the smooth scrolling itself (the model records the target) and
  the 100 ms period of the timer (only the order of ticks matters). Of the
  \<open>FileReader\<close> only the successful \<open>onload\<close> is an event: a failed read fires
  \<open>onerror\<close>, which the code does not handle. The \<open>try\<close> of the \<open>onload\<close> callback is
  modelled as catching the one exception \<open>parseCSV\<close> raises; the analysis functions are
  total in the model, while in the browser \<open>Math.min(...values)\<close> exceeds the engine's
  argument limit for very long columns and a header named \<open>__proto__\<close> makes
  \<open>displayDataQuality\<close> throw (rows here are association lists, where it is an ordinary
  key). Local dates are the fields the user entered: the daylight-saving gap, in which
  \<open>new Date\<close> moves a non-existent local time forward, is outside the model. These
  cases are findings of the manifest.
\<close>

lemma totalTransactions_rows: "totalTransactions (displayTransactionSummary ds) = length (data ds)"
  by (simp add: displayTransactionSummary_def Let_def split: list.splits)

lemma length_missing_values: "length (data ds) - length (column_values ds h) = missingCount ds h"
  using length_column_values [of ds h] by simp

text \<open>C19: the panels of one analysis agree: the basic statistics and the transaction summary
  count the same rows, the quality panel's empty cells are the sum of the missing-values
  panel, the column profiles list every header with missing and non-blank counts that add
  up to the rows, and the distribution panel shows at most four columns of the table.\<close>

theorem panels_consistent:
  "let A = performDatasetAnalysis date_ok ds in
   totalRows (basicStats A) = length (data ds) \<and>
   totalTransactions (transactionSummary A) = length (data ds) \<and>
   q_emptyCells (dataQuality A) = (\<Sum>(h, c, p)\<leftarrow>missingValues A. c) \<and>
   map ci_header (columnAnalysis A) = headers ds \<and>
   (\<forall>ci\<in>set (columnAnalysis A). ci_missing ci = missingCount ds (ci_header ci) \<and>
                                   ci_totalValues ci + ci_missing ci = length (data ds)) \<and>
   length (dataDistribution A) \<le> 4 \<and> set (map fst (dataDistribution A)) \<subseteq> set (headers ds)"
proof -
  have "q_emptyCells (displayDataQuality ds) = (\<Sum>(h, c, p)\<leftarrow>displayMissingValues ds. c)"
    by (simp add: displayDataQuality_def displayMissingValues_def emptyCells_missingCount
                  sum_list_filter_positive)
  moreover have "set (map fst (displayDataDistribution ds)) \<subseteq> set (headers ds)"
    using set_take_subset [of 4 "numericColumns ds"]
    by (auto simp: displayDataDistribution_def numericColumns_def)
  ultimately show ?thesis
    using length_column_values
    by (auto simp: performDatasetAnalysis_def displayBasicStatistics_def totalTransactions_rows
                   displayColumnAnalysis_def length_missing_values displayDataDistribution_def
                   Let_def comp_def)
qed

theorem panels_consistent_witness:
  "q_emptyCells (dataQuality (performDatasetAnalysis (\<lambda>_. False) (projr (parseCSV ''a,b\<newline>1,\<newline>,2'')))) = 2 \<and>
   (\<Sum>(h, c, p)\<leftarrow>missingValues (performDatasetAnalysis (\<lambda>_. False) (projr (parseCSV ''a,b\<newline>1,\<newline>,2''))). c) = 2 \<and>
   columnAnalysis (performDatasetAnalysis (\<lambda>_. False) (projr (parseCSV ''a,b\<newline>1,\<newline>,2''))) \<noteq> []"
proof -
  have ds: "projr (parseCSV ''a,b\<newline>1,\<newline>,2'') =
            \<lparr>headers = [''a'', ''b''], data = [[(''a'', ''1''), (''b'', [])], [(''a'', []), (''b'', ''2'')]],
             rawText = ''a,b\<newline>1,\<newline>,2''\<rparr>"
    by (simp add: parseCSV_def nonblank_lines_def split_fields_def mk_row_def field_at_def Let_def js_simps)
  have e: "q_emptyCells (dataQuality (performDatasetAnalysis (\<lambda>_. False) (projr (parseCSV ''a,b\<newline>1,\<newline>,2'')))) = 2"
    unfolding ds
    by (simp add: performDatasetAnalysis_def displayDataQuality_def emptyCells_sum is_missing_def cell_def js_simps)
  have c: "columnAnalysis (performDatasetAnalysis (\<lambda>_. False) (projr (parseCSV ''a,b\<newline>1,\<newline>,2''))) \<noteq> []"
    unfolding ds by (simp add: performDatasetAnalysis_def displayColumnAnalysis_def)
  show ?thesis
    using panels_consistent [of "\<lambda>_. False" "projr (parseCSV ''a,b\<newline>1,\<newline>,2'')"] e c
    by (simp add: Let_def)
qed

end
